theory Spec2Isabelle
  imports Complex_Main "HOL-Library.Word"
begin

section \<open>The coefficient buffer controller for decompression (jdcoefct.c)\<close>

text \<open>
  The controller sits between entropy decoding and the inverse DCT. This theory embeds
  its portable code path: the block guarded by \<^verbatim>\<open>WITH_OPENCL_DECODING_SUPPORTED\<close> is an
  alternate execution strategy and is not part of the embedding, and
  \<^verbatim>\<open>D_MULTISCAN_FILES_SUPPORTED\<close> and \<^verbatim>\<open>BLOCK_SMOOTHING_SUPPORTED\<close> are taken as defined.

  The C types come from headers that are not among the sources (jmorecfg.h, jpeglib.h):
  \<^verbatim>\<open>JDIMENSION\<close> is an unsigned 32-bit integer and is a \<open>32 word\<close>, so that
  \<^verbatim>\<open>cinfo->MCUs_per_row - 1\<close> wraps at zero as in C; \<^verbatim>\<open>JCOEF\<close> is a signed 16-bit
  integer and is a \<open>16 word\<close> read with \<open>sint\<close>; \<^verbatim>\<open>UINT16\<close> is a \<open>16 word\<close> read with
  \<open>uint\<close>. Values of type \<^verbatim>\<open>int\<close> and \<^verbatim>\<open>INT32\<close> are mathematical integers: C leaves
  signed overflow undefined, so the embedding describes the executions in which the
  signed arithmetic stays in range.
\<close>

subsection \<open>Data model\<close>

type_synonym JDIMENSION = "32 word"
type_synonym JCOEF = "16 word"
type_synonym UINT16 = "16 word"

text \<open>A \<^verbatim>\<open>JBLOCK\<close> is an array of \<^verbatim>\<open>DCTSIZE2\<close> coefficients in natural order.\<close>

type_synonym JBLOCK = "JCOEF list"

definition DCTSIZE2 :: nat where
  "DCTSIZE2 = 64"

definition D_MAX_BLOCKS_IN_MCU :: nat where
  "D_MAX_BLOCKS_IN_MCU = 10"

definition SAVED_COEFS :: int where
  "SAVED_COEFS = 6"

definition JBLOCK_zero :: JBLOCK where
  "JBLOCK_zero = replicate DCTSIZE2 0"

text \<open>Natural-order array positions of the first 5 zigzag-order coefficients.\<close>

definition Q01_POS :: nat where "Q01_POS = 1"
definition Q10_POS :: nat where "Q10_POS = 8"
definition Q20_POS :: nat where "Q20_POS = 16"
definition Q11_POS :: nat where "Q11_POS = 9"
definition Q02_POS :: nat where "Q02_POS = 2"

record JQUANT_TBL =
  quantval :: "UINT16 list"

record jpeg_component_info =
  component_index :: int
  h_samp_factor :: int
  v_samp_factor :: int
  width_in_blocks :: JDIMENSION
  height_in_blocks :: JDIMENSION
  DCT_scaled_size :: int
  component_needed :: bool
  MCU_width :: int
  MCU_height :: int
  MCU_blocks :: int
  MCU_sample_width :: int
  last_col_width :: int
  last_row_height :: int
  quant_table :: "JQUANT_TBL option"

text \<open>
  Modelled from the spec: the memory manager's virtual block arrays are not among the
  sources. The spec describes them as logically infinite 2-D block arrays, newly
  created arrays being zero-filled and rows outside the resident window being paged in
  transparently. A virtual array is therefore a total grid of blocks addressed by block
  row and block column, and \<^verbatim>\<open>access_virt_barray\<close> with a start row gives the rows from
  that row on.
\<close>

type_synonym jvirt_barray = "int \<Rightarrow> int \<Rightarrow> JBLOCK"

definition zero_barray :: jvirt_barray where
  "zero_barray = (\<lambda>row col. JBLOCK_zero)"

text \<open>
  The method pointers of \<^verbatim>\<open>struct jpeg_d_coef_controller\<close> range over the functions of
  this file, so each is a datatype of their names.
\<close>

datatype consume_method = Dummy_consume_data | Consume_data

datatype decompress_method = Decompress_onepass | Decompress_data | Decompress_smooth_data

text \<open>
  \<open>coef_arrays\<close> is either \<^verbatim>\<open>NULL\<close> (\<open>False\<close>) or the address of \<open>whole_image\<close>
  (\<open>True\<close>).
\<close>

record jpeg_d_coef_controller =
  consume_data_method :: consume_method
  decompress_data_method :: decompress_method
  coef_arrays :: bool

text \<open>
  The private controller object. \<open>MCU_buffer\<close> holds the contents of the single-MCU
  block pool of the single-pass mode; in the multi-pass mode the C array holds
  pointers into the virtual arrays, which \<open>consume_data\<close> below rebuilds for every MCU.
  \<open>coef_bits_latch\<close> is \<open>None\<close> for \<^verbatim>\<open>NULL\<close>.
\<close>

record my_coef_controller =
  pub :: jpeg_d_coef_controller
  MCU_ctr :: JDIMENSION
  MCU_vert_offset :: int
  MCU_rows_per_iMCU_row :: int
  MCU_buffer :: "JBLOCK list"
  workspace :: JBLOCK
  whole_image :: "int \<Rightarrow> jvirt_barray"
  coef_bits_latch :: "int list option"

text \<open>
  The fields of \<^verbatim>\<open>struct jpeg_decompress_struct\<close> that the controller reads or writes.
  \<open>comp_info\<close> is the array of \<open>num_components\<close> component descriptions;
  \<open>cur_comp_info\<close> holds the components of the current scan (the C array holds
  pointers into \<open>comp_info\<close>; the descriptions are not written by this file).
  \<open>coef_bits\<close> is \<open>None\<close> for \<^verbatim>\<open>NULL\<close>, otherwise one array of \<^verbatim>\<open>DCTSIZE2\<close> entries per
  component. \<open>eoi_reached\<close> is \<^verbatim>\<open>cinfo->inputctl->eoi_reached\<close>.
\<close>

record jpeg_decompress_struct =
  num_components :: int
  comp_info :: "jpeg_component_info list"
  comps_in_scan :: int
  cur_comp_info :: "jpeg_component_info list"
  MCUs_per_row :: JDIMENSION
  blocks_in_MCU :: int
  total_iMCU_rows :: JDIMENSION
  input_scan_number :: int
  input_iMCU_row :: JDIMENSION
  output_scan_number :: int
  output_iMCU_row :: JDIMENSION
  progressive_mode :: bool
  do_block_smoothing :: bool
  coef_bits :: "int list list option"
  Ss :: int
  eoi_reached :: bool
  coef :: my_coef_controller

text \<open>The return codes of the entry points and of \<^verbatim>\<open>consume_input\<close> (jpeglib.h).\<close>

datatype jpeg_status =
  JPEG_SUSPENDED | JPEG_REACHED_SOS | JPEG_REACHED_EOI | JPEG_ROW_COMPLETED | JPEG_SCAN_COMPLETED

text \<open>
  One invocation of an inverse-DCT method, with its arguments: the index into
  \<^verbatim>\<open>cinfo->idct->inverse_DCT[]\<close>, the component, the coefficient block, the plane of
  \<^verbatim>\<open>output_buf\<close>, the sample row of \<^verbatim>\<open>output_ptr\<close> within that plane, and
  \<^verbatim>\<open>output_col\<close>. The inverse DCT is an external collaborator whose only effect is
  to write the sample block at that place, so the output of a call of the controller is
  the list of these invocations in the order they are made.
\<close>

record idct_call =
  idct_method :: int
  idct_compptr :: jpeg_component_info
  idct_coef_block :: JBLOCK
  idct_plane :: int
  idct_output_row :: int
  idct_output_col :: JDIMENSION

subsection \<open>Row sequencer\<close>

text \<open>Reset within-iMCU-row counters for a new row (input side).\<close>

definition start_iMCU_row :: "jpeg_decompress_struct \<Rightarrow> jpeg_decompress_struct" where
  "start_iMCU_row cinfo =
     cinfo\<lparr>coef := (coef cinfo)\<lparr>
       MCU_ctr := 0,
       MCU_vert_offset := 0,
       MCU_rows_per_iMCU_row :=
         (if comps_in_scan cinfo > 1 then 1
          else if input_iMCU_row cinfo < total_iMCU_rows cinfo - 1
               then v_samp_factor (cur_comp_info cinfo ! 0)
               else last_row_height (cur_comp_info cinfo ! 0))\<rparr>\<rparr>"

definition start_input_pass :: "jpeg_decompress_struct \<Rightarrow> jpeg_decompress_struct" where
  "start_input_pass cinfo = start_iMCU_row (cinfo\<lparr>input_iMCU_row := 0\<rparr>)"

text \<open>
  Modelled from the spec: \<open>last_row_height\<close> is filled in by the per-scan setup of the
  input controller, which is not among the sources. For a single-component scan the
  spec gives the final row-group \<open>height_in_blocks mod v_samp_factor\<close> block rows, or
  the factor itself if that remainder is 0.
\<close>

definition noninterleaved_last_row_height :: "jpeg_component_info \<Rightarrow> int" where
  "noninterleaved_last_row_height compptr =
     (let tmp = uint (height_in_blocks compptr mod word_of_int (v_samp_factor compptr))
      in if tmp = 0 then v_samp_factor compptr else tmp)"

text \<open>
  Count of non-dummy DCT block rows of a component in the output iMCU row, as
  \<open>decompress_data\<close> and \<open>decompress_smooth_data\<close> compute it.
\<close>

definition output_block_rows :: "jpeg_decompress_struct \<Rightarrow> jpeg_component_info \<Rightarrow> int" where
  "output_block_rows cinfo compptr =
     (if output_iMCU_row cinfo < total_iMCU_rows cinfo - 1 then v_samp_factor compptr
      else (let block_rows = uint (height_in_blocks compptr mod word_of_int (v_samp_factor compptr))
            in if block_rows = 0 then v_samp_factor compptr else block_rows))"

subsection \<open>External collaborators\<close>

text \<open>
  The entropy decoder, the input controller and the inverse DCT are reached through
  method pointers and are parameters of the embedding. \<open>'w\<close> is the state of the
  world outside the controller (the entropy decoder and its data source, the input
  controller).

  Modelled from the spec: \<^verbatim>\<open>decode_mcu\<close> is not among the sources. By the spec it
  returns false when it ran out of input and must then be retried, and on success it
  has filled all blocks of the MCU. It is a function of the outside state and of the
  \<open>blocks_in_MCU\<close> blocks that \<open>MCU_buffer\<close> addresses, returning the success flag, the
  new outside state and the new contents of those blocks.
\<close>

type_synonym 'w decode_mcu_method = "'w \<Rightarrow> JBLOCK list \<Rightarrow> bool \<times> 'w \<times> JBLOCK list"

type_synonym 'w finish_input_pass_method = "'w \<Rightarrow> 'w"

type_synonym 'w consume_input_method =
  "'w \<Rightarrow> jpeg_decompress_struct \<Rightarrow> jpeg_status \<times> 'w \<times> jpeg_decompress_struct"

text \<open>How a loop of an entry point was left: by \<^verbatim>\<open>return JPEG_SUSPENDED\<close> or by its test.\<close>

datatype 'a loop_exit = Suspended 'a | Completed 'a

subsection \<open>Single-pass decode path\<close>

text \<open>\<^verbatim>\<open>jzero_far\<close> over the first \<open>n\<close> blocks of the block pool.\<close>

definition jzero_far :: "nat \<Rightarrow> JBLOCK list \<Rightarrow> JBLOCK list" where
  "jzero_far n blocks = replicate (min n (length blocks)) JBLOCK_zero @ drop n blocks"

text \<open>The blocks the entropy decoder returned, stored back at the head of the pool.\<close>

definition store_MCU_blocks :: "JBLOCK list \<Rightarrow> JBLOCK list \<Rightarrow> JBLOCK list" where
  "store_MCU_blocks blocks pool = blocks @ drop (length blocks) pool"

function onepass_xindex_loop ::
  "jpeg_component_info \<Rightarrow> JBLOCK list \<Rightarrow> int \<Rightarrow> int \<Rightarrow> int \<Rightarrow> int \<Rightarrow> JDIMENSION \<Rightarrow> idct_call list"
where
  "onepass_xindex_loop compptr buffer blkn output_ptr useful_width xindex output_col =
     (if xindex < useful_width then
        \<lparr>idct_method = component_index compptr, idct_compptr = compptr,
         idct_coef_block = buffer ! nat (blkn + xindex),
         idct_plane = component_index compptr,
         idct_output_row = output_ptr, idct_output_col = output_col\<rparr>
        # onepass_xindex_loop compptr buffer blkn output_ptr useful_width (xindex + 1)
            (output_col + word_of_int (DCT_scaled_size compptr))
      else [])"
  by pat_completeness auto
termination
  by (relation "measure (\<lambda>(compptr, buffer, blkn, output_ptr, useful_width, xindex, output_col).
        nat (useful_width - xindex))") auto

function onepass_yindex_loop ::
  "jpeg_decompress_struct \<Rightarrow> jpeg_component_info \<Rightarrow> JBLOCK list \<Rightarrow> int \<Rightarrow> int \<Rightarrow> JDIMENSION
     \<Rightarrow> int \<Rightarrow> int \<Rightarrow> int \<Rightarrow> int \<times> idct_call list"
where
  "onepass_yindex_loop cinfo compptr buffer yoffset useful_width start_col yindex blkn output_ptr =
     (if yindex < MCU_height compptr then
        (let calls =
               (if input_iMCU_row cinfo < total_iMCU_rows cinfo - 1 \<or>
                   yoffset + yindex < last_row_height compptr
                then onepass_xindex_loop compptr buffer blkn output_ptr useful_width 0 start_col
                else []);
             rest = onepass_yindex_loop cinfo compptr buffer yoffset useful_width start_col
                      (yindex + 1) (blkn + MCU_width compptr)
                      (output_ptr + DCT_scaled_size compptr)
         in (fst rest, calls @ snd rest))
      else (blkn, []))"
  by pat_completeness auto
termination
  by (relation "measure (\<lambda>(cinfo, compptr, buffer, yoffset, useful_width, start_col, yindex,
        blkn, output_ptr). nat (MCU_height compptr - yindex))") auto

text \<open>
  The loop over the components of the scan for one MCU: \<open>blkn\<close> is the index of the
  current DCT block within the MCU, and is advanced past the blocks of a component
  that is not needed.
\<close>

function onepass_ci_loop ::
  "jpeg_decompress_struct \<Rightarrow> JBLOCK list \<Rightarrow> JDIMENSION \<Rightarrow> int \<Rightarrow> int \<Rightarrow> int \<Rightarrow> idct_call list"
where
  "onepass_ci_loop cinfo buffer MCU_col_num yoffset ci blkn =
     (if ci < comps_in_scan cinfo then
        (let compptr = cur_comp_info cinfo ! nat ci in
         if \<not> component_needed compptr
         then onepass_ci_loop cinfo buffer MCU_col_num yoffset (ci + 1) (blkn + MCU_blocks compptr)
         else
           (let useful_width =
                  (if MCU_col_num < MCUs_per_row cinfo - 1 then MCU_width compptr
                   else last_col_width compptr);
                output_ptr = yoffset * DCT_scaled_size compptr;
                start_col = MCU_col_num * word_of_int (MCU_sample_width compptr);
                rows = onepass_yindex_loop cinfo compptr buffer yoffset useful_width start_col
                         0 blkn output_ptr
            in snd rows @ onepass_ci_loop cinfo buffer MCU_col_num yoffset (ci + 1) (fst rows)))
      else [])"
  by pat_completeness auto
termination
  by (relation "measure (\<lambda>(cinfo, buffer, MCU_col_num, yoffset, ci, blkn).
        nat (comps_in_scan cinfo - ci))") auto

declare onepass_xindex_loop.simps [simp del]
declare onepass_yindex_loop.simps [simp del]
declare onepass_ci_loop.simps [simp del]

text \<open>
  The loop over the MCU columns of one MCU row. The counter is a \<^verbatim>\<open>JDIMENSION\<close> and
  the test is \<^verbatim>\<open>MCU_col_num <= last_MCU_col\<close>, so the loop need not end; the result is
  \<open>None\<close> when it does not.
\<close>

partial_function (option) onepass_MCU_col_loop ::
  "'w decode_mcu_method \<Rightarrow> int \<Rightarrow> JDIMENSION \<Rightarrow> 'w \<times> jpeg_decompress_struct \<times> idct_call list
     \<Rightarrow> ('w \<times> jpeg_decompress_struct \<times> idct_call list) loop_exit option"
where
  "onepass_MCU_col_loop decode_mcu yoffset MCU_col_num st =
     (let (w, cinfo, calls) = st in
      if MCU_col_num \<le> MCUs_per_row cinfo - 1 then
        (let zeroed = jzero_far (nat (blocks_in_MCU cinfo)) (MCU_buffer (coef cinfo));
             (ok, w', blocks) = decode_mcu w (take (nat (blocks_in_MCU cinfo)) zeroed);
             cinfo' = cinfo\<lparr>coef := (coef cinfo)\<lparr>MCU_buffer := store_MCU_blocks blocks zeroed\<rparr>\<rparr>
         in if \<not> ok then
              Some (Suspended (w',
                cinfo'\<lparr>coef := (coef cinfo')\<lparr>MCU_vert_offset := yoffset,
                                                 MCU_ctr := MCU_col_num\<rparr>\<rparr>, calls))
            else
              onepass_MCU_col_loop decode_mcu yoffset (MCU_col_num + 1)
                (w', cinfo',
                 calls @ onepass_ci_loop cinfo' (MCU_buffer (coef cinfo')) MCU_col_num yoffset 0 0))
      else Some (Completed st))"

text \<open>The loop over the MCU rows of the iMCU row.\<close>

partial_function (option) onepass_yoffset_loop ::
  "'w decode_mcu_method \<Rightarrow> int \<Rightarrow> 'w \<times> jpeg_decompress_struct \<times> idct_call list
     \<Rightarrow> ('w \<times> jpeg_decompress_struct \<times> idct_call list) loop_exit option"
where
  "onepass_yoffset_loop decode_mcu yoffset st =
     (let (w, cinfo, calls) = st in
      if yoffset < MCU_rows_per_iMCU_row (coef cinfo) then
        (case onepass_MCU_col_loop decode_mcu yoffset (MCU_ctr (coef cinfo)) st of
           None \<Rightarrow> None
         | Some (Suspended st') \<Rightarrow> Some (Suspended st')
         | Some (Completed (w', cinfo', calls')) \<Rightarrow>
             onepass_yoffset_loop decode_mcu (yoffset + 1)
               (w', cinfo'\<lparr>coef := (coef cinfo')\<lparr>MCU_ctr := 0\<rparr>\<rparr>, calls'))
      else Some (Completed st))"

text \<open>
  Decompress and return some data in the single-pass case. The result is the return
  code, the outside state, the decoder state and the inverse-DCT invocations made.
\<close>

definition decompress_onepass ::
  "'w decode_mcu_method \<Rightarrow> 'w finish_input_pass_method \<Rightarrow> 'w \<Rightarrow> jpeg_decompress_struct
     \<Rightarrow> (jpeg_status \<times> 'w \<times> jpeg_decompress_struct \<times> idct_call list) option"
where
  "decompress_onepass decode_mcu finish_input_pass w cinfo =
     (case onepass_yoffset_loop decode_mcu (MCU_vert_offset (coef cinfo)) (w, cinfo, []) of
        None \<Rightarrow> None
      | Some (Suspended (w', cinfo', calls)) \<Rightarrow> Some (JPEG_SUSPENDED, w', cinfo', calls)
      | Some (Completed (w', cinfo', calls)) \<Rightarrow>
          (let cinfo1 = cinfo'\<lparr>output_iMCU_row := output_iMCU_row cinfo' + 1\<rparr>;
               cinfo2 = cinfo1\<lparr>input_iMCU_row := input_iMCU_row cinfo1 + 1\<rparr>
           in if input_iMCU_row cinfo2 < total_iMCU_rows cinfo2
              then Some (JPEG_ROW_COMPLETED, w', start_iMCU_row cinfo2, calls)
              else Some (JPEG_SCAN_COMPLETED, finish_input_pass w', cinfo2, calls)))"

text \<open>Dummy consume-input routine for single-pass operation.\<close>

definition dummy_consume_data ::
  "'w \<Rightarrow> jpeg_decompress_struct \<Rightarrow> jpeg_status \<times> 'w \<times> jpeg_decompress_struct"
where
  "dummy_consume_data w cinfo = (JPEG_SUSPENDED, w, cinfo)"

subsection \<open>Multi-pass input consumer\<close>

text \<open>
  The address of a block of the coefficient store: the index into \<open>whole_image\<close>, the
  block row and the block column.
\<close>

type_synonym block_addr = "int \<times> int \<times> int"

definition read_block :: "jpeg_decompress_struct \<Rightarrow> block_addr \<Rightarrow> JBLOCK" where
  "read_block cinfo a = (case a of (ci, row, col) \<Rightarrow> whole_image (coef cinfo) ci row col)"

definition write_block :: "block_addr \<times> JBLOCK \<Rightarrow> (int \<Rightarrow> jvirt_barray) \<Rightarrow> (int \<Rightarrow> jvirt_barray)" where
  "write_block ab arrays =
     (case ab of ((ci, row, col), b) \<Rightarrow>
        arrays(ci := (arrays ci)(row := (arrays ci row)(col := b))))"

text \<open>
  The start row of the window that \<^verbatim>\<open>access_virt_barray\<close> is asked for in
  \<open>consume_data\<close> and \<open>decompress_data\<close>: a product of \<^verbatim>\<open>JDIMENSION\<close> values.
\<close>

definition iMCU_start_row :: "JDIMENSION \<Rightarrow> jpeg_component_info \<Rightarrow> int" where
  "iMCU_start_row iMCU_row compptr = uint (iMCU_row * word_of_int (v_samp_factor compptr))"

function consume_xindex_loop :: "jpeg_component_info \<Rightarrow> int \<Rightarrow> int \<Rightarrow> int \<Rightarrow> block_addr list" where
  "consume_xindex_loop compptr row buffer_ptr xindex =
     (if xindex < MCU_width compptr
      then (component_index compptr, row, buffer_ptr)
           # consume_xindex_loop compptr row (buffer_ptr + 1) (xindex + 1)
      else [])"
  by pat_completeness auto
termination
  by (relation "measure (\<lambda>(compptr, row, buffer_ptr, xindex). nat (MCU_width compptr - xindex))")
    auto

function consume_yindex_loop ::
  "jpeg_decompress_struct \<Rightarrow> jpeg_component_info \<Rightarrow> int \<Rightarrow> JDIMENSION \<Rightarrow> int \<Rightarrow> block_addr list"
where
  "consume_yindex_loop cinfo compptr yoffset start_col yindex =
     (if yindex < MCU_height compptr
      then consume_xindex_loop compptr
             (iMCU_start_row (input_iMCU_row cinfo) compptr + (yindex + yoffset))
             (uint start_col) 0
           @ consume_yindex_loop cinfo compptr yoffset start_col (yindex + 1)
      else [])"
  by pat_completeness auto
termination
  by (relation "measure (\<lambda>(cinfo, compptr, yoffset, start_col, yindex).
        nat (MCU_height compptr - yindex))") auto

text \<open>
  Construct the list of pointers to the DCT blocks belonging to one MCU: the entries
  \<open>MCU_buffer[0]\<close>, \<open>MCU_buffer[1]\<close>, ... in the order \<open>blkn\<close> counts them.
\<close>

function consume_ci_loop ::
  "jpeg_decompress_struct \<Rightarrow> JDIMENSION \<Rightarrow> int \<Rightarrow> int \<Rightarrow> block_addr list"
where
  "consume_ci_loop cinfo MCU_col_num yoffset ci =
     (if ci < comps_in_scan cinfo then
        (let compptr = cur_comp_info cinfo ! nat ci;
             start_col = MCU_col_num * word_of_int (MCU_width compptr)
         in consume_yindex_loop cinfo compptr yoffset start_col 0
            @ consume_ci_loop cinfo MCU_col_num yoffset (ci + 1))
      else [])"
  by pat_completeness auto
termination
  by (relation "measure (\<lambda>(cinfo, MCU_col_num, yoffset, ci). nat (comps_in_scan cinfo - ci))")
    auto

declare consume_xindex_loop.simps [simp del]
declare consume_yindex_loop.simps [simp del]
declare consume_ci_loop.simps [simp del]

text \<open>
  The entropy decoder writes through the pointers of the MCU, straight into the store.
\<close>

partial_function (option) consume_MCU_col_loop ::
  "'w decode_mcu_method \<Rightarrow> int \<Rightarrow> JDIMENSION \<Rightarrow> 'w \<times> jpeg_decompress_struct
     \<Rightarrow> ('w \<times> jpeg_decompress_struct) loop_exit option"
where
  "consume_MCU_col_loop decode_mcu yoffset MCU_col_num st =
     (let (w, cinfo) = st in
      if MCU_col_num < MCUs_per_row cinfo then
        (let ptrs = take (nat (blocks_in_MCU cinfo)) (consume_ci_loop cinfo MCU_col_num yoffset 0);
             (ok, w', blocks) = decode_mcu w (map (read_block cinfo) ptrs);
             cinfo' = cinfo\<lparr>coef := (coef cinfo)\<lparr>whole_image :=
                        fold write_block (zip ptrs blocks) (whole_image (coef cinfo))\<rparr>\<rparr>
         in if \<not> ok then
              Some (Suspended (w',
                cinfo'\<lparr>coef := (coef cinfo')\<lparr>MCU_vert_offset := yoffset,
                                                 MCU_ctr := MCU_col_num\<rparr>\<rparr>))
            else consume_MCU_col_loop decode_mcu yoffset (MCU_col_num + 1) (w', cinfo'))
      else Some (Completed st))"

partial_function (option) consume_yoffset_loop ::
  "'w decode_mcu_method \<Rightarrow> int \<Rightarrow> 'w \<times> jpeg_decompress_struct
     \<Rightarrow> ('w \<times> jpeg_decompress_struct) loop_exit option"
where
  "consume_yoffset_loop decode_mcu yoffset st =
     (let (w, cinfo) = st in
      if yoffset < MCU_rows_per_iMCU_row (coef cinfo) then
        (case consume_MCU_col_loop decode_mcu yoffset (MCU_ctr (coef cinfo)) st of
           None \<Rightarrow> None
         | Some (Suspended st') \<Rightarrow> Some (Suspended st')
         | Some (Completed (w', cinfo')) \<Rightarrow>
             consume_yoffset_loop decode_mcu (yoffset + 1)
               (w', cinfo'\<lparr>coef := (coef cinfo')\<lparr>MCU_ctr := 0\<rparr>\<rparr>))
      else Some (Completed st))"

text \<open>Consume input data and store it in the full-image coefficient buffer.\<close>

definition consume_data ::
  "'w decode_mcu_method \<Rightarrow> 'w finish_input_pass_method \<Rightarrow> 'w \<Rightarrow> jpeg_decompress_struct
     \<Rightarrow> (jpeg_status \<times> 'w \<times> jpeg_decompress_struct) option"
where
  "consume_data decode_mcu finish_input_pass w cinfo =
     (case consume_yoffset_loop decode_mcu (MCU_vert_offset (coef cinfo)) (w, cinfo) of
        None \<Rightarrow> None
      | Some (Suspended (w', cinfo')) \<Rightarrow> Some (JPEG_SUSPENDED, w', cinfo')
      | Some (Completed (w', cinfo')) \<Rightarrow>
          (let cinfo1 = cinfo'\<lparr>input_iMCU_row := input_iMCU_row cinfo' + 1\<rparr>
           in if input_iMCU_row cinfo1 < total_iMCU_rows cinfo1
              then Some (JPEG_ROW_COMPLETED, w', start_iMCU_row cinfo1)
              else Some (JPEG_SCAN_COMPLETED, finish_input_pass w', cinfo1)))"

subsection \<open>Multi-pass output producer\<close>

text \<open>
  Force some input to be done if we are getting ahead of the input. The loop ends
  only when the input controller suspends or the input is ahead; the result is \<open>None\<close>
  when it does not end.
\<close>

partial_function (option) force_input ::
  "'w consume_input_method \<Rightarrow> 'w \<times> jpeg_decompress_struct
     \<Rightarrow> ('w \<times> jpeg_decompress_struct) loop_exit option"
where
  "force_input consume_input st =
     (let (w, cinfo) = st in
      if input_scan_number cinfo < output_scan_number cinfo \<or>
         (input_scan_number cinfo = output_scan_number cinfo \<and>
          input_iMCU_row cinfo \<le> output_iMCU_row cinfo)
      then (let (status, w', cinfo') = consume_input w cinfo
            in if status = JPEG_SUSPENDED then Some (Suspended (w', cinfo'))
               else force_input consume_input (w', cinfo'))
      else Some (Completed st))"

function data_block_num_loop ::
  "jpeg_decompress_struct \<Rightarrow> int \<Rightarrow> jpeg_component_info \<Rightarrow> int \<Rightarrow> int \<Rightarrow> JDIMENSION \<Rightarrow> JDIMENSION
     \<Rightarrow> idct_call list"
where
  "data_block_num_loop cinfo ci compptr row output_ptr block_num output_col =
     (if block_num < width_in_blocks compptr then
        \<lparr>idct_method = ci, idct_compptr = compptr,
         idct_coef_block = whole_image (coef cinfo) ci row (uint block_num),
         idct_plane = ci, idct_output_row = output_ptr, idct_output_col = output_col\<rparr>
        # data_block_num_loop cinfo ci compptr row output_ptr (block_num + 1)
            (output_col + word_of_int (DCT_scaled_size compptr))
      else [])"
  by pat_completeness auto
termination
proof (relation "measure (\<lambda>(cinfo, ci, compptr, row, output_ptr, block_num, output_col).
        unat (width_in_blocks compptr - block_num))", goal_cases)
  case 1
  then show ?case by simp
next
  case (2 cinfo ci compptr row output_ptr block_num output_col)
  then have "unat (width_in_blocks compptr - (block_num + 1))
               < unat (width_in_blocks compptr - block_num)"
    by unat_arith
  then show ?case by simp
qed

function data_block_row_loop ::
  "jpeg_decompress_struct \<Rightarrow> int \<Rightarrow> jpeg_component_info \<Rightarrow> int \<Rightarrow> int \<Rightarrow> int \<Rightarrow> idct_call list"
where
  "data_block_row_loop cinfo ci compptr block_rows block_row output_ptr =
     (if block_row < block_rows
      then data_block_num_loop cinfo ci compptr
             (iMCU_start_row (output_iMCU_row cinfo) compptr + block_row) output_ptr 0 0
           @ data_block_row_loop cinfo ci compptr block_rows (block_row + 1)
               (output_ptr + DCT_scaled_size compptr)
      else [])"
  by pat_completeness auto
termination
  by (relation "measure (\<lambda>(cinfo, ci, compptr, block_rows, block_row, output_ptr).
        nat (block_rows - block_row))") auto

function data_ci_loop :: "jpeg_decompress_struct \<Rightarrow> int \<Rightarrow> idct_call list" where
  "data_ci_loop cinfo ci =
     (if ci < num_components cinfo then
        (let compptr = comp_info cinfo ! nat ci in
         if \<not> component_needed compptr then data_ci_loop cinfo (ci + 1)
         else data_block_row_loop cinfo ci compptr (output_block_rows cinfo compptr) 0 0
              @ data_ci_loop cinfo (ci + 1))
      else [])"
  by pat_completeness auto
termination
  by (relation "measure (\<lambda>(cinfo, ci). nat (num_components cinfo - ci))") auto

declare data_block_num_loop.simps [simp del]
declare data_block_row_loop.simps [simp del]
declare data_ci_loop.simps [simp del]

text \<open>Decompress and return some data in the multi-pass case.\<close>

definition decompress_data ::
  "'w consume_input_method \<Rightarrow> 'w \<Rightarrow> jpeg_decompress_struct
     \<Rightarrow> (jpeg_status \<times> 'w \<times> jpeg_decompress_struct \<times> idct_call list) option"
where
  "decompress_data consume_input w cinfo =
     (case force_input consume_input (w, cinfo) of
        None \<Rightarrow> None
      | Some (Suspended (w', cinfo')) \<Rightarrow> Some (JPEG_SUSPENDED, w', cinfo', [])
      | Some (Completed (w', cinfo')) \<Rightarrow>
          (let calls = data_ci_loop cinfo' 0;
               cinfo1 = cinfo'\<lparr>output_iMCU_row := output_iMCU_row cinfo' + 1\<rparr>
           in if output_iMCU_row cinfo1 < total_iMCU_rows cinfo1
              then Some (JPEG_ROW_COMPLETED, w', cinfo1, calls)
              else Some (JPEG_SCAN_COMPLETED, w', cinfo1, calls)))"

subsection \<open>Block smoothing\<close>

text \<open>
  The latch loop of \<open>smoothing_ok\<close> for one component: \<open>latch_ptr\<close> is the offset of
  the component's entries in the latch area.
\<close>

function smoothing_ok_coefi_loop ::
  "int list \<Rightarrow> int \<Rightarrow> int \<Rightarrow> bool \<times> int list \<Rightarrow> bool \<times> int list"
where
  "smoothing_ok_coefi_loop coef_bits_ci latch_ptr coefi st =
     (if coefi \<le> 5 then
        smoothing_ok_coefi_loop coef_bits_ci latch_ptr (coefi + 1)
          (fst st \<or> coef_bits_ci ! nat coefi \<noteq> 0,
           (snd st)[nat (latch_ptr + coefi) := coef_bits_ci ! nat coefi])
      else st)"
  by pat_completeness auto
termination
  by (relation "measure (\<lambda>(coef_bits_ci, latch_ptr, coefi, st). nat (6 - coefi))") auto

text \<open>
  The loop over the components. The result is the value \<open>smoothing_ok\<close> returns
  (\<open>smoothing_useful\<close> when the loop runs to its end, \<open>False\<close> for each early return)
  and the latch area.
\<close>

function smoothing_ok_ci_loop ::
  "jpeg_decompress_struct \<Rightarrow> int list list \<Rightarrow> int \<Rightarrow> bool \<times> int list \<Rightarrow> bool \<times> int list"
where
  "smoothing_ok_ci_loop cinfo all_coef_bits ci st =
     (if ci < num_components cinfo then
        (case quant_table (comp_info cinfo ! nat ci) of
           None \<Rightarrow> (False, snd st)
         | Some qtable \<Rightarrow>
             if quantval qtable ! 0 = 0 \<or>
                quantval qtable ! Q01_POS = 0 \<or>
                quantval qtable ! Q10_POS = 0 \<or>
                quantval qtable ! Q20_POS = 0 \<or>
                quantval qtable ! Q11_POS = 0 \<or>
                quantval qtable ! Q02_POS = 0
             then (False, snd st)
             else if (all_coef_bits ! nat ci) ! 0 < 0 then (False, snd st)
             else smoothing_ok_ci_loop cinfo all_coef_bits (ci + 1)
                    (smoothing_ok_coefi_loop (all_coef_bits ! nat ci) (ci * SAVED_COEFS) 1 st))
      else st)"
  by pat_completeness auto
termination
  by (relation "measure (\<lambda>(cinfo, all_coef_bits, ci, st). nat (num_components cinfo - ci))") auto

declare smoothing_ok_coefi_loop.simps [simp del]
declare smoothing_ok_ci_loop.simps [simp del]

text \<open>
  Determine whether block smoothing is applicable and safe. The latch area is
  allocated on first use; \<^verbatim>\<open>alloc_small\<close> gives uninitialised memory, of which the
  entries 1 to 5 of a component are written here before \<open>decompress_smooth_data\<close>
  reads them.
\<close>

definition smoothing_ok :: "jpeg_decompress_struct \<Rightarrow> bool \<times> jpeg_decompress_struct" where
  "smoothing_ok cinfo =
     (if \<not> progressive_mode cinfo \<or> coef_bits cinfo = None then (False, cinfo)
      else
        (let latch = (case coef_bits_latch (coef cinfo) of
                        None \<Rightarrow> replicate (nat (num_components cinfo * SAVED_COEFS)) 0
                      | Some l \<Rightarrow> l);
             res = smoothing_ok_ci_loop cinfo (the (coef_bits cinfo)) 0 (False, latch)
         in (fst res, cinfo\<lparr>coef := (coef cinfo)\<lparr>coef_bits_latch := Some (snd res)\<rparr>\<rparr>)))"

text \<open>Initialize for an output processing pass.\<close>

definition set_decompress_data ::
  "decompress_method \<Rightarrow> jpeg_decompress_struct \<Rightarrow> jpeg_decompress_struct" where
  "set_decompress_data m cinfo =
     cinfo\<lparr>coef := (coef cinfo)\<lparr>pub := (pub (coef cinfo))\<lparr>decompress_data_method := m\<rparr>\<rparr>\<rparr>"

definition start_output_pass :: "jpeg_decompress_struct \<Rightarrow> jpeg_decompress_struct" where
  "start_output_pass cinfo =
     (let cinfo1 =
            (if coef_arrays (pub (coef cinfo)) then
               (if do_block_smoothing cinfo then
                  (let res = smoothing_ok cinfo
                   in if fst res then set_decompress_data Decompress_smooth_data (snd res)
                      else set_decompress_data Decompress_data (snd res))
                else set_decompress_data Decompress_data cinfo)
             else cinfo)
      in cinfo1\<lparr>output_iMCU_row := 0\<rparr>)"

text \<open>
  The nine DC values of the sliding-register scheme of \<open>decompress_smooth_data\<close>.
\<close>

record dc_regs =
  DC1 :: int
  DC2 :: int
  DC3 :: int
  DC4 :: int
  DC5 :: int
  DC6 :: int
  DC7 :: int
  DC8 :: int
  DC9 :: int

text \<open>
  The computation of \<open>pred\<close> from \<open>num\<close>, the quantizer \<open>Q\<close> of the position and the
  latched \<open>Al\<close>, as each of the five blocks AC01 ... AC02 has it. The operands of both
  divisions are non-negative, where C's truncating division is \<open>div\<close>. The divisor
  \<open>Q<<8\<close> is zero exactly when \<open>Q\<close> is: the division then has no result, which is \<open>None\<close>.
\<close>

definition smooth_pred :: "int \<Rightarrow> int \<Rightarrow> int \<Rightarrow> int option" where
  "smooth_pred Q Al num =
     (if push_bit 8 Q = 0 then None
      else if num \<ge> 0 then
        (let pred = (push_bit 7 Q + num) div push_bit 8 Q;
             pred = (if Al > 0 \<and> pred \<ge> push_bit (nat Al) 1 then push_bit (nat Al) 1 - 1 else pred)
         in Some pred)
      else
        (let pred = (push_bit 7 Q - num) div push_bit 8 Q;
             pred = (if Al > 0 \<and> pred \<ge> push_bit (nat Al) 1 then push_bit (nat Al) 1 - 1 else pred)
         in Some (- pred)))"

text \<open>
  One of the five estimates: applied only if the coefficient is still zero and is not
  known to be fully accurate; the estimate is stored as a \<^verbatim>\<open>JCOEF\<close>.
\<close>

definition smooth_coef :: "int \<Rightarrow> nat \<Rightarrow> int \<Rightarrow> int \<Rightarrow> JBLOCK \<Rightarrow> JBLOCK option" where
  "smooth_coef Al pos Q num ws =
     (if Al \<noteq> 0 \<and> ws ! pos = 0 then
        (case smooth_pred Q Al num of
           None \<Rightarrow> None
         | Some pred \<Rightarrow> Some (ws[pos := word_of_int pred]))
      else Some ws)"

text \<open>
  The quantizers of a component that the smoothing uses, fetched as \<^verbatim>\<open>INT32\<close>.
\<close>

record smooth_quant =
  Q00 :: int
  Q01 :: int
  Q10 :: int
  Q20 :: int
  Q11 :: int
  Q02 :: int

definition fetch_quant :: "JQUANT_TBL \<Rightarrow> smooth_quant" where
  "fetch_quant quanttbl =
     \<lparr>Q00 = uint (quantval quanttbl ! 0),
      Q01 = uint (quantval quanttbl ! Q01_POS),
      Q10 = uint (quantval quanttbl ! Q10_POS),
      Q20 = uint (quantval quanttbl ! Q20_POS),
      Q11 = uint (quantval quanttbl ! Q11_POS),
      Q02 = uint (quantval quanttbl ! Q02_POS)\<rparr>"

text \<open>
  Compute coefficient estimates per K.8 for the block in the workspace:
  AC01, AC10, AC20, AC11, AC02 in this order. \<open>latch\<close> is the latch area and
  \<open>cb\<close> the offset of the component's entries in it (the pointer \<^verbatim>\<open>coef_bits\<close>).
\<close>

definition smooth_block ::
  "int list \<Rightarrow> int \<Rightarrow> smooth_quant \<Rightarrow> dc_regs \<Rightarrow> JBLOCK \<Rightarrow> JBLOCK option"
where
  "smooth_block latch cb q dc ws =
     Option.bind (smooth_coef (latch ! nat (cb + 1)) 1 (Q01 q)
                    (36 * Q00 q * (DC4 dc - DC6 dc)) ws) (\<lambda>ws.
     Option.bind (smooth_coef (latch ! nat (cb + 2)) 8 (Q10 q)
                    (36 * Q00 q * (DC2 dc - DC8 dc)) ws) (\<lambda>ws.
     Option.bind (smooth_coef (latch ! nat (cb + 3)) 16 (Q20 q)
                    (9 * Q00 q * (DC2 dc + DC8 dc - 2 * DC5 dc)) ws) (\<lambda>ws.
     Option.bind (smooth_coef (latch ! nat (cb + 4)) 9 (Q11 q)
                    (5 * Q00 q * (DC1 dc - DC3 dc - DC7 dc + DC9 dc)) ws) (\<lambda>ws.
     smooth_coef (latch ! nat (cb + 5)) 2 (Q02 q)
       (9 * Q00 q * (DC4 dc + DC6 dc - 2 * DC5 dc)) ws))))"

text \<open>The DC value of a stored block: \<^verbatim>\<open>(int) row[col][0]\<close>.\<close>

definition block_DC :: "jpeg_decompress_struct \<Rightarrow> int \<Rightarrow> int \<Rightarrow> int \<Rightarrow> int" where
  "block_DC cinfo ci row col = sint (whole_image (coef cinfo) ci row col ! 0)"

text \<open>
  The loop over the blocks of one block row. \<open>prev_row\<close>, \<open>cur_row\<close> and \<open>next_row\<close>
  are the store rows of \<open>prev_block_row\<close>, \<open>buffer_ptr\<close> and \<open>next_block_row\<close>, and
  \<open>col\<close> is the block column the three pointers have advanced to. The counter is a
  \<^verbatim>\<open>JDIMENSION\<close> and the test is \<^verbatim>\<open>block_num <= last_block_column\<close>, so the loop need
  not end.
\<close>

partial_function (option) smooth_block_num_loop ::
  "int \<Rightarrow> jpeg_component_info \<Rightarrow> int list \<Rightarrow> smooth_quant \<Rightarrow> int \<times> int \<times> int \<Rightarrow> int
     \<Rightarrow> JDIMENSION \<Rightarrow> int \<Rightarrow> JDIMENSION \<Rightarrow> dc_regs \<Rightarrow> jpeg_decompress_struct \<times> idct_call list
     \<Rightarrow> (jpeg_decompress_struct \<times> idct_call list) option"
where
  "smooth_block_num_loop ci compptr latch q rows output_ptr block_num col output_col dc st =
     (let (cinfo, calls) = st; (prev_row, cur_row, next_row) = rows in
      if block_num \<le> width_in_blocks compptr - 1 then
        (let copied = whole_image (coef cinfo) ci cur_row col;
             dc1 = (if block_num < width_in_blocks compptr - 1
                    then dc\<lparr>DC3 := block_DC cinfo ci prev_row (col + 1),
                            DC6 := block_DC cinfo ci cur_row (col + 1),
                            DC9 := block_DC cinfo ci next_row (col + 1)\<rparr>
                    else dc)
         in case smooth_block latch (ci * SAVED_COEFS) q dc1 copied of
              None \<Rightarrow> None
            | Some ws \<Rightarrow>
                smooth_block_num_loop ci compptr latch q rows output_ptr
                  (block_num + 1) (col + 1) (output_col + word_of_int (DCT_scaled_size compptr))
                  (dc1\<lparr>DC1 := DC2 dc1, DC2 := DC3 dc1, DC4 := DC5 dc1, DC5 := DC6 dc1,
                        DC7 := DC8 dc1, DC8 := DC9 dc1\<rparr>)
                  (cinfo\<lparr>coef := (coef cinfo)\<lparr>workspace := ws\<rparr>\<rparr>,
                   calls @ [\<lparr>idct_method = ci, idct_compptr = compptr, idct_coef_block = ws,
                             idct_plane = ci, idct_output_row = output_ptr,
                             idct_output_col = output_col\<rparr>]))
      else Some st)"

text \<open>
  The loop over the block rows of a component. \<open>buffer\<close> is the store row of the
  first block row of the current iMCU row.
\<close>

partial_function (option) smooth_block_row_loop ::
  "int \<Rightarrow> jpeg_component_info \<Rightarrow> int list \<Rightarrow> smooth_quant \<Rightarrow> int \<Rightarrow> bool \<Rightarrow> bool \<Rightarrow> int
     \<Rightarrow> int \<Rightarrow> int \<Rightarrow> jpeg_decompress_struct \<times> idct_call list
     \<Rightarrow> (jpeg_decompress_struct \<times> idct_call list) option"
where
  "smooth_block_row_loop ci compptr latch q buffer first_row last_row block_rows
       block_row output_ptr st =
     (if block_row < block_rows then
        (let cur_row = buffer + block_row;
             prev_row = (if first_row \<and> block_row = 0 then cur_row else buffer + (block_row - 1));
             next_row = (if last_row \<and> block_row = block_rows - 1 then cur_row
                         else buffer + (block_row + 1));
             dc = \<lparr>DC1 = block_DC (fst st) ci prev_row 0, DC2 = block_DC (fst st) ci prev_row 0,
                   DC3 = block_DC (fst st) ci prev_row 0,
                   DC4 = block_DC (fst st) ci cur_row 0, DC5 = block_DC (fst st) ci cur_row 0,
                   DC6 = block_DC (fst st) ci cur_row 0,
                   DC7 = block_DC (fst st) ci next_row 0, DC8 = block_DC (fst st) ci next_row 0,
                   DC9 = block_DC (fst st) ci next_row 0\<rparr>
         in case smooth_block_num_loop ci compptr latch q (prev_row, cur_row, next_row)
                   output_ptr 0 0 0 dc st of
              None \<Rightarrow> None
            | Some st' \<Rightarrow>
                smooth_block_row_loop ci compptr latch q buffer first_row last_row block_rows
                  (block_row + 1) (output_ptr + DCT_scaled_size compptr) st')
      else Some st)"

text \<open>
  The loop over the components. A \<^verbatim>\<open>NULL\<close> latch area or quantization table is
  dereferenced here: the call then has no result.
\<close>

partial_function (option) smooth_ci_loop ::
  "int \<Rightarrow> jpeg_decompress_struct \<times> idct_call list
     \<Rightarrow> (jpeg_decompress_struct \<times> idct_call list) option"
where
  "smooth_ci_loop ci st =
     (let (cinfo, calls) = st in
      if ci < num_components cinfo then
        (let compptr = comp_info cinfo ! nat ci in
         if \<not> component_needed compptr then smooth_ci_loop (ci + 1) st
         else
           (let last_row = \<not> output_iMCU_row cinfo < total_iMCU_rows cinfo - 1;
                block_rows = output_block_rows cinfo compptr;
                first_row = \<not> output_iMCU_row cinfo > 0;
                buffer = (if output_iMCU_row cinfo > 0
                          then iMCU_start_row (output_iMCU_row cinfo - 1) compptr
                               + v_samp_factor compptr
                          else 0)
            in case (coef_bits_latch (coef cinfo), quant_table compptr) of
                 (Some latch, Some quanttbl) \<Rightarrow>
                   (case smooth_block_row_loop ci compptr latch (fetch_quant quanttbl) buffer
                           first_row last_row block_rows 0 0 st of
                      None \<Rightarrow> None
                    | Some st' \<Rightarrow> smooth_ci_loop (ci + 1) st')
               | _ \<Rightarrow> None))
      else Some st)"

text \<open>
  Force some input to be done if we are getting ahead of the input: the softened
  wait rule of the smoothing variant.
\<close>

partial_function (option) smooth_force_input ::
  "'w consume_input_method \<Rightarrow> 'w \<times> jpeg_decompress_struct
     \<Rightarrow> ('w \<times> jpeg_decompress_struct) loop_exit option"
where
  "smooth_force_input consume_input st =
     (let (w, cinfo) = st in
      if input_scan_number cinfo \<le> output_scan_number cinfo \<and> \<not> eoi_reached cinfo then
        (if input_scan_number cinfo = output_scan_number cinfo \<and>
            input_iMCU_row cinfo > output_iMCU_row cinfo + (if Ss cinfo = 0 then 1 else 0)
         then Some (Completed st)
         else (let (status, w', cinfo') = consume_input w cinfo
               in if status = JPEG_SUSPENDED then Some (Suspended (w', cinfo'))
                  else smooth_force_input consume_input (w', cinfo')))
      else Some (Completed st))"

text \<open>Variant of \<open>decompress_data\<close> for use when doing block smoothing.\<close>

definition decompress_smooth_data ::
  "'w consume_input_method \<Rightarrow> 'w \<Rightarrow> jpeg_decompress_struct
     \<Rightarrow> (jpeg_status \<times> 'w \<times> jpeg_decompress_struct \<times> idct_call list) option"
where
  "decompress_smooth_data consume_input w cinfo =
     (case smooth_force_input consume_input (w, cinfo) of
        None \<Rightarrow> None
      | Some (Suspended (w', cinfo')) \<Rightarrow> Some (JPEG_SUSPENDED, w', cinfo', [])
      | Some (Completed (w', cinfo')) \<Rightarrow>
          (case smooth_ci_loop 0 (cinfo', []) of
             None \<Rightarrow> None
           | Some (cinfo2, calls) \<Rightarrow>
               (let cinfo3 = cinfo2\<lparr>output_iMCU_row := output_iMCU_row cinfo2 + 1\<rparr>
                in if output_iMCU_row cinfo3 < total_iMCU_rows cinfo3
                   then Some (JPEG_ROW_COMPLETED, w', cinfo3, calls)
                   else Some (JPEG_SCAN_COMPLETED, w', cinfo3, calls))))"

subsection \<open>Initialization\<close>

text \<open>
  Initialize coefficient buffer controller. The allocators give uninitialised memory
  for the block pool and the workspace; every entry of them is written (by
  \<^verbatim>\<open>jzero_far\<close>, by \<^verbatim>\<open>jcopy_block_row\<close>) before it is read, and the embedding starts them
  zeroed. The virtual arrays are requested pre-zeroed. The fields of the controller
  that the function does not assign keep the values of the argument.
\<close>

definition jinit_d_coef_controller :: "jpeg_decompress_struct \<Rightarrow> bool \<Rightarrow> jpeg_decompress_struct" where
  "jinit_d_coef_controller cinfo need_full_buffer =
     (let coef0 = (coef cinfo)\<lparr>coef_bits_latch := None\<rparr>;
          coef1 =
            (if need_full_buffer then
               coef0\<lparr>whole_image :=
                        (\<lambda>ci. if 0 \<le> ci \<and> ci < num_components cinfo then zero_barray
                              else whole_image coef0 ci),
                     pub := \<lparr>consume_data_method = Consume_data,
                             decompress_data_method = Decompress_data,
                             coef_arrays = True\<rparr>\<rparr>
             else
               coef0\<lparr>MCU_buffer := replicate D_MAX_BLOCKS_IN_MCU JBLOCK_zero,
                     pub := \<lparr>consume_data_method = Dummy_consume_data,
                             decompress_data_method = Decompress_onepass,
                             coef_arrays = False\<rparr>\<rparr>)
      in cinfo\<lparr>coef := coef1\<lparr>workspace := JBLOCK_zero\<rparr>\<rparr>)"

text \<open>
  The calls through the method pointers \<^verbatim>\<open>coef->pub.consume_data\<close> and
  \<^verbatim>\<open>coef->pub.decompress_data\<close>.
\<close>

definition call_consume_data ::
  "'w decode_mcu_method \<Rightarrow> 'w finish_input_pass_method \<Rightarrow> 'w \<Rightarrow> jpeg_decompress_struct
     \<Rightarrow> (jpeg_status \<times> 'w \<times> jpeg_decompress_struct) option"
where
  "call_consume_data decode_mcu finish_input_pass w cinfo =
     (case consume_data_method (pub (coef cinfo)) of
        Dummy_consume_data \<Rightarrow> Some (dummy_consume_data w cinfo)
      | Consume_data \<Rightarrow> consume_data decode_mcu finish_input_pass w cinfo)"

definition call_decompress_data ::
  "'w decode_mcu_method \<Rightarrow> 'w finish_input_pass_method \<Rightarrow> 'w consume_input_method \<Rightarrow> 'w
     \<Rightarrow> jpeg_decompress_struct
     \<Rightarrow> (jpeg_status \<times> 'w \<times> jpeg_decompress_struct \<times> idct_call list) option"
where
  "call_decompress_data decode_mcu finish_input_pass consume_input w cinfo =
     (case decompress_data_method (pub (coef cinfo)) of
        Decompress_onepass \<Rightarrow> decompress_onepass decode_mcu finish_input_pass w cinfo
      | Decompress_data \<Rightarrow> decompress_data consume_input w cinfo
      | Decompress_smooth_data \<Rightarrow> decompress_smooth_data consume_input w cinfo)"

subsection \<open>Callers and collaborators used to state the properties\<close>

fun exit_state :: "'a loop_exit \<Rightarrow> 'a" where
  "exit_state (Suspended x) = x"
| "exit_state (Completed x) = x"

text \<open>
  Two decoder states agree except for the block pool and the saved position of the
  input side (\<open>MCU_buffer\<close>, \<open>MCU_ctr\<close>, \<open>MCU_vert_offset\<close>).
\<close>

definition onepass_unchanged :: "jpeg_decompress_struct \<Rightarrow> jpeg_decompress_struct \<Rightarrow> bool" where
  "onepass_unchanged cinfo cinfo' \<longleftrightarrow>
     cinfo' = cinfo\<lparr>coef := (coef cinfo)\<lparr>MCU_buffer := MCU_buffer (coef cinfo'),
                                           MCU_ctr := MCU_ctr (coef cinfo'),
                                           MCU_vert_offset := MCU_vert_offset (coef cinfo')\<rparr>\<rparr>"

text \<open>
  An entropy decoder that never runs out of input, given by the function \<open>dec\<close> from
  its state and the zeroed blocks of the MCU to its new state and the decoded blocks.
\<close>

definition no_suspension ::
  "('e \<Rightarrow> JBLOCK list \<Rightarrow> 'e \<times> JBLOCK list) \<Rightarrow> 'e decode_mcu_method" where
  "no_suspension dec e blocks = (case dec e blocks of (e', blocks') \<Rightarrow> (True, e', blocks'))"

text \<open>
  The same decoder with suspensions injected at MCU boundaries. The schedule has one
  entry for each call of \<^verbatim>\<open>decode_mcu\<close>: at \<open>True\<close> the call reports insufficient input
  and leaves the decoder and the blocks as they are; at \<open>False\<close>, and when the schedule
  is used up, the call decodes the MCU.
\<close>

definition inject_suspensions ::
  "('e \<Rightarrow> JBLOCK list \<Rightarrow> 'e \<times> JBLOCK list) \<Rightarrow> (bool list \<times> 'e) decode_mcu_method" where
  "inject_suspensions dec w blocks =
     (case w of (schedule, e) \<Rightarrow>
        if schedule \<noteq> [] \<and> hd schedule then (False, (tl schedule, e), blocks)
        else (case dec e blocks of (e', blocks') \<Rightarrow> (True, (tl schedule, e'), blocks')))"

text \<open>
  The caller of the single-pass path under suspension: a call that returns
  \<open>JPEG_SUSPENDED\<close> is repeated, on the state it left, until the iMCU row is done. The
  output is that of all the calls, in order.
\<close>

partial_function (option) onepass_with_retries ::
  "'w decode_mcu_method \<Rightarrow> 'w finish_input_pass_method \<Rightarrow> 'w \<Rightarrow> jpeg_decompress_struct
     \<Rightarrow> (jpeg_status \<times> 'w \<times> jpeg_decompress_struct \<times> idct_call list) option"
where
  "onepass_with_retries decode_mcu finish_input_pass w cinfo =
     (case decompress_onepass decode_mcu finish_input_pass w cinfo of
        None \<Rightarrow> None
      | Some (status, w', cinfo', calls) \<Rightarrow>
          if status = JPEG_SUSPENDED
          then Option.bind (onepass_with_retries decode_mcu finish_input_pass w' cinfo')
                 (\<lambda>(status2, w2, cinfo2, calls2). Some (status2, w2, cinfo2, calls @ calls2))
          else Some (status, w', cinfo', calls))"

text \<open>The input progress is strictly past the output progress.\<close>

definition input_ahead :: "jpeg_decompress_struct \<Rightarrow> bool" where
  "input_ahead cinfo \<longleftrightarrow>
     input_scan_number cinfo > output_scan_number cinfo \<or>
     (input_scan_number cinfo = output_scan_number cinfo \<and>
      input_iMCU_row cinfo > output_iMCU_row cinfo)"

subsection \<open>Example decoder states\<close>

text \<open>
  A component of \<open>w\<close> by \<open>h\<close> blocks that is alone in its scan, with quantizer 16 at
  every position.
\<close>

definition gray_compptr :: "JDIMENSION \<Rightarrow> JDIMENSION \<Rightarrow> int \<Rightarrow> int \<Rightarrow> jpeg_component_info" where
  "gray_compptr w h v lrh =
     \<lparr>component_index = 0, h_samp_factor = 1, v_samp_factor = v,
      width_in_blocks = w, height_in_blocks = h, DCT_scaled_size = 8,
      component_needed = True, MCU_width = 1, MCU_height = 1, MCU_blocks = 1,
      MCU_sample_width = 8, last_col_width = 1, last_row_height = lrh,
      quant_table = Some \<lparr>quantval = replicate 64 16\<rparr>\<rparr>"

definition blank_coef :: my_coef_controller where
  "blank_coef =
     \<lparr>pub = \<lparr>consume_data_method = Consume_data, decompress_data_method = Decompress_data,
              coef_arrays = False\<rparr>,
      MCU_ctr = 0, MCU_vert_offset = 0, MCU_rows_per_iMCU_row = 0, MCU_buffer = [],
      workspace = [], whole_image = (\<lambda>ci. zero_barray), coef_bits_latch = None\<rparr>"

text \<open>
  A decoder object for a scan of the components \<open>comps\<close>, with \<open>mcus\<close> MCUs per row,
  \<open>blocks\<close> blocks per MCU and \<open>rows\<close> iMCU rows, before the controller is initialized.
\<close>

definition scan_cinfo ::
  "jpeg_component_info list \<Rightarrow> JDIMENSION \<Rightarrow> int \<Rightarrow> JDIMENSION \<Rightarrow> jpeg_decompress_struct" where
  "scan_cinfo comps mcus blocks rows =
     \<lparr>num_components = int (length comps), comp_info = comps,
      comps_in_scan = int (length comps), cur_comp_info = comps,
      MCUs_per_row = mcus, blocks_in_MCU = blocks, total_iMCU_rows = rows,
      input_scan_number = 1, input_iMCU_row = 0, output_scan_number = 1, output_iMCU_row = 0,
      progressive_mode = False, do_block_smoothing = False, coef_bits = None, Ss = 0,
      eoi_reached = False, coef = blank_coef\<rparr>"

text \<open>
  The single-component image of 16 by 16 pixels: a 2 by 2 grid of MCUs of one block.
\<close>

definition gray16 :: jpeg_decompress_struct where
  "gray16 = scan_cinfo [gray_compptr 2 2 1 1] 2 1 2"

text \<open>
  A single-component image of 16 by 24 pixels with vertical sampling factor 2: the MCUs
  are single blocks, two in a row; the first of the two row-groups has two MCU rows and
  the second has one.
\<close>

definition gray24 :: jpeg_decompress_struct where
  "gray24 = scan_cinfo [gray_compptr 2 3 2 1] 2 1 2"

text \<open>
  A block whose DC coefficient is \<open>v\<close>, and an entropy decoder that numbers the
  MCUs in its state and delivers for the MCU of number \<open>n\<close> blocks of DC value \<open>n\<close>.
\<close>

definition dc_block :: "JCOEF \<Rightarrow> JBLOCK" where
  "dc_block v = v # replicate 63 0"

definition count_dec :: "nat \<Rightarrow> JBLOCK list \<Rightarrow> nat \<times> JBLOCK list" where
  "count_dec n blocks = (n + 1, map (\<lambda>b. dc_block (word_of_nat (n + 1))) blocks)"

text \<open>
  A quantization table has the value 0 at the DC position or at one of the first 5 AC
  positions in zigzag order.
\<close>

definition has_zero_quantizer :: "JQUANT_TBL \<Rightarrow> bool" where
  "has_zero_quantizer qtable \<longleftrightarrow>
     quantval qtable ! 0 = 0 \<or> quantval qtable ! Q01_POS = 0 \<or> quantval qtable ! Q10_POS = 0 \<or>
     quantval qtable ! Q20_POS = 0 \<or> quantval qtable ! Q11_POS = 0 \<or> quantval qtable ! Q02_POS = 0"

text \<open>
  The 16 by 16 image as a progressive image with the quantization table \<open>q\<close>, block
  smoothing requested, after a first scan that has supplied the DC coefficients in
  full and none of the AC coefficients; the controller is initialized with a full
  buffer.
\<close>

definition progressive16 :: "UINT16 list \<Rightarrow> jpeg_decompress_struct" where
  "progressive16 q =
     jinit_d_coef_controller
       ((scan_cinfo [(gray_compptr 2 2 1 1)\<lparr>quant_table := Some \<lparr>quantval = q\<rparr>\<rparr>] 2 1 2)
          \<lparr>progressive_mode := True, do_block_smoothing := True,
           coef_bits := Some [0 # replicate 63 (- 1)]\<rparr>)
       True"

text \<open>
  Two decoder states agree except for the contents of the smoothing workspace.
\<close>

definition smooth_unchanged :: "jpeg_decompress_struct \<Rightarrow> jpeg_decompress_struct \<Rightarrow> bool" where
  "smooth_unchanged cinfo cinfo' \<longleftrightarrow>
     cinfo' = cinfo\<lparr>coef := (coef cinfo)\<lparr>workspace := workspace (coef cinfo')\<rparr>\<rparr>"

text \<open>
  The block \<open>ws\<close> given to the inverse DCT differs from the stored block \<open>block\<close> at
  most at the five smoothable positions, and there only where the stored coefficient is
  zero and the latched entry of the position is nonzero. \<open>latch\<close> is the latch area and
  \<open>cb\<close> the offset of the component's entries.
\<close>

definition differs_only_where_smoothable :: "int list \<Rightarrow> int \<Rightarrow> JBLOCK \<Rightarrow> JBLOCK \<Rightarrow> bool" where
  "differs_only_where_smoothable latch cb block ws \<longleftrightarrow>
     length ws = length block \<and>
     (\<forall>i. i \<notin> {1, 8, 16, 9, 2} \<longrightarrow> ws ! i = block ! i) \<and>
     (ws ! 1 \<noteq> block ! 1 \<longrightarrow> block ! 1 = 0 \<and> latch ! nat (cb + 1) \<noteq> 0) \<and>
     (ws ! 8 \<noteq> block ! 8 \<longrightarrow> block ! 8 = 0 \<and> latch ! nat (cb + 2) \<noteq> 0) \<and>
     (ws ! 16 \<noteq> block ! 16 \<longrightarrow> block ! 16 = 0 \<and> latch ! nat (cb + 3) \<noteq> 0) \<and>
     (ws ! 9 \<noteq> block ! 9 \<longrightarrow> block ! 9 = 0 \<and> latch ! nat (cb + 4) \<noteq> 0) \<and>
     (ws ! 2 \<noteq> block ! 2 \<longrightarrow> block ! 2 = 0 \<and> latch ! nat (cb + 5) \<noteq> 0)"

text \<open>
  The store row of block row \<open>block_row\<close> of the current iMCU row of the output pass, as
  \<open>decompress_smooth_data\<close> aligns the virtual array of the component.
\<close>

definition output_store_row :: "jpeg_decompress_struct \<Rightarrow> jpeg_component_info \<Rightarrow> int \<Rightarrow> int" where
  "output_store_row cinfo compptr block_row =
     (if output_iMCU_row cinfo > 0
      then uint ((output_iMCU_row cinfo - 1) * word_of_int (v_samp_factor compptr))
           + v_samp_factor compptr
      else 0) + block_row"

text \<open>
  The store rows of the 3 by 3 neighbourhood of a block in block row \<open>block_row\<close> of the
  current iMCU row: the row above, the row of the block and the row below. The first
  block row of the image has no row above and the last block row of the image no row
  below; the row of the block then takes its place.
\<close>

definition neighbour_rows ::
  "jpeg_decompress_struct \<Rightarrow> jpeg_component_info \<Rightarrow> int \<Rightarrow> int \<times> int \<times> int" where
  "neighbour_rows cinfo compptr block_row =
     (let cur_row = output_store_row cinfo compptr block_row
      in (if \<not> output_iMCU_row cinfo > 0 \<and> block_row = 0 then cur_row else cur_row - 1,
          cur_row,
          if \<not> output_iMCU_row cinfo < total_iMCU_rows cinfo - 1 \<and>
             block_row = output_block_rows cinfo compptr - 1
          then cur_row else cur_row + 1))"

text \<open>
  The DC values, read from the store, of the 3 by 3 neighbourhood of the block at block
  column \<open>col\<close> in the store rows \<open>rows\<close> of component \<open>ci\<close>: \<open>DC1\<close>, \<open>DC2\<close>, \<open>DC3\<close> in the
  row above, \<open>DC4\<close>, \<open>DC5\<close>, \<open>DC6\<close> in the row of the block (\<open>DC5\<close> is its own) and \<open>DC7\<close>,
  \<open>DC8\<close>, \<open>DC9\<close> in the row below. At block column 0 there is no column to the left and
  at the last block column \<open>last_col\<close> no column to the right; the column of the block
  then takes its place.
\<close>

definition DC_neighbourhood ::
  "jpeg_decompress_struct \<Rightarrow> int \<Rightarrow> int \<times> int \<times> int \<Rightarrow> int \<Rightarrow> int \<Rightarrow> dc_regs" where
  "DC_neighbourhood cinfo ci rows col last_col =
     (case rows of (prev_row, cur_row, next_row) \<Rightarrow>
        (let left = (if col = 0 then col else col - 1);
             right = (if col < last_col then col + 1 else col);
             DC = (\<lambda>row col. sint (whole_image (coef cinfo) ci row col ! 0))
         in \<lparr>DC1 = DC prev_row left, DC2 = DC prev_row col, DC3 = DC prev_row right,
             DC4 = DC cur_row left, DC5 = DC cur_row col, DC6 = DC cur_row right,
             DC7 = DC next_row left, DC8 = DC next_row col, DC9 = DC next_row right\<rparr>))"

text \<open>
  The invocation \<open>x\<close> of the inverse DCT is the one for the block at block column \<open>b\<close>
  of the store rows \<open>rows\<close>: it is made for component \<open>ci\<close>, it writes at the sample row
  \<open>output_ptr\<close> and at the sample column of block \<open>b\<close>, and the coefficient block it is
  given is the result of \<open>smooth_block\<close>, with the quantizers \<open>q\<close> and the DC values of the
  neighbourhood of the block, on the block stored at that place.
\<close>

definition block_smoothed ::
  "jpeg_decompress_struct \<Rightarrow> int \<Rightarrow> jpeg_component_info \<Rightarrow> int list \<Rightarrow> smooth_quant
     \<Rightarrow> int \<times> int \<times> int \<Rightarrow> int \<Rightarrow> JDIMENSION \<Rightarrow> idct_call \<Rightarrow> bool" where
  "block_smoothed cinfo ci compptr latch q rows output_ptr b x \<longleftrightarrow>
     idct_method x = ci \<and> idct_compptr x = compptr \<and> idct_plane x = ci \<and>
     idct_output_row x = output_ptr \<and>
     idct_output_col x = b * word_of_int (DCT_scaled_size compptr) \<and>
     smooth_block latch (ci * SAVED_COEFS) q
       (DC_neighbourhood cinfo ci rows (uint b) (uint (width_in_blocks compptr - 1)))
       (whole_image (coef cinfo) ci (fst (snd rows)) (uint b)) = Some (idct_coef_block x)"

text \<open>
  The invocation \<open>x\<close> of the inverse DCT, made in the output pass state \<open>cinfo\<close>, is the
  one for the block at block row \<open>block_row\<close> of the current iMCU row and block column
  \<open>block_num\<close> of a component of the image: it was given the smoothed copy of the block
  stored at that place, computed with the quantization table of the component and the
  DC values of the neighbourhood of the block.
\<close>

definition smoothed_from_store ::
  "jpeg_decompress_struct \<Rightarrow> int list \<Rightarrow> idct_call \<Rightarrow> int \<Rightarrow> JDIMENSION \<Rightarrow> bool" where
  "smoothed_from_store cinfo latch x block_row block_num \<longleftrightarrow>
     0 \<le> idct_method x \<and> idct_method x < num_components cinfo \<and>
     idct_compptr x = comp_info cinfo ! nat (idct_method x) \<and>
     0 \<le> block_row \<and> block_row < output_block_rows cinfo (idct_compptr x) \<and>
     block_num \<le> width_in_blocks (idct_compptr x) - 1 \<and>
     (\<exists>quanttbl. quant_table (idct_compptr x) = Some quanttbl \<and>
        block_smoothed cinfo (idct_method x) (idct_compptr x) latch (fetch_quant quanttbl)
          (neighbour_rows cinfo (idct_compptr x) block_row)
          (block_row * DCT_scaled_size (idct_compptr x)) block_num x)"

text \<open>
  The invocation \<open>x\<close> of the inverse DCT, made in the output pass state \<open>cinfo\<close>, is the
  one for the block at block row \<open>block_row\<close> of the current iMCU row and block column
  \<open>block_num\<close> of a component of the image: it is made for that component and writes
  at the sample row and the sample column of that block.
\<close>

definition processes_block ::
  "jpeg_decompress_struct \<Rightarrow> idct_call \<Rightarrow> int \<Rightarrow> JDIMENSION \<Rightarrow> bool" where
  "processes_block cinfo x block_row block_num \<longleftrightarrow>
     0 \<le> idct_method x \<and> idct_method x < num_components cinfo \<and>
     idct_compptr x = comp_info cinfo ! nat (idct_method x) \<and>
     idct_plane x = idct_method x \<and>
     0 \<le> block_row \<and> block_row < output_block_rows cinfo (idct_compptr x) \<and>
     block_num \<le> width_in_blocks (idct_compptr x) - 1 \<and>
     idct_output_row x = block_row * DCT_scaled_size (idct_compptr x) \<and>
     idct_output_col x = block_num * word_of_int (DCT_scaled_size (idct_compptr x))"

text \<open>
  What a loop of \<open>decompress_smooth_data\<close> does to its state: the decoder state is
  unchanged but for the workspace, and invocations of the inverse DCT are added.
\<close>

definition smooth_loop_effect ::
  "jpeg_decompress_struct \<times> idct_call list
     \<Rightarrow> jpeg_decompress_struct \<times> idct_call list \<Rightarrow> bool" where
  "smooth_loop_effect st st' \<longleftrightarrow>
     smooth_unchanged (fst st) (fst st') \<and> (\<exists>new. snd st' = snd st @ new)"

text \<open>
  Modelled from the spec: \<^verbatim>\<open>consume_input\<close> of the input controller is not among the
  sources. By the spec the output producer, when it is ahead of the input, forces one
  consumer call and suspends if the consumer suspends; while a scan is being read the
  consumer is the \<open>consume_data\<close> method of this controller. The loops of \<open>consume_data\<close>
  are bounded, so it returns; the branch for \<open>None\<close> only makes the function total.
\<close>

definition consume_input_in_scan ::
  "'w decode_mcu_method \<Rightarrow> 'w finish_input_pass_method \<Rightarrow> 'w consume_input_method" where
  "consume_input_in_scan decode_mcu finish_input_pass w cinfo =
     (case call_consume_data decode_mcu finish_input_pass w cinfo of
        None \<Rightarrow> (JPEG_SUSPENDED, w, cinfo)
      | Some r \<Rightarrow> r)"

text \<open>An input controller that has nothing to deliver.\<close>

definition consume_input_starved :: "'w consume_input_method" where
  "consume_input_starved w cinfo = (JPEG_SUSPENDED, w, cinfo)"

text \<open>
  \<open>n\<close> calls of \<open>decompress_smooth_data\<close> in a row, each on the state the one before
  it left.
\<close>

fun smooth_output_calls ::
  "'w consume_input_method \<Rightarrow> nat \<Rightarrow> 'w \<Rightarrow> jpeg_decompress_struct
     \<Rightarrow> ('w \<times> jpeg_decompress_struct) option" where
  "smooth_output_calls consume_input 0 w cinfo = Some (w, cinfo)"
| "smooth_output_calls consume_input (Suc n) w cinfo =
     (case decompress_smooth_data consume_input w cinfo of
        None \<Rightarrow> None
      | Some (status, w', cinfo', calls) \<Rightarrow> smooth_output_calls consume_input n w' cinfo')"

text \<open>
  The progressive 16 by 16 image at the start of a smoothing output pass, with all
  input read: the store holds one block with DC value 100 and the coefficient 5 at the
  position of AC01, at block row 0 and block column 0, and zero blocks elsewhere.
\<close>

definition smoothing16 :: jpeg_decompress_struct where
  "smoothing16 =
     (let cinfo = progressive16 (replicate 64 16);
          cinfo1 = cinfo\<lparr>eoi_reached := True,
                         coef := (coef cinfo)\<lparr>whole_image :=
                           (\<lambda>ci row col. if row = 0 \<and> col = 0 then (dc_block 100)[1 := 5]
                                          else JBLOCK_zero)\<rparr>\<rparr>
      in start_output_pass cinfo1)"

text \<open>
  The progressive 16 by 16 image in a smoothing output pass at row-group \<open>row\<close>, with
  all input read: \<open>q\<close> is the quantization table, \<open>bits\<close> the successive-approximation
  bit positions that the scans so far have left for each coefficient, and \<open>blocks\<close>
  the store of the component.
\<close>

definition smoothing_pass ::
  "UINT16 list \<Rightarrow> int list \<Rightarrow> (int \<Rightarrow> int \<Rightarrow> JBLOCK) \<Rightarrow> JDIMENSION \<Rightarrow> jpeg_decompress_struct" where
  "smoothing_pass q bits blocks row =
     (let cinfo = progressive16 q;
          cinfo1 = cinfo\<lparr>coef_bits := Some [bits], eoi_reached := True,
                         coef := (coef cinfo)\<lparr>whole_image := (\<lambda>ci. blocks)\<rparr>\<rparr>
      in (start_output_pass cinfo1)\<lparr>output_iMCU_row := row\<rparr>)"

text \<open>
  Bit positions left by the scans so far: the DC coefficient is known in full, two bits
  of AC01 and three bits of AC20 are still to come, AC02 is known in full, and no scan
  has supplied AC10, AC11 or any other coefficient yet.
\<close>

definition example_bits :: "int list" where
  "example_bits = [0, 2, - 1, 3, - 1, 0] @ replicate 58 (- 1)"

text \<open>
  A quantization table with the quantizer 16 at the DC position, the quantizers 1, 5,
  2, 4, 3 at the positions 1, 2, 8, 9, 16 and the quantizer 7 elsewhere; and a store of
  2 by 2 blocks with the DC values 10, 20 in block row 0 and 40, 80 in block row 1, in
  which the block at block row 1 and block column 1 has the coefficient 5 at the position
  of AC01 and all other AC coefficients are zero.
\<close>

definition example_table :: "UINT16 list" where
  "example_table = (replicate 64 7)[0 := 16, 1 := 1, 2 := 5, 8 := 2, 9 := 4, 16 := 3]"

definition example_store :: "int \<Rightarrow> int \<Rightarrow> JBLOCK" where
  "example_store row col =
     (if row = 0 \<and> col = 0 then dc_block 10
      else if row = 0 \<and> col = 1 then dc_block 20
      else if row = 1 \<and> col = 0 then dc_block 40
      else if row = 1 \<and> col = 1 then (dc_block 80)[1 := 5]
      else JBLOCK_zero)"

text \<open>
  The estimate of a smoothed coefficient as a formula: the magnitude
  \<open>(Q<<7 + |num|) / (Q<<8)\<close>, clamped to at most \<open>2^Al - 1\<close> when \<open>Al\<close> is positive,
  and negated when \<open>num\<close> is negative.
\<close>

definition K8_estimate :: "int \<Rightarrow> int \<Rightarrow> int \<Rightarrow> int" where
  "K8_estimate Q Al num =
     (let magnitude = (Q * 2 ^ 7 + \<bar>num\<bar>) div (Q * 2 ^ 8);
          clamped = (if Al > 0 then min magnitude (2 ^ nat Al - 1) else magnitude)
      in if num < 0 then - clamped else clamped)"

text \<open>
  The block \<open>ws\<close> holds, at each of the five positions that is smoothed (latched entry
  nonzero, coefficient of the stored block \<open>block\<close> zero), the \<^verbatim>\<open>JCOEF\<close> conversion of
  the estimate: \<open>num\<close> is the weighted difference of the DC values \<open>dc\<close> of the
  neighbourhood, with the weights 36, 36, 9, 5, 9 for AC01, AC10, AC20, AC11, AC02,
  times the DC quantizer of the table \<open>quanttbl\<close>, and \<open>Q\<close> is the quantizer of the
  position (1, 8, 16, 9, 2 in the table), which is nonzero.
\<close>

definition K8_estimates ::
  "int list \<Rightarrow> int \<Rightarrow> JQUANT_TBL \<Rightarrow> dc_regs \<Rightarrow> JBLOCK \<Rightarrow> JBLOCK \<Rightarrow> bool" where
  "K8_estimates latch cb quanttbl dc block ws \<longleftrightarrow>
     (let Q = (\<lambda>pos. uint (quantval quanttbl ! pos)); Al = (\<lambda>k. latch ! nat (cb + k)) in
      (Al 1 \<noteq> 0 \<and> block ! 1 = 0 \<longrightarrow> Q 1 \<noteq> 0 \<and>
         ws ! 1 = word_of_int (K8_estimate (Q 1) (Al 1) (36 * Q 0 * (DC4 dc - DC6 dc)))) \<and>
      (Al 2 \<noteq> 0 \<and> block ! 8 = 0 \<longrightarrow> Q 8 \<noteq> 0 \<and>
         ws ! 8 = word_of_int (K8_estimate (Q 8) (Al 2) (36 * Q 0 * (DC2 dc - DC8 dc)))) \<and>
      (Al 3 \<noteq> 0 \<and> block ! 16 = 0 \<longrightarrow> Q 16 \<noteq> 0 \<and>
         ws ! 16 = word_of_int (K8_estimate (Q 16) (Al 3)
                                  (9 * Q 0 * (DC2 dc + DC8 dc - 2 * DC5 dc)))) \<and>
      (Al 4 \<noteq> 0 \<and> block ! 9 = 0 \<longrightarrow> Q 9 \<noteq> 0 \<and>
         ws ! 9 = word_of_int (K8_estimate (Q 9) (Al 4)
                                 (5 * Q 0 * (DC1 dc - DC3 dc - DC7 dc + DC9 dc)))) \<and>
      (Al 5 \<noteq> 0 \<and> block ! 2 = 0 \<longrightarrow> Q 2 \<noteq> 0 \<and>
         ws ! 2 = word_of_int (K8_estimate (Q 2) (Al 5)
                                 (9 * Q 0 * (DC4 dc + DC6 dc - 2 * DC5 dc)))))"

text \<open>
  The magnitude of \<open>pred\<close> is at most \<open>2^Al - 1\<close>, for a latched \<open>Al\<close> of either sign.
\<close>

definition clamped_to_Al :: "int \<Rightarrow> int \<Rightarrow> bool" where
  "clamped_to_Al Al pred \<longleftrightarrow> real_of_int \<bar>pred\<bar> \<le> 2 powr real_of_int Al - 1"

text \<open>
  The effect of the inverse-DCT invocations on the output planes: each writes the
  sample block that the inverse-DCT method \<open>idct\<close> computes at its plane, sample row and
  column.
\<close>

definition output_of_calls ::
  "(int \<Rightarrow> jpeg_component_info \<Rightarrow> JBLOCK \<Rightarrow> 'samples) \<Rightarrow> idct_call list
     \<Rightarrow> (int \<times> int \<times> JDIMENSION \<Rightarrow> 'samples option)" where
  "output_of_calls idct calls =
     fold (\<lambda>x buf. buf((idct_plane x, idct_output_row x, idct_output_col x) \<mapsto>
                        idct (idct_method x) (idct_compptr x) (idct_coef_block x)))
       calls Map.empty"

text \<open>
  The 16 by 16 image decoded on the single-pass path: the controller is initialized
  without a full buffer and \<open>decompress_onepass\<close> is called once for each of the two
  row-groups. The result lists, for each call, the return code and the inverse-DCT
  invocations.
\<close>

definition gray16_single_pass ::
  "('e \<Rightarrow> JBLOCK list \<Rightarrow> 'e \<times> JBLOCK list) \<Rightarrow> 'e finish_input_pass_method \<Rightarrow> 'e
     \<Rightarrow> (jpeg_status \<times> idct_call list) list option" where
  "gray16_single_pass dec finish_input_pass e =
     (case decompress_onepass (no_suspension dec) finish_input_pass e
             (start_output_pass (start_input_pass (jinit_d_coef_controller gray16 False))) of
        None \<Rightarrow> None
      | Some (status1, e1, cinfo1, calls1) \<Rightarrow>
          (case decompress_onepass (no_suspension dec) finish_input_pass e1 cinfo1 of
             None \<Rightarrow> None
           | Some (status2, e2, cinfo2, calls2) \<Rightarrow>
               Some [(status1, calls1), (status2, calls2)]))"

text \<open>
  The same image decoded with full buffering: the controller is initialized with a full
  buffer, \<open>consume_data\<close> is called once for each row-group, storing all coefficients,
  and then \<open>decompress_data\<close> is called once for each row-group.
\<close>

definition gray16_buffered ::
  "('e \<Rightarrow> JBLOCK list \<Rightarrow> 'e \<times> JBLOCK list) \<Rightarrow> 'e finish_input_pass_method
     \<Rightarrow> 'e consume_input_method \<Rightarrow> 'e \<Rightarrow> (jpeg_status \<times> idct_call list) list option" where
  "gray16_buffered dec finish_input_pass consume_input e =
     (case consume_data (no_suspension dec) finish_input_pass e
             (start_input_pass (jinit_d_coef_controller gray16 True)) of
        None \<Rightarrow> None
      | Some (r1, e1, cinfo1) \<Rightarrow>
          (case consume_data (no_suspension dec) finish_input_pass e1 cinfo1 of
             None \<Rightarrow> None
           | Some (r2, e2, cinfo2) \<Rightarrow>
               (case decompress_data consume_input e2 (start_output_pass cinfo2) of
                  None \<Rightarrow> None
                | Some (status1, e3, cinfo3, calls1) \<Rightarrow>
                    (case decompress_data consume_input e3 cinfo3 of
                       None \<Rightarrow> None
                     | Some (status2, e4, cinfo4, calls2) \<Rightarrow>
                         Some [(status1, calls1), (status2, calls2)]))))"

text \<open>
  The decoder state with the saved position of the input side set to MCU row \<open>y\<close>
  and MCU column \<open>c\<close>, and with the saved MCU row alone set.
\<close>

definition set_position :: "int \<Rightarrow> JDIMENSION \<Rightarrow> jpeg_decompress_struct \<Rightarrow> jpeg_decompress_struct" where
  "set_position y c cinfo = cinfo\<lparr>coef := (coef cinfo)\<lparr>MCU_vert_offset := y, MCU_ctr := c\<rparr>\<rparr>"

definition set_vert_offset :: "int \<Rightarrow> jpeg_decompress_struct \<Rightarrow> jpeg_decompress_struct" where
  "set_vert_offset y cinfo = cinfo\<lparr>coef := (coef cinfo)\<lparr>MCU_vert_offset := y\<rparr>\<rparr>"

text \<open>
  The body of the MCU column loop of \<open>decompress_onepass\<close> when the decoder \<open>dec\<close>
  delivers the MCU: the new state of the decoder, the controller state with the decoded
  blocks in the pool, and the inverse-DCT calls made for the MCU.
\<close>

definition onepass_MCU_step ::
  "('e \<Rightarrow> JBLOCK list \<Rightarrow> 'e \<times> JBLOCK list) \<Rightarrow> int \<Rightarrow> JDIMENSION \<Rightarrow> 'e \<Rightarrow> jpeg_decompress_struct
     \<Rightarrow> 'e \<times> jpeg_decompress_struct \<times> idct_call list" where
  "onepass_MCU_step dec yoffset MCU_col_num e cinfo =
     (let zeroed = jzero_far (nat (blocks_in_MCU cinfo)) (MCU_buffer (coef cinfo));
          res = dec e (take (nat (blocks_in_MCU cinfo)) zeroed);
          cinfo' = cinfo\<lparr>coef := (coef cinfo)\<lparr>MCU_buffer := store_MCU_blocks (snd res) zeroed\<rparr>\<rparr>
      in (fst res, cinfo', onepass_ci_loop cinfo' (MCU_buffer (coef cinfo')) MCU_col_num yoffset 0 0))"

text \<open>
  The exit of a loop of \<open>decompress_onepass\<close> when the loop is run after the
  invocations \<open>calls\<close> and with the saved position changed by \<open>f\<close>: a suspension
  overwrites the saved position, an exit at the end of the loop leaves it as it was
  at the start.
\<close>

definition resumed_exit ::
  "(jpeg_decompress_struct \<Rightarrow> jpeg_decompress_struct) \<Rightarrow> idct_call list
     \<Rightarrow> ('w \<times> jpeg_decompress_struct \<times> idct_call list) loop_exit
     \<Rightarrow> ('w \<times> jpeg_decompress_struct \<times> idct_call list) loop_exit" where
  "resumed_exit f calls r =
     (case r of
        Suspended (w, cinfo, new) \<Rightarrow> Suspended (w, cinfo, calls @ new)
      | Completed (w, cinfo, new) \<Rightarrow> Completed (w, f cinfo, calls @ new))"

section \<open>Properties\<close>

subsection \<open>What the single-pass loops leave unchanged\<close>

lemma onepass_unchanged_refl: "onepass_unchanged c c"
  by (simp add: onepass_unchanged_def)

lemma onepass_unchangedI:
  "b = a\<lparr>coef := (coef a)\<lparr>MCU_buffer := x, MCU_ctr := y, MCU_vert_offset := z\<rparr>\<rparr>
     \<Longrightarrow> onepass_unchanged a b"
  by (simp add: onepass_unchanged_def)

lemma onepass_unchangedE:
  assumes "onepass_unchanged a b"
  obtains x y z
  where "b = a\<lparr>coef := (coef a)\<lparr>MCU_buffer := x, MCU_ctr := y, MCU_vert_offset := z\<rparr>\<rparr>"
  using assms unfolding onepass_unchanged_def by blast

lemma onepass_unchanged_trans:
  assumes "onepass_unchanged a b" and "onepass_unchanged b c"
  shows "onepass_unchanged a c"
proof -
  from assms(1) obtain x y z
    where b: "b = a\<lparr>coef := (coef a)\<lparr>MCU_buffer := x, MCU_ctr := y, MCU_vert_offset := z\<rparr>\<rparr>"
    by (rule onepass_unchangedE)
  from assms(2) obtain x' y' z'
    where c: "c = b\<lparr>coef := (coef b)\<lparr>MCU_buffer := x', MCU_ctr := y', MCU_vert_offset := z'\<rparr>\<rparr>"
    by (rule onepass_unchangedE)
  show ?thesis
    by (rule onepass_unchangedI [where x = x' and y = y' and z = z']) (simp add: b c)
qed

lemma onepass_unchanged_fields:
  assumes "onepass_unchanged a b"
  shows "input_iMCU_row b = input_iMCU_row a" and "output_iMCU_row b = output_iMCU_row a"
    and "total_iMCU_rows b = total_iMCU_rows a" and "MCUs_per_row b = MCUs_per_row a"
    and "pub (coef b) = pub (coef a)"
    and "MCU_rows_per_iMCU_row (coef b) = MCU_rows_per_iMCU_row (coef a)"
    and "whole_image (coef b) = whole_image (coef a)"
    and "comps_in_scan b = comps_in_scan a" and "cur_comp_info b = cur_comp_info a"
    and "blocks_in_MCU b = blocks_in_MCU a"
  using assms by (auto elim!: onepass_unchangedE)

lemma onepass_MCU_col_loop_unchanged:
  assumes "onepass_MCU_col_loop decode_mcu yoffset c st = Some r"
  shows "onepass_unchanged (fst (snd st)) (fst (snd (exit_state r)))"
proof (rule onepass_MCU_col_loop.raw_induct
    [where P = "\<lambda>d y c st r. onepass_unchanged (fst (snd st)) (fst (snd (exit_state r)))",
     OF _ assms], goal_cases)
  case (1 f decode_mcu yoffset c st r)
  obtain w cinfo calls where st: "st = (w, cinfo, calls)"
    by (cases st) auto
  show ?case
  proof (cases "c \<le> MCUs_per_row cinfo - 1")
    case False
    with 1(2) show ?thesis
      unfolding st by (auto simp: onepass_unchanged_refl)
  next
    case True
    define zeroed where "zeroed = jzero_far (nat (blocks_in_MCU cinfo)) (MCU_buffer (coef cinfo))"
    obtain ok w' blocks
      where d: "decode_mcu w (take (nat (blocks_in_MCU cinfo)) zeroed) = (ok, w', blocks)"
      by (cases "decode_mcu w (take (nat (blocks_in_MCU cinfo)) zeroed)") auto
    define cinfo'
      where "cinfo' = cinfo\<lparr>coef := (coef cinfo)\<lparr>MCU_buffer := store_MCU_blocks blocks zeroed\<rparr>\<rparr>"
    have u: "onepass_unchanged cinfo cinfo'"
      by (rule onepass_unchangedI [where x = "store_MCU_blocks blocks zeroed"
            and y = "MCU_ctr (coef cinfo)" and z = "MCU_vert_offset (coef cinfo)"])
        (simp add: cinfo'_def)
    show ?thesis
    proof (cases ok)
      case False
      with 1(2) True d
      have "r = Suspended (w', cinfo'\<lparr>coef := (coef cinfo')\<lparr>MCU_vert_offset := yoffset,
                                                              MCU_ctr := c\<rparr>\<rparr>, calls)"
        unfolding st by (simp add: zeroed_def cinfo'_def Let_def)
      then show ?thesis
        unfolding st by (simp add: onepass_unchanged_def cinfo'_def)
    next
      case ok: True
      with 1(2) True d
      have "f decode_mcu yoffset (c + 1)
              (w', cinfo',
               calls @ onepass_ci_loop cinfo' (MCU_buffer (coef cinfo')) c yoffset 0 0) = Some r"
        unfolding st by (simp add: zeroed_def cinfo'_def Let_def)
      from 1(1) [OF this] have "onepass_unchanged cinfo' (fst (snd (exit_state r)))"
        by simp
      with u show ?thesis
        unfolding st by (auto intro: onepass_unchanged_trans)
    qed
  qed
qed

lemma onepass_yoffset_loop_unchanged:
  assumes "onepass_yoffset_loop decode_mcu yoffset st = Some r"
  shows "onepass_unchanged (fst (snd st)) (fst (snd (exit_state r)))"
proof (rule onepass_yoffset_loop.raw_induct
    [where P = "\<lambda>d y st r. onepass_unchanged (fst (snd st)) (fst (snd (exit_state r)))",
     OF _ assms], goal_cases)
  case (1 f decode_mcu yoffset st r)
  obtain w cinfo calls where st: "st = (w, cinfo, calls)"
    by (cases st) auto
  show ?case
  proof (cases "yoffset < MCU_rows_per_iMCU_row (coef cinfo)")
    case False
    with 1(2) show ?thesis
      unfolding st by (auto simp: onepass_unchanged_refl)
  next
    case True
    show ?thesis
    proof (cases "onepass_MCU_col_loop decode_mcu yoffset (MCU_ctr (coef cinfo)) (w, cinfo, calls)")
      case None
      with 1(2) True show ?thesis
        unfolding st by simp
    next
      case (Some e)
      from onepass_MCU_col_loop_unchanged [OF Some]
      have u: "onepass_unchanged cinfo (fst (snd (exit_state e)))"
        by simp
      show ?thesis
      proof (cases e)
        case (Suspended x)
        with 1(2) True Some have "r = Suspended x"
          unfolding st by simp
        with u Suspended show ?thesis
          unfolding st by simp
      next
        case (Completed x)
        obtain w' cinfo' calls' where x: "x = (w', cinfo', calls')"
          by (cases x) auto
        from 1(2) True Some Completed
        have "f decode_mcu (yoffset + 1)
                (w', cinfo'\<lparr>coef := (coef cinfo')\<lparr>MCU_ctr := 0\<rparr>\<rparr>, calls') = Some r"
          unfolding st x by simp
        from 1(1) [OF this]
        have "onepass_unchanged (cinfo'\<lparr>coef := (coef cinfo')\<lparr>MCU_ctr := 0\<rparr>\<rparr>)
                (fst (snd (exit_state r)))"
          by simp
        moreover have "onepass_unchanged cinfo' (cinfo'\<lparr>coef := (coef cinfo')\<lparr>MCU_ctr := 0\<rparr>\<rparr>)"
          by (simp add: onepass_unchanged_def)
        moreover from u Completed x have "onepass_unchanged cinfo cinfo'"
          by simp
        ultimately show ?thesis
          unfolding st by (auto intro: onepass_unchanged_trans)
      qed
    qed
  qed
qed

subsection \<open>The estimates of one block\<close>

lemma smooth_coef_cases:
  assumes "smooth_coef Al pos Q num ws = Some ws'"
  obtains (same) "ws' = ws" "\<not> (Al \<noteq> 0 \<and> ws ! pos = 0)"
  | (written) pred where "Al \<noteq> 0" "ws ! pos = 0" "smooth_pred Q Al num = Some pred"
      "ws' = ws[pos := word_of_int pred]"
proof (cases "Al \<noteq> 0 \<and> ws ! pos = 0")
  case False
  with assms have "ws' = ws"
    by (simp add: smooth_coef_def)
  with False show ?thesis
    by (intro same) simp_all
next
  case True
  with assms obtain pred where p: "smooth_pred Q Al num = Some pred"
    by (cases "smooth_pred Q Al num") (simp_all add: smooth_coef_def)
  with assms True have "ws' = ws[pos := word_of_int pred]"
    by (simp add: smooth_coef_def)
  with True p show ?thesis
    by (intro written [of pred]) simp_all
qed

lemma smooth_blockE:
  assumes "smooth_block latch cb q dc ws0 = Some ws5"
  obtains ws1 ws2 ws3 ws4 where
    "smooth_coef (latch ! nat (cb + 1)) 1 (Q01 q) (36 * Q00 q * (DC4 dc - DC6 dc)) ws0 = Some ws1"
    "smooth_coef (latch ! nat (cb + 2)) 8 (Q10 q) (36 * Q00 q * (DC2 dc - DC8 dc)) ws1 = Some ws2"
    "smooth_coef (latch ! nat (cb + 3)) 16 (Q20 q) (9 * Q00 q * (DC2 dc + DC8 dc - 2 * DC5 dc)) ws2 = Some ws3"
    "smooth_coef (latch ! nat (cb + 4)) 9 (Q11 q) (5 * Q00 q * (DC1 dc - DC3 dc - DC7 dc + DC9 dc)) ws3 = Some ws4"
    "smooth_coef (latch ! nat (cb + 5)) 2 (Q02 q) (9 * Q00 q * (DC4 dc + DC6 dc - 2 * DC5 dc)) ws4 = Some ws5"
  using assms unfolding smooth_block_def
  by (auto simp: bind_eq_Some_conv)

lemma smooth_coef_length: "smooth_coef Al pos Q num ws = Some ws' \<Longrightarrow> length ws' = length ws"
  by (erule smooth_coef_cases) auto

lemma smooth_coef_other:
  "smooth_coef Al pos Q num ws = Some ws' \<Longrightarrow> i \<noteq> pos \<Longrightarrow> ws' ! i = ws ! i"
  by (erule smooth_coef_cases) auto

lemma smooth_coef_changed:
  "smooth_coef Al pos Q num ws = Some ws' \<Longrightarrow> ws' ! pos \<noteq> ws ! pos \<Longrightarrow> ws ! pos = 0 \<and> Al \<noteq> 0"
  by (erule smooth_coef_cases) auto

lemma smooth_block_changes:
  assumes "smooth_block latch cb q dc block = Some ws"
  shows "length ws = length block"
    and "\<And>i. i \<notin> {1, 8, 16, 9, 2} \<Longrightarrow> ws ! i = block ! i"
    and "ws ! 1 \<noteq> block ! 1 \<Longrightarrow> block ! 1 = 0 \<and> latch ! nat (cb + 1) \<noteq> 0"
    and "ws ! 8 \<noteq> block ! 8 \<Longrightarrow> block ! 8 = 0 \<and> latch ! nat (cb + 2) \<noteq> 0"
    and "ws ! 16 \<noteq> block ! 16 \<Longrightarrow> block ! 16 = 0 \<and> latch ! nat (cb + 3) \<noteq> 0"
    and "ws ! 9 \<noteq> block ! 9 \<Longrightarrow> block ! 9 = 0 \<and> latch ! nat (cb + 4) \<noteq> 0"
    and "ws ! 2 \<noteq> block ! 2 \<Longrightarrow> block ! 2 = 0 \<and> latch ! nat (cb + 5) \<noteq> 0"
proof -
  from assms obtain ws1 ws2 ws3 ws4 where
    s1: "smooth_coef (latch ! nat (cb + 1)) 1 (Q01 q) (36 * Q00 q * (DC4 dc - DC6 dc)) block = Some ws1" and
    s2: "smooth_coef (latch ! nat (cb + 2)) 8 (Q10 q) (36 * Q00 q * (DC2 dc - DC8 dc)) ws1 = Some ws2" and
    s3: "smooth_coef (latch ! nat (cb + 3)) 16 (Q20 q) (9 * Q00 q * (DC2 dc + DC8 dc - 2 * DC5 dc)) ws2 = Some ws3" and
    s4: "smooth_coef (latch ! nat (cb + 4)) 9 (Q11 q) (5 * Q00 q * (DC1 dc - DC3 dc - DC7 dc + DC9 dc)) ws3 = Some ws4" and
    s5: "smooth_coef (latch ! nat (cb + 5)) 2 (Q02 q) (9 * Q00 q * (DC4 dc + DC6 dc - 2 * DC5 dc)) ws4 = Some ws"
    by (rule smooth_blockE)
  note len = smooth_coef_length [OF s1] smooth_coef_length [OF s2] smooth_coef_length [OF s3]
    smooth_coef_length [OF s4] smooth_coef_length [OF s5]
  show "length ws = length block"
    using len by simp
  show "ws ! i = block ! i" if "i \<notin> {1, 8, 16, 9, 2}" for i
    using that smooth_coef_other [OF s1, of i] smooth_coef_other [OF s2, of i]
      smooth_coef_other [OF s3, of i] smooth_coef_other [OF s4, of i] smooth_coef_other [OF s5, of i]
    by simp
  show "block ! 1 = 0 \<and> latch ! nat (cb + 1) \<noteq> 0" if "ws ! 1 \<noteq> block ! 1"
    using that smooth_coef_changed [OF s1] smooth_coef_other [OF s2, of 1]
      smooth_coef_other [OF s3, of 1] smooth_coef_other [OF s4, of 1] smooth_coef_other [OF s5, of 1]
    by simp
  show "block ! 8 = 0 \<and> latch ! nat (cb + 2) \<noteq> 0" if "ws ! 8 \<noteq> block ! 8"
    using that smooth_coef_changed [OF s2] smooth_coef_other [OF s1, of 8]
      smooth_coef_other [OF s3, of 8] smooth_coef_other [OF s4, of 8] smooth_coef_other [OF s5, of 8]
    by simp
  show "block ! 16 = 0 \<and> latch ! nat (cb + 3) \<noteq> 0" if "ws ! 16 \<noteq> block ! 16"
    using that smooth_coef_changed [OF s3] smooth_coef_other [OF s1, of 16]
      smooth_coef_other [OF s2, of 16] smooth_coef_other [OF s4, of 16] smooth_coef_other [OF s5, of 16]
    by simp
  show "block ! 9 = 0 \<and> latch ! nat (cb + 4) \<noteq> 0" if "ws ! 9 \<noteq> block ! 9"
    using that smooth_coef_changed [OF s4] smooth_coef_other [OF s1, of 9]
      smooth_coef_other [OF s2, of 9] smooth_coef_other [OF s3, of 9] smooth_coef_other [OF s5, of 9]
    by simp
  show "block ! 2 = 0 \<and> latch ! nat (cb + 5) \<noteq> 0" if "ws ! 2 \<noteq> block ! 2"
    using that smooth_coef_changed [OF s5] smooth_coef_other [OF s1, of 2]
      smooth_coef_other [OF s2, of 2] smooth_coef_other [OF s3, of 2] smooth_coef_other [OF s4, of 2]
    by simp
qed

subsection \<open>What the loops of the smoothing variant do\<close>

lemma smooth_unchanged_refl: "smooth_unchanged c c"
  by (simp add: smooth_unchanged_def)

lemma smooth_unchangedI:
  "b = a\<lparr>coef := (coef a)\<lparr>workspace := x\<rparr>\<rparr> \<Longrightarrow> smooth_unchanged a b"
  by (simp add: smooth_unchanged_def)

lemma smooth_unchangedE:
  assumes "smooth_unchanged a b"
  obtains x where "b = a\<lparr>coef := (coef a)\<lparr>workspace := x\<rparr>\<rparr>"
  using assms unfolding smooth_unchanged_def by blast

lemma smooth_unchanged_trans:
  assumes "smooth_unchanged a b" and "smooth_unchanged b c"
  shows "smooth_unchanged a c"
proof -
  from assms(1) obtain x where b: "b = a\<lparr>coef := (coef a)\<lparr>workspace := x\<rparr>\<rparr>"
    by (rule smooth_unchangedE)
  from assms(2) obtain y where c: "c = b\<lparr>coef := (coef b)\<lparr>workspace := y\<rparr>\<rparr>"
    by (rule smooth_unchangedE)
  show ?thesis
    by (rule smooth_unchangedI [where x = y]) (simp add: b c)
qed

lemma smooth_unchanged_fields:
  assumes "smooth_unchanged a b"
  shows "whole_image (coef b) = whole_image (coef a)"
    and "coef_bits_latch (coef b) = coef_bits_latch (coef a)"
    and "comp_info b = comp_info a" and "num_components b = num_components a"
    and "output_iMCU_row b = output_iMCU_row a" and "total_iMCU_rows b = total_iMCU_rows a"
    and "input_iMCU_row b = input_iMCU_row a"
    and "input_scan_number b = input_scan_number a"
    and "output_scan_number b = output_scan_number a"
    and "eoi_reached b = eoi_reached a"
  using assms by (auto elim!: smooth_unchangedE)

lemma smooth_unchanged_block_DC:
  assumes "smooth_unchanged a b"
  shows "block_DC b = block_DC a"
  using smooth_unchanged_fields(1) [OF assms] by (simp add: block_DC_def fun_eq_iff)

lemma smooth_unchanged_places:
  assumes "smooth_unchanged a b"
  shows "output_block_rows b = output_block_rows a"
    and "output_store_row b = output_store_row a"
    and "neighbour_rows b = neighbour_rows a"
    and "DC_neighbourhood b = DC_neighbourhood a"
    and "block_smoothed b = block_smoothed a"
    and "smoothed_from_store b = smoothed_from_store a"
    and "processes_block b = processes_block a"
proof -
  note f = smooth_unchanged_fields [OF assms] smooth_unchanged_block_DC [OF assms]
  show 1: "output_block_rows b = output_block_rows a"
    by (simp add: fun_eq_iff output_block_rows_def f)
  show 2: "output_store_row b = output_store_row a"
    by (simp add: fun_eq_iff output_store_row_def f)
  show 3: "neighbour_rows b = neighbour_rows a"
    by (simp add: fun_eq_iff neighbour_rows_def f 1 2)
  show 4: "DC_neighbourhood b = DC_neighbourhood a"
    by (simp add: fun_eq_iff DC_neighbourhood_def f)
  show 5: "block_smoothed b = block_smoothed a"
    by (simp add: fun_eq_iff block_smoothed_def f 4)
  show "smoothed_from_store b = smoothed_from_store a"
    by (simp add: fun_eq_iff smoothed_from_store_def f 1 3 5)
  show "processes_block b = processes_block a"
    by (simp add: fun_eq_iff processes_block_def f 1)
qed

lemma smooth_loop_effect_refl: "smooth_loop_effect st st"
  by (simp add: smooth_loop_effect_def smooth_unchanged_refl)

lemma smooth_loop_effect_trans:
  assumes "smooth_loop_effect a b" and "smooth_loop_effect b c"
  shows "smooth_loop_effect a c"
proof -
  from assms(1) obtain n1 where u1: "smooth_unchanged (fst a) (fst b)"
    and n1: "snd b = snd a @ n1"
    unfolding smooth_loop_effect_def by blast
  from assms(2) obtain n2 where u2: "smooth_unchanged (fst b) (fst c)"
    and n2: "snd c = snd b @ n2"
    unfolding smooth_loop_effect_def by blast
  have "snd c = snd a @ (n1 @ n2)"
    using n1 n2 by simp
  then show ?thesis
    unfolding smooth_loop_effect_def using smooth_unchanged_trans [OF u1 u2] by blast
qed

lemma smooth_loop_effect_drop:
  assumes "smooth_loop_effect a b"
  shows "snd b = snd a @ drop (length (snd a)) (snd b)"
  using assms unfolding smooth_loop_effect_def by auto

lemma smooth_block_num_loop_done:
  assumes "\<not> block_num \<le> width_in_blocks compptr - 1"
  shows "smooth_block_num_loop ci compptr latch q rows output_ptr block_num col output_col dc st
           = Some st"
  using assms by (subst smooth_block_num_loop.simps) (simp add: split_beta)

lemma smooth_block_num_loop_step:
  assumes "block_num \<le> width_in_blocks compptr - 1"
    and "dc1 = (if block_num < width_in_blocks compptr - 1
                then dc\<lparr>DC3 := block_DC cinfo ci prev_row (col + 1),
                        DC6 := block_DC cinfo ci cur_row (col + 1),
                        DC9 := block_DC cinfo ci next_row (col + 1)\<rparr>
                else dc)"
  shows "smooth_block_num_loop ci compptr latch q (prev_row, cur_row, next_row) output_ptr
           block_num col output_col dc (cinfo, calls) =
         (case smooth_block latch (ci * SAVED_COEFS) q dc1 (whole_image (coef cinfo) ci cur_row col) of
            None \<Rightarrow> None
          | Some ws \<Rightarrow>
              smooth_block_num_loop ci compptr latch q (prev_row, cur_row, next_row) output_ptr
                (block_num + 1) (col + 1) (output_col + word_of_int (DCT_scaled_size compptr))
                (dc1\<lparr>DC1 := DC2 dc1, DC2 := DC3 dc1, DC4 := DC5 dc1, DC5 := DC6 dc1,
                      DC7 := DC8 dc1, DC8 := DC9 dc1\<rparr>)
                (cinfo\<lparr>coef := (coef cinfo)\<lparr>workspace := ws\<rparr>\<rparr>,
                 calls @ [\<lparr>idct_method = ci, idct_compptr = compptr, idct_coef_block = ws,
                           idct_plane = ci, idct_output_row = output_ptr,
                           idct_output_col = output_col\<rparr>]))"
  using assms(1) unfolding assms(2)
  by (subst smooth_block_num_loop.simps) (simp add: Let_def)

lemma smooth_block_num_loop_effect:
  assumes "smooth_block_num_loop ci compptr latch q rows output_ptr block_num col output_col dc st
             = Some r"
  shows "smooth_loop_effect st r \<and> width_in_blocks compptr \<noteq> 0"
proof (rule smooth_block_num_loop.raw_induct
    [where P = "\<lambda>ci compptr latch q rows output_ptr block_num col output_col dc st r.
                  smooth_loop_effect st r \<and> width_in_blocks compptr \<noteq> 0",
     OF _ assms], goal_cases)
  case (1 f ci compptr latch q rows output_ptr block_num col output_col dc st r)
  obtain cinfo calls where st: "st = (cinfo, calls)"
    by (cases st) auto
  obtain prev_row cur_row next_row where rows: "rows = (prev_row, cur_row, next_row)"
    by (cases rows) auto
  show ?case
  proof (cases "block_num \<le> width_in_blocks compptr - 1")
    case False
    then have "width_in_blocks compptr \<noteq> 0"
      by auto
    with False 1(2) show ?thesis
      unfolding st rows by (auto simp: smooth_loop_effect_refl)
  next
    case True
    define dc1 where "dc1 = (if block_num < width_in_blocks compptr - 1
                    then dc\<lparr>DC3 := block_DC cinfo ci prev_row (col + 1),
                            DC6 := block_DC cinfo ci cur_row (col + 1),
                            DC9 := block_DC cinfo ci next_row (col + 1)\<rparr>
                    else dc)"
    show ?thesis
    proof (cases "smooth_block latch (ci * SAVED_COEFS) q dc1 (whole_image (coef cinfo) ci cur_row col)")
      case None
      with 1(2) True show ?thesis
        unfolding st rows by (simp add: dc1_def Let_def)
    next
      case (Some ws)
      define x where "x = \<lparr>idct_method = ci, idct_compptr = compptr, idct_coef_block = ws,
                             idct_plane = ci, idct_output_row = output_ptr,
                             idct_output_col = output_col\<rparr>"
      define st1 where "st1 = (cinfo\<lparr>coef := (coef cinfo)\<lparr>workspace := ws\<rparr>\<rparr>, calls @ [x])"
      from 1(2) True Some
      have "f ci compptr latch q rows output_ptr (block_num + 1) (col + 1)
              (output_col + word_of_int (DCT_scaled_size compptr))
              (dc1\<lparr>DC1 := DC2 dc1, DC2 := DC3 dc1, DC4 := DC5 dc1, DC5 := DC6 dc1,
                    DC7 := DC8 dc1, DC8 := DC9 dc1\<rparr>) st1 = Some r"
        unfolding st rows by (simp add: dc1_def Let_def st1_def x_def)
      from 1(1) [OF this]
      have e2: "smooth_loop_effect st1 r" and w: "width_in_blocks compptr \<noteq> 0"
        by simp_all
      have e1: "smooth_loop_effect st st1"
        unfolding smooth_loop_effect_def st st1_def
        by (simp add: smooth_unchanged_def)
      from smooth_loop_effect_trans [OF e1 e2] w show ?thesis
        by simp
    qed
  qed
qed

lemma smooth_block_row_loop_effect:
  assumes "smooth_block_row_loop ci compptr latch q buffer first_row last_row block_rows
             block_row output_ptr st = Some r"
  shows "smooth_loop_effect st r"
proof (rule smooth_block_row_loop.raw_induct
    [where P = "\<lambda>ci compptr latch q buffer first_row last_row block_rows block_row output_ptr st r.
                  smooth_loop_effect st r",
     OF _ assms], goal_cases)
  case (1 f ci compptr latch q buffer first_row last_row block_rows block_row output_ptr st r)
  show ?case
  proof (cases "block_row < block_rows")
    case False
    with 1(2) show ?thesis
      by (auto simp: smooth_loop_effect_refl)
  next
    case True
    define cur_row where "cur_row = buffer + block_row"
    define prev_row
      where "prev_row = (if first_row \<and> block_row = 0 then buffer + block_row
                         else buffer + (block_row - 1))"
    define next_row
      where "next_row = (if last_row \<and> block_row = block_rows - 1 then buffer + block_row
                         else buffer + (block_row + 1))"
    define dc where "dc =
      \<lparr>DC1 = block_DC (fst st) ci prev_row 0, DC2 = block_DC (fst st) ci prev_row 0,
       DC3 = block_DC (fst st) ci prev_row 0,
       DC4 = block_DC (fst st) ci cur_row 0, DC5 = block_DC (fst st) ci cur_row 0,
       DC6 = block_DC (fst st) ci cur_row 0,
       DC7 = block_DC (fst st) ci next_row 0, DC8 = block_DC (fst st) ci next_row 0,
       DC9 = block_DC (fst st) ci next_row 0\<rparr>"
    show ?thesis
    proof (cases "smooth_block_num_loop ci compptr latch q (prev_row, cur_row, next_row)
                    output_ptr 0 0 0 dc st")
      case None
      with 1(2) True show ?thesis
        by (simp add: Let_def cur_row_def prev_row_def next_row_def dc_def)
    next
      case (Some st1)
      from smooth_block_num_loop_effect [OF Some]
      have e1: "smooth_loop_effect st st1"
        by simp
      from 1(2) True Some
      have "f ci compptr latch q buffer first_row last_row block_rows (block_row + 1)
              (output_ptr + DCT_scaled_size compptr) st1 = Some r"
        by (simp add: Let_def cur_row_def prev_row_def next_row_def dc_def)
      from 1(1) [OF this]
      have e2: "smooth_loop_effect st1 r" .
      from smooth_loop_effect_trans [OF e1 e2] show ?thesis .
    qed
  qed
qed

lemma smooth_ci_loop_effect:
  assumes "smooth_ci_loop ci st = Some r"
  shows "smooth_unchanged (fst st) (fst r) \<and> (\<exists>new. snd r = snd st @ new)"
proof (rule smooth_ci_loop.raw_induct
    [where P = "\<lambda>ci st r. smooth_unchanged (fst st) (fst r) \<and> (\<exists>new. snd r = snd st @ new)",
     OF _ assms], goal_cases)
  case (1 f ci st r)
  obtain cinfo calls where st: "st = (cinfo, calls)"
    by (cases st) auto
  show ?case
  proof (cases "ci < num_components cinfo")
    case False
    with 1(2) show ?thesis
      unfolding st by (auto simp: smooth_unchanged_refl)
  next
    case True
    let ?compptr = "comp_info cinfo ! nat ci"
    show ?thesis
    proof (cases "component_needed ?compptr")
      case False
      with 1(2) True have "f (ci + 1) st = Some r"
        unfolding st by (simp add: Let_def)
      from 1(1) [OF this] show ?thesis .
    next
      case needed: True
      show ?thesis
      proof (cases "coef_bits_latch (coef cinfo)")
        case None
        with 1(2) True needed show ?thesis
          unfolding st by (simp add: Let_def)
      next
        case (Some latch)
        show ?thesis
        proof (cases "quant_table ?compptr")
          case None
          with 1(2) True needed Some show ?thesis
            unfolding st by (simp add: Let_def)
        next
          case qt: (Some quanttbl)
          let ?buffer = "if output_iMCU_row cinfo > 0
                          then iMCU_start_row (output_iMCU_row cinfo - 1) ?compptr
                               + v_samp_factor ?compptr
                          else 0"
          show ?thesis
          proof (cases "smooth_block_row_loop ci ?compptr latch (fetch_quant quanttbl) ?buffer
                           (\<not> output_iMCU_row cinfo > 0)
                           (\<not> output_iMCU_row cinfo < total_iMCU_rows cinfo - 1)
                           (output_block_rows cinfo ?compptr) 0 0 st")
            case None
            with 1(2) True needed Some qt show ?thesis
              unfolding st by (simp add: Let_def)
          next
            case row: (Some st1)
            from smooth_block_row_loop_effect [OF row]
            have e1: "smooth_loop_effect st st1" .
            from 1(2) True needed Some qt row have "f (ci + 1) st1 = Some r"
              unfolding st by (simp add: Let_def)
            from 1(1) [OF this] have "smooth_loop_effect st1 r"
              unfolding smooth_loop_effect_def .
            from smooth_loop_effect_trans [OF e1 this] show ?thesis
              unfolding smooth_loop_effect_def .
          qed
        qed
      qed
    qed
  qed
qed

lemma smooth_block_num_loop_measure:
  fixes b W :: "32 word"
  assumes "W \<noteq> 0" and "b \<le> W - 1"
  shows "unat (W - 1) + 1 - unat (b + 1) < unat (W - 1) + 1 - unat b"
    and "uint (b + 1) = uint b + 1" and "b \<le> b + 1"
    and "b + 1 \<le> W - 1 \<longleftrightarrow> b < W - 1"
  using assms by (unat_arith, uint_arith, unat_arith, unat_arith)

lemma DC_neighbourhood_start:
  "\<lparr>DC1 = block_DC cinfo ci prev_row 0, DC2 = block_DC cinfo ci prev_row 0,
    DC3 = block_DC cinfo ci prev_row 0,
    DC4 = block_DC cinfo ci cur_row 0, DC5 = block_DC cinfo ci cur_row 0,
    DC6 = block_DC cinfo ci cur_row 0,
    DC7 = block_DC cinfo ci next_row 0, DC8 = block_DC cinfo ci next_row 0,
    DC9 = block_DC cinfo ci next_row 0\<rparr> =
   DC_neighbourhood cinfo ci (prev_row, cur_row, next_row) 0 0"
  by (simp add: DC_neighbourhood_def block_DC_def Let_def)

lemma DC_neighbourhood_fetch:
  assumes "0 \<le> col" and "col \<le> last_col"
  shows "(if col < last_col
          then (DC_neighbourhood cinfo ci (prev_row, cur_row, next_row) col col)
                 \<lparr>DC3 := block_DC cinfo ci prev_row (col + 1),
                  DC6 := block_DC cinfo ci cur_row (col + 1),
                  DC9 := block_DC cinfo ci next_row (col + 1)\<rparr>
          else DC_neighbourhood cinfo ci (prev_row, cur_row, next_row) col col) =
         DC_neighbourhood cinfo ci (prev_row, cur_row, next_row) col last_col"
  using assms by (auto simp: DC_neighbourhood_def block_DC_def Let_def)

lemma DC_neighbourhood_shift:
  assumes "0 \<le> col" and "col < last_col"
    and "dc1 = DC_neighbourhood cinfo ci rows col last_col"
  shows "dc1\<lparr>DC1 := DC2 dc1, DC2 := DC3 dc1, DC4 := DC5 dc1, DC5 := DC6 dc1,
             DC7 := DC8 dc1, DC8 := DC9 dc1\<rparr> =
         DC_neighbourhood cinfo ci rows (col + 1) (col + 1)"
  using assms by (cases rows) (simp add: DC_neighbourhood_def block_DC_def Let_def)

lemma smooth_block_num_loop_calls:
  assumes "smooth_block_num_loop ci compptr latch q rows output_ptr block_num col output_col dc st
             = Some r"
    and "col = uint block_num"
    and "output_col = block_num * word_of_int (DCT_scaled_size compptr)"
    and "block_num \<le> width_in_blocks compptr - 1 \<longrightarrow>
           dc = DC_neighbourhood (fst st) ci rows col col"
  shows "\<forall>x \<in> set (drop (length (snd st)) (snd r)).
           \<exists>b. b \<le> width_in_blocks compptr - 1 \<and>
               block_smoothed (fst st) ci compptr latch q rows output_ptr b x"
  using assms
proof (induction "unat (width_in_blocks compptr - 1) + 1 - unat block_num"
    arbitrary: block_num col output_col dc st rule: less_induct)
  case less
  let ?last = "width_in_blocks compptr - 1"
  obtain cinfo calls where st: "st = (cinfo, calls)"
    by (cases st) auto
  obtain prev_row cur_row next_row where rows: "rows = (prev_row, cur_row, next_row)"
    by (cases rows) auto
  have W: "width_in_blocks compptr \<noteq> 0"
    using smooth_block_num_loop_effect [OF less.prems(1)] by simp
  show ?case
  proof (cases "block_num \<le> ?last")
    case False
    from less.prems(1) have "r = st"
      by (simp add: smooth_block_num_loop_done [OF False])
    then show ?thesis
      by simp
  next
    case True
    note m = smooth_block_num_loop_measure [OF W True]
    have col: "0 \<le> col" "col \<le> uint ?last" "col < uint ?last \<longleftrightarrow> block_num < ?last"
      using True by (simp_all add: less.prems(2) word_le_def word_less_def)
    let ?dc1 = "DC_neighbourhood cinfo ci (prev_row, cur_row, next_row) col (uint ?last)"
    have dc: "dc = DC_neighbourhood cinfo ci (prev_row, cur_row, next_row) col col"
      using less.prems(4) True by (simp add: st rows)
    have dc1: "?dc1 = (if block_num < ?last
                then dc\<lparr>DC3 := block_DC cinfo ci prev_row (col + 1),
                        DC6 := block_DC cinfo ci cur_row (col + 1),
                        DC9 := block_DC cinfo ci next_row (col + 1)\<rparr>
                else dc)"
      unfolding dc col(3) [symmetric] by (rule DC_neighbourhood_fetch [OF col(1,2), symmetric])
    note step = smooth_block_num_loop_step [OF True dc1, where latch = latch and q = q
      and output_ptr = output_ptr and output_col = output_col and calls = calls]
    show ?thesis
    proof (cases "smooth_block latch (ci * SAVED_COEFS) q ?dc1 (whole_image (coef cinfo) ci cur_row col)")
      case None
      with less.prems(1) step show ?thesis
        by (simp add: st rows)
    next
      case (Some ws)
      let ?x = "\<lparr>idct_method = ci, idct_compptr = compptr, idct_coef_block = ws,
                 idct_plane = ci, idct_output_row = output_ptr, idct_output_col = output_col\<rparr>"
      let ?st1 = "(cinfo\<lparr>coef := (coef cinfo)\<lparr>workspace := ws\<rparr>\<rparr>, calls @ [?x])"
      let ?dc2 = "?dc1\<lparr>DC1 := DC2 ?dc1, DC2 := DC3 ?dc1, DC4 := DC5 ?dc1, DC5 := DC6 ?dc1,
                         DC7 := DC8 ?dc1, DC8 := DC9 ?dc1\<rparr>"
      have u: "smooth_unchanged cinfo (cinfo\<lparr>coef := (coef cinfo)\<lparr>workspace := ws\<rparr>\<rparr>)"
        by (simp add: smooth_unchanged_def)
      note p = smooth_unchanged_places [OF u]
      from less.prems(1) step Some
      have next_run: "smooth_block_num_loop ci compptr latch q rows output_ptr
                (block_num + 1) (col + 1) (output_col + word_of_int (DCT_scaled_size compptr))
                ?dc2 ?st1 = Some r"
        by (simp add: st rows)
      have i1: "col + 1 = uint (block_num + 1)"
        by (simp add: less.prems(2) m(2))
      have i2: "output_col + word_of_int (DCT_scaled_size compptr) =
                (block_num + 1) * word_of_int (DCT_scaled_size compptr)"
        by (simp add: less.prems(3) algebra_simps)
      have i3: "block_num + 1 \<le> ?last \<longrightarrow> ?dc2 = DC_neighbourhood (fst ?st1) ci rows (col + 1) (col + 1)"
      proof
        assume "block_num + 1 \<le> ?last"
        then have "col < uint ?last"
          using m(4) col(3) by simp
        from DC_neighbourhood_shift [OF col(1) this, of ?dc1 cinfo ci rows]
        show "?dc2 = DC_neighbourhood (fst ?st1) ci rows (col + 1) (col + 1)"
          by (simp add: rows p(4))
      qed
      from less.hyps [OF m(1) next_run i1 i2 i3]
      have rest: "\<forall>x \<in> set (drop (length (snd ?st1)) (snd r)).
           \<exists>b. b \<le> ?last \<and> block_smoothed cinfo ci compptr latch q rows output_ptr b x"
        by (simp add: p(5))
      have x: "block_smoothed cinfo ci compptr latch q rows output_ptr block_num ?x"
        using Some by (simp add: block_smoothed_def rows less.prems(2,3))
      from smooth_block_num_loop_effect [OF next_run]
      have "snd r = snd ?st1 @ drop (length (snd ?st1)) (snd r)"
        by (intro smooth_loop_effect_drop) simp
      then have "drop (length (snd st)) (snd r) = ?x # drop (length (snd ?st1)) (snd r)"
        by (simp add: st) (metis append_eq_conv_conj append.assoc append_Cons append_Nil)
      with rest x True show ?thesis
        by (auto simp: st)
    qed
  qed
qed

lemma smooth_block_row_loop_done:
  assumes "\<not> block_row < block_rows"
  shows "smooth_block_row_loop ci compptr latch q buffer first_row last_row block_rows
           block_row output_ptr st = Some st"
  using assms by (subst smooth_block_row_loop.simps) simp

lemma smooth_block_row_loop_step:
  assumes "block_row < block_rows"
    and "rows = (if first_row \<and> block_row = 0 then buffer + block_row
                 else buffer + (block_row - 1),
                 buffer + block_row,
                 if last_row \<and> block_row = block_rows - 1 then buffer + block_row
                 else buffer + (block_row + 1))"
  shows "smooth_block_row_loop ci compptr latch q buffer first_row last_row block_rows
           block_row output_ptr st =
         (case smooth_block_num_loop ci compptr latch q rows output_ptr 0 0 0
                 (DC_neighbourhood (fst st) ci rows 0 0) st of
            None \<Rightarrow> None
          | Some st' \<Rightarrow>
              smooth_block_row_loop ci compptr latch q buffer first_row last_row block_rows
                (block_row + 1) (output_ptr + DCT_scaled_size compptr) st')"
  using assms(1) unfolding assms(2)
  by (subst smooth_block_row_loop.simps) (simp add: Let_def DC_neighbourhood_start)

lemma smooth_block_row_loop_calls:
  assumes "smooth_block_row_loop ci compptr latch q buffer first_row last_row block_rows
             block_row output_ptr st = Some r"
    and "0 \<le> block_row" and "output_ptr = block_row * DCT_scaled_size compptr"
    and "buffer = output_store_row (fst st) compptr 0"
    and "first_row = (\<not> output_iMCU_row (fst st) > 0)"
    and "last_row = (\<not> output_iMCU_row (fst st) < total_iMCU_rows (fst st) - 1)"
    and "block_rows = output_block_rows (fst st) compptr"
  shows "\<forall>x \<in> set (drop (length (snd st)) (snd r)).
           \<exists>br b. 0 \<le> br \<and> br < block_rows \<and> b \<le> width_in_blocks compptr - 1 \<and>
               block_smoothed (fst st) ci compptr latch q (neighbour_rows (fst st) compptr br)
                 (br * DCT_scaled_size compptr) b x"
  using assms
proof (induction "nat (block_rows - block_row)" arbitrary: block_row output_ptr st
    rule: less_induct)
  case less
  show ?case
  proof (cases "block_row < block_rows")
    case False
    from less.prems(1) have "r = st"
      by (simp add: smooth_block_row_loop_done [OF False])
    then show ?thesis
      by simp
  next
    case True
    let ?rows = "neighbour_rows (fst st) compptr block_row"
    have rows: "?rows = (if first_row \<and> block_row = 0 then buffer + block_row
                 else buffer + (block_row - 1),
                 buffer + block_row,
                 if last_row \<and> block_row = block_rows - 1 then buffer + block_row
                 else buffer + (block_row + 1))"
      by (simp add: neighbour_rows_def output_store_row_def Let_def less.prems(4,5,6,7))
    note step = smooth_block_row_loop_step [OF True rows, where ci = ci and compptr = compptr
        and latch = latch and q = q and output_ptr = output_ptr and st = st]
    show ?thesis
    proof (cases "smooth_block_num_loop ci compptr latch q ?rows output_ptr 0 0 0
                    (DC_neighbourhood (fst st) ci ?rows 0 0) st")
      case None
      with less.prems(1) step show ?thesis
        by simp
    next
      case (Some st1)
      from less.prems(1) step Some
      have next_run: "smooth_block_row_loop ci compptr latch q buffer first_row last_row block_rows
                (block_row + 1) (output_ptr + DCT_scaled_size compptr) st1 = Some r"
        by simp
      from smooth_block_num_loop_effect [OF Some]
      have e1: "smooth_loop_effect st st1"
        by simp
      then have u: "smooth_unchanged (fst st) (fst st1)"
        by (simp add: smooth_loop_effect_def)
      note f = smooth_unchanged_fields [OF u]
      note p = smooth_unchanged_places [OF u]
      from smooth_block_row_loop_effect [OF next_run]
      have e2: "smooth_loop_effect st1 r" .
      have first: "\<forall>x \<in> set (drop (length (snd st)) (snd st1)).
           \<exists>b. b \<le> width_in_blocks compptr - 1 \<and>
               block_smoothed (fst st) ci compptr latch q ?rows output_ptr b x"
        by (rule smooth_block_num_loop_calls [OF Some]) simp_all
      have "\<forall>x \<in> set (drop (length (snd st1)) (snd r)).
           \<exists>br b. 0 \<le> br \<and> br < block_rows \<and> b \<le> width_in_blocks compptr - 1 \<and>
               block_smoothed (fst st1) ci compptr latch q (neighbour_rows (fst st1) compptr br)
                 (br * DCT_scaled_size compptr) b x"
      proof (rule less.hyps [OF _ next_run])
        show "nat (block_rows - (block_row + 1)) < nat (block_rows - block_row)"
          using True by simp
        show "0 \<le> block_row + 1"
          using less.prems(2) by simp
        show "output_ptr + DCT_scaled_size compptr = (block_row + 1) * DCT_scaled_size compptr"
          by (simp add: less.prems(3) algebra_simps)
        show "buffer = output_store_row (fst st1) compptr 0"
          by (simp add: p less.prems(4))
        show "first_row = (\<not> output_iMCU_row (fst st1) > 0)"
          by (simp add: f less.prems(5))
        show "last_row = (\<not> output_iMCU_row (fst st1) < total_iMCU_rows (fst st1) - 1)"
          by (simp add: f less.prems(6))
        show "block_rows = output_block_rows (fst st1) compptr"
          by (simp add: p less.prems(7))
      qed
      then have rest: "\<forall>x \<in> set (drop (length (snd st1)) (snd r)).
           \<exists>br b. 0 \<le> br \<and> br < block_rows \<and> b \<le> width_in_blocks compptr - 1 \<and>
               block_smoothed (fst st) ci compptr latch q (neighbour_rows (fst st) compptr br)
                 (br * DCT_scaled_size compptr) b x"
        by (simp add: p)
      have d: "drop (length (snd st)) (snd r) =
               drop (length (snd st)) (snd st1) @ drop (length (snd st1)) (snd r)"
        using smooth_loop_effect_drop [OF e1] smooth_loop_effect_drop [OF e2]
        by (metis append.assoc append_eq_conv_conj)
      show ?thesis
        unfolding d
      proof (intro ballI)
        fix x
        assume "x \<in> set (drop (length (snd st)) (snd st1) @ drop (length (snd st1)) (snd r))"
        then consider "x \<in> set (drop (length (snd st)) (snd st1))"
          | "x \<in> set (drop (length (snd st1)) (snd r))"
          by auto
        then show "\<exists>br b. 0 \<le> br \<and> br < block_rows \<and> b \<le> width_in_blocks compptr - 1 \<and>
               block_smoothed (fst st) ci compptr latch q (neighbour_rows (fst st) compptr br)
                 (br * DCT_scaled_size compptr) b x"
        proof cases
          case 1
          with first obtain b where "b \<le> width_in_blocks compptr - 1"
            "block_smoothed (fst st) ci compptr latch q ?rows output_ptr b x"
            by blast
          with True less.prems(2,3) show ?thesis
            by (intro exI [of _ block_row] exI [of _ b]) simp
        next
          case 2
          with rest show ?thesis
            by blast
        qed
      qed
    qed
  qed
qed

lemma smooth_ci_loop_done:
  assumes "\<not> ci < num_components (fst st)"
  shows "smooth_ci_loop ci st = Some st"
  using assms by (subst smooth_ci_loop.simps) (simp add: split_beta)

lemma smooth_ci_loop_skip:
  assumes "ci < num_components (fst st)"
    and "\<not> component_needed (comp_info (fst st) ! nat ci)"
  shows "smooth_ci_loop ci st = smooth_ci_loop (ci + 1) st"
  using assms by (subst smooth_ci_loop.simps) (simp add: split_beta Let_def)

lemma smooth_ci_loop_step:
  assumes "ci < num_components (fst st)"
    and "component_needed (comp_info (fst st) ! nat ci)"
  shows "smooth_ci_loop ci st =
         (case (coef_bits_latch (coef (fst st)), quant_table (comp_info (fst st) ! nat ci)) of
            (Some latch, Some quanttbl) \<Rightarrow>
              (case smooth_block_row_loop ci (comp_info (fst st) ! nat ci) latch
                      (fetch_quant quanttbl)
                      (output_store_row (fst st) (comp_info (fst st) ! nat ci) 0)
                      (\<not> output_iMCU_row (fst st) > 0)
                      (\<not> output_iMCU_row (fst st) < total_iMCU_rows (fst st) - 1)
                      (output_block_rows (fst st) (comp_info (fst st) ! nat ci)) 0 0 st of
                 None \<Rightarrow> None
               | Some st' \<Rightarrow> smooth_ci_loop (ci + 1) st')
          | _ \<Rightarrow> None)"
  using assms
  by (subst smooth_ci_loop.simps)
    (simp add: split_beta Let_def output_store_row_def iMCU_start_row_def split: option.split)

lemma smooth_ci_loop_calls:
  assumes "smooth_ci_loop ci st = Some r" and "0 \<le> ci"
  shows "\<forall>x \<in> set (drop (length (snd st)) (snd r)).
           \<exists>latch block_row block_num.
             coef_bits_latch (coef (fst st)) = Some latch \<and>
             smoothed_from_store (fst st) latch x block_row block_num"
  using assms
proof (induction "nat (num_components (fst st) - ci)" arbitrary: ci st rule: less_induct)
  case less
  let ?compptr = "comp_info (fst st) ! nat ci"
  show ?case
  proof (cases "ci < num_components (fst st)")
    case False
    from less.prems(1) have "r = st"
      by (simp add: smooth_ci_loop_done [OF False])
    then show ?thesis
      by simp
  next
    case True
    have m: "nat (num_components (fst st) - (ci + 1)) < nat (num_components (fst st) - ci)"
      using True by simp
    have c: "0 \<le> ci + 1"
      using less.prems(2) by simp
    show ?thesis
    proof (cases "component_needed ?compptr")
      case False
      from less.prems(1) have "smooth_ci_loop (ci + 1) st = Some r"
        by (simp add: smooth_ci_loop_skip [OF True False])
      from less.hyps [OF m this c] show ?thesis .
    next
      case needed: True
      note step = smooth_ci_loop_step [OF True needed]
      from less.prems(1) step obtain latch quanttbl
        where latch: "coef_bits_latch (coef (fst st)) = Some latch"
          and qt: "quant_table ?compptr = Some quanttbl"
        by (cases "coef_bits_latch (coef (fst st))"; cases "quant_table ?compptr") simp_all
      let ?row_loop = "smooth_block_row_loop ci ?compptr latch (fetch_quant quanttbl)
                      (output_store_row (fst st) ?compptr 0)
                      (\<not> output_iMCU_row (fst st) > 0)
                      (\<not> output_iMCU_row (fst st) < total_iMCU_rows (fst st) - 1)
                      (output_block_rows (fst st) ?compptr) 0 0 st"
      from less.prems(1) step latch qt obtain st1
        where row: "?row_loop = Some st1" and next_run: "smooth_ci_loop (ci + 1) st1 = Some r"
        by (cases ?row_loop) simp_all
      from smooth_block_row_loop_effect [OF row]
      have e1: "smooth_loop_effect st st1" .
      then have u: "smooth_unchanged (fst st) (fst st1)"
        by (simp add: smooth_loop_effect_def)
      note f = smooth_unchanged_fields [OF u]
      note p = smooth_unchanged_places [OF u]
      from smooth_ci_loop_effect [OF next_run]
      have e2: "smooth_loop_effect st1 r"
        by (simp add: smooth_loop_effect_def)
      have first: "\<forall>x \<in> set (drop (length (snd st)) (snd st1)).
           \<exists>br b. 0 \<le> br \<and> br < output_block_rows (fst st) ?compptr \<and>
               b \<le> width_in_blocks ?compptr - 1 \<and>
               block_smoothed (fst st) ci ?compptr latch (fetch_quant quanttbl)
                 (neighbour_rows (fst st) ?compptr br) (br * DCT_scaled_size ?compptr) b x"
        by (rule smooth_block_row_loop_calls [OF row]) simp_all
      have m1: "nat (num_components (fst st1) - (ci + 1)) < nat (num_components (fst st) - ci)"
        using m by (simp add: f)
      from less.hyps [OF m1 next_run c]
      have rest: "\<forall>x \<in> set (drop (length (snd st1)) (snd r)).
           \<exists>latch block_row block_num.
             coef_bits_latch (coef (fst st)) = Some latch \<and>
             smoothed_from_store (fst st) latch x block_row block_num"
        by (simp add: p f)
      have d: "drop (length (snd st)) (snd r) =
               drop (length (snd st)) (snd st1) @ drop (length (snd st1)) (snd r)"
        using smooth_loop_effect_drop [OF e1] smooth_loop_effect_drop [OF e2]
        by (metis append.assoc append_eq_conv_conj)
      show ?thesis
        unfolding d
      proof (intro ballI)
        fix x
        assume "x \<in> set (drop (length (snd st)) (snd st1) @ drop (length (snd st1)) (snd r))"
        then consider "x \<in> set (drop (length (snd st)) (snd st1))"
          | "x \<in> set (drop (length (snd st1)) (snd r))"
          by auto
        then show "\<exists>latch block_row block_num.
             coef_bits_latch (coef (fst st)) = Some latch \<and>
             smoothed_from_store (fst st) latch x block_row block_num"
        proof cases
          case 1
          with first obtain br b where b: "0 \<le> br" "br < output_block_rows (fst st) ?compptr"
            "b \<le> width_in_blocks ?compptr - 1"
            "block_smoothed (fst st) ci ?compptr latch (fetch_quant quanttbl)
                 (neighbour_rows (fst st) ?compptr br) (br * DCT_scaled_size ?compptr) b x"
            by blast
          from b(4) have x: "idct_method x = ci" "idct_compptr x = ?compptr"
            by (simp_all add: block_smoothed_def)
          have "smoothed_from_store (fst st) latch x br b"
            unfolding smoothed_from_store_def x
            using b True less.prems(2) qt by simp
          with latch show ?thesis
            by blast
        next
          case 2
          with rest show ?thesis
            by blast
        qed
      qed
    qed
  qed
qed

subsection \<open>The estimate as a formula\<close>

lemma smooth_pred_K8_estimate:
  assumes "Q \<noteq> 0"
  shows "smooth_pred Q Al num = Some (K8_estimate Q Al num)"
proof -
  have p: "push_bit 8 Q = Q * 2 ^ 8" "push_bit 7 Q = Q * 2 ^ 7" "push_bit (nat Al) (1 :: int) = 2 ^ nat Al"
    by (simp_all add: push_bit_eq_mult)
  have nz: "Q * 2 ^ 8 \<noteq> 0"
    using assms by simp
  show ?thesis
    unfolding smooth_pred_def K8_estimate_def p Let_def
    using nz by (auto simp: min_def)
qed

lemma smooth_pred_None: "smooth_pred Q Al num = None \<longleftrightarrow> Q = 0"
  using smooth_pred_K8_estimate [of Q Al num]
  by (cases "Q = 0") (simp_all add: smooth_pred_def)

lemma K8_estimate_clamped:
  assumes "0 < Al" and "0 < Q"
  shows "\<bar>K8_estimate Q Al num\<bar> \<le> 2 ^ nat Al - 1"
proof -
  have "0 \<le> (Q * 2 ^ 7 + \<bar>num\<bar>) div (Q * 2 ^ 8)"
    using assms(2) by (intro pos_imp_zdiv_nonneg_iff [THEN iffD2]) simp_all
  moreover have "(0 :: int) \<le> 2 ^ nat Al - 1"
    by simp
  ultimately show ?thesis
    using assms(1) by (auto simp: K8_estimate_def Let_def min_def)
qed

lemma K8_estimate_fits_JCOEF:
  assumes "0 < Al" and "Al \<le> 15" and "0 < Q"
  shows "sint (word_of_int (K8_estimate Q Al num) :: JCOEF) = K8_estimate Q Al num"
proof -
  have "(2 :: int) ^ nat Al \<le> 2 ^ 15"
    using assms(1,2) by (intro power_increasing) simp_all
  with K8_estimate_clamped [OF assms(1,3), of num]
  have "- (2 ^ 15) \<le> K8_estimate Q Al num" "K8_estimate Q Al num < 2 ^ 15"
    by simp_all
  then show ?thesis
    by (simp add: sint_sbintrunc' signed_take_bit_int_eq_self)
qed

subsection \<open>Suspension and resumption of the single-pass loops\<close>

lemma onepass_yindex_loop_coef:
  "onepass_yindex_loop (cinfo\<lparr>coef := X\<rparr>) compptr buffer yoffset useful_width start_col yindex
     blkn output_ptr =
   onepass_yindex_loop cinfo compptr buffer yoffset useful_width start_col yindex blkn output_ptr"
proof (induction cinfo compptr buffer yoffset useful_width start_col yindex blkn output_ptr
    rule: onepass_yindex_loop.induct)
  case (1 cinfo compptr buffer yoffset useful_width start_col yindex blkn output_ptr)
  show ?case
  proof (cases "yindex < MCU_height compptr")
    case True
    with 1 show ?thesis
      by (subst (1 2) onepass_yindex_loop.simps) (simp add: Let_def)
  next
    case False
    then show ?thesis
      by (subst (1 2) onepass_yindex_loop.simps) simp
  qed
qed

lemma onepass_ci_loop_coef:
  "onepass_ci_loop (cinfo\<lparr>coef := X\<rparr>) buffer MCU_col_num yoffset ci blkn =
   onepass_ci_loop cinfo buffer MCU_col_num yoffset ci blkn"
proof (induction cinfo buffer MCU_col_num yoffset ci blkn rule: onepass_ci_loop.induct)
  case (1 cinfo buffer MCU_col_num yoffset ci blkn)
  show ?case
  proof (cases "ci < comps_in_scan cinfo")
    case True
    with 1 show ?thesis
      by (subst (1 2) onepass_ci_loop.simps) (simp add: Let_def onepass_yindex_loop_coef)
  next
    case False
    then show ?thesis
      by (subst (1 2) onepass_ci_loop.simps) simp
  qed
qed

lemma jzero_far_idem: "jzero_far n (jzero_far n blocks) = jzero_far n blocks"
  by (cases "n \<le> length blocks") (simp_all add: jzero_far_def min_def)

lemma store_MCU_blocks_take: "store_MCU_blocks (take n pool) pool = pool"
  by (simp add: store_MCU_blocks_def min_def)

lemma set_position_fields:
  "MCUs_per_row (set_position v k ci) = MCUs_per_row ci"
  "blocks_in_MCU (set_position v k ci) = blocks_in_MCU ci"
  "MCU_buffer (coef (set_position v k ci)) = MCU_buffer (coef ci)"
  "MCU_rows_per_iMCU_row (coef (set_position v k ci)) = MCU_rows_per_iMCU_row (coef ci)"
  "MCU_vert_offset (coef (set_position v k ci)) = v"
  "MCU_ctr (coef (set_position v k ci)) = k"
  by (simp_all add: set_position_def)

lemma set_vert_offset_fields:
  "MCUs_per_row (set_vert_offset v ci) = MCUs_per_row ci"
  "MCU_rows_per_iMCU_row (coef (set_vert_offset v ci)) = MCU_rows_per_iMCU_row (coef ci)"
  "MCU_vert_offset (coef (set_vert_offset v ci)) = v"
  "MCU_ctr (coef (set_vert_offset v ci)) = MCU_ctr (coef ci)"
  "input_iMCU_row (set_vert_offset v ci) = input_iMCU_row ci"
  "output_iMCU_row (set_vert_offset v ci) = output_iMCU_row ci"
  "total_iMCU_rows (set_vert_offset v ci) = total_iMCU_rows ci"
  by (simp_all add: set_vert_offset_def)

lemma set_vert_offset_as_position:
  "set_vert_offset v ci = set_position v (MCU_ctr (coef ci)) ci"
  by (simp add: set_vert_offset_def set_position_def)

lemma set_position_same: "set_position (MCU_vert_offset (coef ci)) (MCU_ctr (coef ci)) ci = ci"
  by (simp add: set_position_def)

lemma set_vert_offset_same: "set_vert_offset (MCU_vert_offset (coef ci)) ci = ci"
  by (simp add: set_vert_offset_def)

lemma set_vert_offset_twice: "set_vert_offset v (set_vert_offset u ci) = set_vert_offset v ci"
  by (simp add: set_vert_offset_def)

lemma set_position_reset_ctr:
  "(set_position v k ci)\<lparr>coef := (coef (set_position v k ci))\<lparr>MCU_ctr := 0\<rparr>\<rparr> =
   set_vert_offset v (ci\<lparr>coef := (coef ci)\<lparr>MCU_ctr := 0\<rparr>\<rparr>)"
  by (simp add: set_vert_offset_def set_position_def)

lemma set_position_buffer:
  "(set_position v k ci)\<lparr>coef := (coef (set_position v k ci))\<lparr>MCU_buffer := b\<rparr>\<rparr> =
   set_position v k (ci\<lparr>coef := (coef ci)\<lparr>MCU_buffer := b\<rparr>\<rparr>)"
  by (simp add: set_position_def)

lemma onepass_ci_loop_set_position:
  "onepass_ci_loop (set_position v k cinfo) buffer MCU_col_num yoffset ci blkn =
   onepass_ci_loop cinfo buffer MCU_col_num yoffset ci blkn"
  by (simp add: set_position_def onepass_ci_loop_coef)

lemma onepass_MCU_step_set_position:
  assumes "onepass_MCU_step dec y c e ci = (e1, ci1, t1)"
  shows "onepass_MCU_step dec y c e (set_position v k ci) = (e1, set_position v k ci1, t1)"
  using assms
  by (auto simp: onepass_MCU_step_def Let_def set_position_fields set_position_buffer
      onepass_ci_loop_set_position)

lemma onepass_MCU_step_zeroed:
  "onepass_MCU_step dec y c e (ci\<lparr>coef := (coef ci)\<lparr>MCU_buffer :=
      jzero_far (nat (blocks_in_MCU ci)) (MCU_buffer (coef ci))\<rparr>\<rparr>) =
   onepass_MCU_step dec y c e ci"
  by (simp add: onepass_MCU_step_def Let_def jzero_far_idem onepass_ci_loop_coef)

lemma plain_col_step_plain:
  assumes "c \<le> MCUs_per_row ci - 1" and "onepass_MCU_step dec y c e ci = (e1, ci1, t1)"
  shows "onepass_MCU_col_loop (no_suspension dec) y c (e, ci, tr) =
         onepass_MCU_col_loop (no_suspension dec) y (c + 1) (e1, ci1, tr @ t1)"
  using assms
  by (subst onepass_MCU_col_loop.simps)
    (auto simp: onepass_MCU_step_def no_suspension_def Let_def split: prod.splits)

lemma onepass_MCU_step_unchanged:
  assumes "onepass_MCU_step dec y c e ci = (e1, ci1, t1)"
  shows "onepass_unchanged ci ci1"
  using assms by (auto simp: onepass_MCU_step_def Let_def onepass_unchanged_def)

lemma onepass_MCU_col_loop_done:
  assumes "\<not> c \<le> MCUs_per_row ci - 1"
  shows "onepass_MCU_col_loop d y c (w, ci, tr) = Some (Completed (w, ci, tr))"
  using assms by (subst onepass_MCU_col_loop.simps) simp

lemma plain_col_step:
  assumes "c \<le> MCUs_per_row ci - 1" and "onepass_MCU_step dec y c e ci = (e1, ci1, t1)"
  shows "onepass_MCU_col_loop (no_suspension dec) y c (e, set_position v k ci, tr) =
         onepass_MCU_col_loop (no_suspension dec) y (c + 1) (e1, set_position v k ci1, tr @ t1)"
  by (rule plain_col_step_plain)
    (simp_all add: assms set_position_fields onepass_MCU_step_set_position)

lemma plain_col_step_zeroed:
  assumes "c \<le> MCUs_per_row ci - 1" and "onepass_MCU_step dec y c e ci = (e1, ci1, t1)"
  shows "onepass_MCU_col_loop (no_suspension dec) y c
           (e, set_position v k (ci\<lparr>coef := (coef ci)\<lparr>MCU_buffer :=
                 jzero_far (nat (blocks_in_MCU ci)) (MCU_buffer (coef ci))\<rparr>\<rparr>), tr) =
         onepass_MCU_col_loop (no_suspension dec) y (c + 1) (e1, set_position v k ci1, tr @ t1)"
  by (rule plain_col_step_plain)
    (simp_all add: assms set_position_fields onepass_MCU_step_set_position
      onepass_MCU_step_zeroed)

lemma suspended_col_now:
  assumes "c \<le> MCUs_per_row ci - 1" and "s \<noteq> []" and "hd s"
  shows "onepass_MCU_col_loop (inject_suspensions dec) y c ((s, e), ci, tr) =
         Some (Suspended ((tl s, e),
           set_position y c (ci\<lparr>coef := (coef ci)\<lparr>MCU_buffer :=
             jzero_far (nat (blocks_in_MCU ci)) (MCU_buffer (coef ci))\<rparr>\<rparr>), tr))"
  using assms
  by (subst onepass_MCU_col_loop.simps)
    (simp add: inject_suspensions_def set_position_def Let_def store_MCU_blocks_take)

lemma suspended_col_step:
  assumes "c \<le> MCUs_per_row ci - 1" and "\<not> (s \<noteq> [] \<and> hd s)"
    and "onepass_MCU_step dec y c e ci = (e1, ci1, t1)"
  shows "onepass_MCU_col_loop (inject_suspensions dec) y c ((s, e), ci, tr) =
         onepass_MCU_col_loop (inject_suspensions dec) y (c + 1) ((tl s, e1), ci1, tr @ t1)"
  using assms
  by (subst onepass_MCU_col_loop.simps)
    (auto simp: onepass_MCU_step_def inject_suspensions_def Let_def split: prod.splits)

lemma col_measure:
  fixes c M :: "32 word"
  assumes "M \<noteq> 0" and "c \<le> M - 1"
  shows "unat (M - 1) + 1 - unat (c + 1) < unat (M - 1) + 1 - unat c"
  using assms by unat_arith

lemma onepass_yoffset_loop_done:
  assumes "\<not> y < MCU_rows_per_iMCU_row (coef ci)"
  shows "onepass_yoffset_loop d y (w, ci, tr) = Some (Completed (w, ci, tr))"
  using assms by (subst onepass_yoffset_loop.simps) simp

lemma onepass_yoffset_loop_row:
  assumes "y < MCU_rows_per_iMCU_row (coef ci)"
    and "onepass_MCU_col_loop d y (MCU_ctr (coef ci)) (w, ci, tr) = Some (Completed (w1, ci1, tr1))"
  shows "onepass_yoffset_loop d y (w, ci, tr) =
         onepass_yoffset_loop d (y + 1) (w1, ci1\<lparr>coef := (coef ci1)\<lparr>MCU_ctr := 0\<rparr>\<rparr>, tr1)"
  using assms by (subst onepass_yoffset_loop.simps) simp

lemma onepass_yoffset_loop_suspended:
  assumes "y < MCU_rows_per_iMCU_row (coef ci)"
    and "onepass_MCU_col_loop d y (MCU_ctr (coef ci)) (w, ci, tr) = Some (Suspended x)"
  shows "onepass_yoffset_loop d y (w, ci, tr) = Some (Suspended x)"
  using assms by (subst onepass_yoffset_loop.simps) simp

lemma onepass_MCU_col_loop_suspensions:
  assumes "MCUs_per_row ci \<noteq> 0"
  shows "\<exists>e' ci' t. onepass_unchanged ci ci' \<and>
     MCU_vert_offset (coef ci') = MCU_vert_offset (coef ci) \<and>
     (\<forall>tr v k. onepass_MCU_col_loop (no_suspension dec) y c (e, set_position v k ci, tr)
        = Some (Completed (e', set_position v k ci', tr @ t))) \<and>
     (\<forall>s tr.
        (\<exists>s'. length s' \<le> length s \<and>
           onepass_MCU_col_loop (inject_suspensions dec) y c ((s, e), ci, tr)
             = Some (Completed ((s', e'), ci', tr @ t))) \<or>
        (\<exists>s' eX X tX tR. length s' < length s \<and>
           onepass_MCU_col_loop (inject_suspensions dec) y c ((s, e), ci, tr)
             = Some (Suspended ((s', eX), X, tr @ tX)) \<and>
           t = tX @ tR \<and> onepass_unchanged ci X \<and> MCU_vert_offset (coef X) = y \<and>
           (\<forall>tr0. onepass_MCU_col_loop (no_suspension dec) y (MCU_ctr (coef X)) (eX, X, tr0)
              = Some (Completed (e', set_position y (MCU_ctr (coef X)) ci', tr0 @ tR)))))"
  using assms
proof (induction "unat (MCUs_per_row ci - 1) + 1 - unat c" arbitrary: c e ci rule: less_induct)
  case less
  show ?case
  proof (cases "c \<le> MCUs_per_row ci - 1")
    case False
    have "onepass_unchanged ci ci"
      by (rule onepass_unchanged_refl)
    moreover have "MCU_vert_offset (coef ci) = MCU_vert_offset (coef ci)" ..
    moreover have "\<forall>tr v k. onepass_MCU_col_loop (no_suspension dec) y c (e, set_position v k ci, tr)
        = Some (Completed (e, set_position v k ci, tr @ []))"
      using False by (simp add: onepass_MCU_col_loop_done set_position_fields)
    moreover have "\<forall>s tr. \<exists>s'. length s' \<le> length s \<and>
           onepass_MCU_col_loop (inject_suspensions dec) y c ((s, e), ci, tr)
             = Some (Completed ((s', e), ci, tr @ []))"
      using False by (auto simp: onepass_MCU_col_loop_done)
    ultimately show ?thesis
      by blast
  next
    case True
    obtain e1 ci1 t1 where step: "onepass_MCU_step dec y c e ci = (e1, ci1, t1)"
      by (cases "onepass_MCU_step dec y c e ci") auto
    have u1: "onepass_unchanged ci ci1"
      by (rule onepass_MCU_step_unchanged [OF step])
    have m1: "MCUs_per_row ci1 = MCUs_per_row ci"
      by (rule onepass_unchanged_fields(4) [OF u1])
    have "unat (MCUs_per_row ci1 - 1) + 1 - unat (c + 1) < unat (MCUs_per_row ci - 1) + 1 - unat c"
      unfolding m1 by (rule col_measure [OF less.prems True])
    moreover have "MCUs_per_row ci1 \<noteq> 0"
      using less.prems by (simp add: m1)
    ultimately obtain e' ci' t2
      where u2: "onepass_unchanged ci1 ci'"
        and v2: "MCU_vert_offset (coef ci') = MCU_vert_offset (coef ci1)"
        and plain: "\<And>tr v k. onepass_MCU_col_loop (no_suspension dec) y (c + 1) (e1, set_position v k ci1, tr)
                      = Some (Completed (e', set_position v k ci', tr @ t2))"
        and susp: "\<And>s tr.
          (\<exists>s'. length s' \<le> length s \<and>
             onepass_MCU_col_loop (inject_suspensions dec) y (c + 1) ((s, e1), ci1, tr)
               = Some (Completed ((s', e'), ci', tr @ t2))) \<or>
          (\<exists>s' eX X tX tR. length s' < length s \<and>
             onepass_MCU_col_loop (inject_suspensions dec) y (c + 1) ((s, e1), ci1, tr)
               = Some (Suspended ((s', eX), X, tr @ tX)) \<and>
             t2 = tX @ tR \<and> onepass_unchanged ci1 X \<and> MCU_vert_offset (coef X) = y \<and>
             (\<forall>tr0. onepass_MCU_col_loop (no_suspension dec) y (MCU_ctr (coef X)) (eX, X, tr0)
                = Some (Completed (e', set_position y (MCU_ctr (coef X)) ci', tr0 @ tR))))"
      using less.hyps [of ci1 "c + 1" e1] by blast
    have A: "onepass_unchanged ci ci'"
      by (rule onepass_unchanged_trans [OF u1 u2])
    have V: "MCU_vert_offset (coef ci') = MCU_vert_offset (coef ci)"
      using v2 step by (auto simp: onepass_MCU_step_def Let_def)
    have B: "onepass_MCU_col_loop (no_suspension dec) y c (e, set_position v k ci, tr)
        = Some (Completed (e', set_position v k ci', tr @ (t1 @ t2)))" for tr v k
      by (simp add: plain_col_step [OF True step] plain)
    have C: "(\<exists>s'. length s' \<le> length s \<and>
           onepass_MCU_col_loop (inject_suspensions dec) y c ((s, e), ci, tr)
             = Some (Completed ((s', e'), ci', tr @ (t1 @ t2)))) \<or>
        (\<exists>s' eX X tX tR. length s' < length s \<and>
           onepass_MCU_col_loop (inject_suspensions dec) y c ((s, e), ci, tr)
             = Some (Suspended ((s', eX), X, tr @ tX)) \<and>
           t1 @ t2 = tX @ tR \<and> onepass_unchanged ci X \<and> MCU_vert_offset (coef X) = y \<and>
           (\<forall>tr0. onepass_MCU_col_loop (no_suspension dec) y (MCU_ctr (coef X)) (eX, X, tr0)
              = Some (Completed (e', set_position y (MCU_ctr (coef X)) ci', tr0 @ tR))))"
      (is "?done \<or> ?suspended") for s tr
    proof (cases "s \<noteq> [] \<and> hd s")
      case now: True
      let ?X = "set_position y c (ci\<lparr>coef := (coef ci)\<lparr>MCU_buffer :=
                  jzero_far (nat (blocks_in_MCU ci)) (MCU_buffer (coef ci))\<rparr>\<rparr>)"
      have "length (tl s) < length s"
        using now by simp
      moreover have "onepass_MCU_col_loop (inject_suspensions dec) y c ((s, e), ci, tr)
             = Some (Suspended ((tl s, e), ?X, tr @ []))"
        using now by (simp add: suspended_col_now [OF True])
      moreover have "t1 @ t2 = [] @ (t1 @ t2)"
        by simp
      moreover have "onepass_unchanged ci ?X"
        by (simp add: onepass_unchanged_def set_position_def)
      moreover have "MCU_vert_offset (coef ?X) = y"
        by (simp add: set_position_fields)
      moreover have "\<forall>tr0. onepass_MCU_col_loop (no_suspension dec) y (MCU_ctr (coef ?X)) (e, ?X, tr0)
              = Some (Completed (e', set_position y (MCU_ctr (coef ?X)) ci', tr0 @ (t1 @ t2)))"
        by (simp add: set_position_fields plain_col_step_zeroed [OF True step] plain)
      ultimately have ?suspended
        by blast
      then show ?thesis ..
    next
      case later: False
      have eq: "onepass_MCU_col_loop (inject_suspensions dec) y c ((s, e), ci, tr) =
         onepass_MCU_col_loop (inject_suspensions dec) y (c + 1) ((tl s, e1), ci1, tr @ t1)"
        by (rule suspended_col_step [OF True later step])
      from susp [of "tl s" "tr @ t1"] show ?thesis
      proof (elim disjE exE conjE)
        fix s'
        assume "length s' \<le> length (tl s)"
          and "onepass_MCU_col_loop (inject_suspensions dec) y (c + 1) ((tl s, e1), ci1, tr @ t1)
               = Some (Completed ((s', e'), ci', (tr @ t1) @ t2))"
        then have ?done
          by (auto simp: eq intro!: exI [of _ s'])
        then show ?thesis ..
      next
        fix s' eX X tX tR
        assume "length s' < length (tl s)"
          and "onepass_MCU_col_loop (inject_suspensions dec) y (c + 1) ((tl s, e1), ci1, tr @ t1)
               = Some (Suspended ((s', eX), X, (tr @ t1) @ tX))"
          and "t2 = tX @ tR" and "onepass_unchanged ci1 X" and "MCU_vert_offset (coef X) = y"
          and "\<forall>tr0. onepass_MCU_col_loop (no_suspension dec) y (MCU_ctr (coef X)) (eX, X, tr0)
                = Some (Completed (e', set_position y (MCU_ctr (coef X)) ci', tr0 @ tR))"
        moreover have "onepass_unchanged ci1 X \<Longrightarrow> onepass_unchanged ci X"
          by (rule onepass_unchanged_trans [OF u1])
        ultimately have "length s' < length s \<and>
           onepass_MCU_col_loop (inject_suspensions dec) y c ((s, e), ci, tr)
             = Some (Suspended ((s', eX), X, tr @ (t1 @ tX))) \<and>
           t1 @ t2 = (t1 @ tX) @ tR \<and> onepass_unchanged ci X \<and> MCU_vert_offset (coef X) = y \<and>
           (\<forall>tr0. onepass_MCU_col_loop (no_suspension dec) y (MCU_ctr (coef X)) (eX, X, tr0)
              = Some (Completed (e', set_position y (MCU_ctr (coef X)) ci', tr0 @ tR)))"
          by (simp add: eq)
        then have ?suspended
          by blast
        then show ?thesis ..
      qed
    qed
    from A V B C show ?thesis
      by blast
  qed
qed

lemma onepass_yoffset_loop_suspensions:
  assumes "MCUs_per_row ci \<noteq> 0"
  shows "\<exists>e' ci' t. onepass_unchanged ci ci' \<and>
     MCU_vert_offset (coef ci') = MCU_vert_offset (coef ci) \<and>
     (\<forall>tr v. onepass_yoffset_loop (no_suspension dec) y (e, set_vert_offset v ci, tr)
        = Some (Completed (e', set_vert_offset v ci', tr @ t))) \<and>
     (\<forall>s tr.
        (\<exists>s'. length s' \<le> length s \<and>
           onepass_yoffset_loop (inject_suspensions dec) y ((s, e), ci, tr)
             = Some (Completed ((s', e'), ci', tr @ t))) \<or>
        (\<exists>s' eX X tX tR. length s' < length s \<and>
           onepass_yoffset_loop (inject_suspensions dec) y ((s, e), ci, tr)
             = Some (Suspended ((s', eX), X, tr @ tX)) \<and>
           t = tX @ tR \<and> onepass_unchanged ci X \<and>
           (\<forall>tr0. onepass_yoffset_loop (no_suspension dec) (MCU_vert_offset (coef X)) (eX, X, tr0)
              = Some (Completed (e', set_vert_offset (MCU_vert_offset (coef X)) ci', tr0 @ tR)))))"
  using assms
proof (induction "nat (MCU_rows_per_iMCU_row (coef ci) - y)" arbitrary: y e ci rule: less_induct)
  case less
  show ?case
  proof (cases "y < MCU_rows_per_iMCU_row (coef ci)")
    case False
    have "onepass_unchanged ci ci"
      by (rule onepass_unchanged_refl)
    moreover have "MCU_vert_offset (coef ci) = MCU_vert_offset (coef ci)" ..
    moreover have "\<forall>tr v. onepass_yoffset_loop (no_suspension dec) y (e, set_vert_offset v ci, tr)
        = Some (Completed (e, set_vert_offset v ci, tr @ []))"
      using False by (simp add: onepass_yoffset_loop_done set_vert_offset_fields)
    moreover have "\<forall>s tr. \<exists>s'. length s' \<le> length s \<and>
           onepass_yoffset_loop (inject_suspensions dec) y ((s, e), ci, tr)
             = Some (Completed ((s', e), ci, tr @ []))"
      using False by (auto simp: onepass_yoffset_loop_done)
    ultimately show ?thesis
      by blast
  next
    case True
    let ?k = "MCU_ctr (coef ci)"
    obtain e1 ci1 t1
      where u1: "onepass_unchanged ci ci1"
        and v1: "MCU_vert_offset (coef ci1) = MCU_vert_offset (coef ci)"
        and col_plain: "\<And>tr v k. onepass_MCU_col_loop (no_suspension dec) y ?k (e, set_position v k ci, tr)
                      = Some (Completed (e1, set_position v k ci1, tr @ t1))"
        and col_susp: "\<And>s tr.
          (\<exists>s'. length s' \<le> length s \<and>
             onepass_MCU_col_loop (inject_suspensions dec) y ?k ((s, e), ci, tr)
               = Some (Completed ((s', e1), ci1, tr @ t1))) \<or>
          (\<exists>s' eX X tX tR. length s' < length s \<and>
             onepass_MCU_col_loop (inject_suspensions dec) y ?k ((s, e), ci, tr)
               = Some (Suspended ((s', eX), X, tr @ tX)) \<and>
             t1 = tX @ tR \<and> onepass_unchanged ci X \<and> MCU_vert_offset (coef X) = y \<and>
             (\<forall>tr0. onepass_MCU_col_loop (no_suspension dec) y (MCU_ctr (coef X)) (eX, X, tr0)
                = Some (Completed (e1, set_position y (MCU_ctr (coef X)) ci1, tr0 @ tR))))"
      using onepass_MCU_col_loop_suspensions [OF less.prems, of dec y ?k e] by blast
    let ?ci1 = "ci1\<lparr>coef := (coef ci1)\<lparr>MCU_ctr := 0\<rparr>\<rparr>"
    have u1': "onepass_unchanged ci ?ci1"
      by (rule onepass_unchanged_trans [OF u1]) (simp add: onepass_unchanged_def)
    note f1 = onepass_unchanged_fields [OF u1']
    have "nat (MCU_rows_per_iMCU_row (coef ?ci1) - (y + 1)) < nat (MCU_rows_per_iMCU_row (coef ci) - y)"
      using True unfolding f1(6) by simp
    moreover have "MCUs_per_row ?ci1 \<noteq> 0"
      using less.prems unfolding f1(4) .
    ultimately obtain e' ci' t2
      where u2: "onepass_unchanged ?ci1 ci'"
        and v2: "MCU_vert_offset (coef ci') = MCU_vert_offset (coef ?ci1)"
        and plain: "\<And>tr v. onepass_yoffset_loop (no_suspension dec) (y + 1) (e1, set_vert_offset v ?ci1, tr)
                      = Some (Completed (e', set_vert_offset v ci', tr @ t2))"
        and susp: "\<And>s tr.
          (\<exists>s'. length s' \<le> length s \<and>
             onepass_yoffset_loop (inject_suspensions dec) (y + 1) ((s, e1), ?ci1, tr)
               = Some (Completed ((s', e'), ci', tr @ t2))) \<or>
          (\<exists>s' eX X tX tR. length s' < length s \<and>
             onepass_yoffset_loop (inject_suspensions dec) (y + 1) ((s, e1), ?ci1, tr)
               = Some (Suspended ((s', eX), X, tr @ tX)) \<and>
             t2 = tX @ tR \<and> onepass_unchanged ?ci1 X \<and>
             (\<forall>tr0. onepass_yoffset_loop (no_suspension dec) (MCU_vert_offset (coef X)) (eX, X, tr0)
                = Some (Completed (e', set_vert_offset (MCU_vert_offset (coef X)) ci', tr0 @ tR))))"
      using less.hyps [of ?ci1 "y + 1" e1] by blast
    have A: "onepass_unchanged ci ci'"
      by (rule onepass_unchanged_trans [OF u1' u2])
    have V: "MCU_vert_offset (coef ci') = MCU_vert_offset (coef ci)"
      using v2 v1 by simp
    have B: "onepass_yoffset_loop (no_suspension dec) y (e, set_vert_offset v ci, tr)
        = Some (Completed (e', set_vert_offset v ci', tr @ (t1 @ t2)))" for tr v
    proof -
      have "onepass_MCU_col_loop (no_suspension dec) y (MCU_ctr (coef (set_vert_offset v ci)))
              (e, set_vert_offset v ci, tr)
            = Some (Completed (e1, set_position v ?k ci1, tr @ t1))"
        using col_plain [of v ?k tr]
        by (simp add: set_vert_offset_fields set_vert_offset_as_position [symmetric])
      from onepass_yoffset_loop_row [OF _ this] True show ?thesis
        by (simp add: set_vert_offset_fields set_position_reset_ctr plain)
    qed
    have C: "(\<exists>s'. length s' \<le> length s \<and>
           onepass_yoffset_loop (inject_suspensions dec) y ((s, e), ci, tr)
             = Some (Completed ((s', e'), ci', tr @ (t1 @ t2)))) \<or>
        (\<exists>s' eX X tX tR. length s' < length s \<and>
           onepass_yoffset_loop (inject_suspensions dec) y ((s, e), ci, tr)
             = Some (Suspended ((s', eX), X, tr @ tX)) \<and>
           t1 @ t2 = tX @ tR \<and> onepass_unchanged ci X \<and>
           (\<forall>tr0. onepass_yoffset_loop (no_suspension dec) (MCU_vert_offset (coef X)) (eX, X, tr0)
              = Some (Completed (e', set_vert_offset (MCU_vert_offset (coef X)) ci', tr0 @ tR))))"
      (is "?done \<or> ?suspended") for s tr
      using col_susp [of s tr]
    proof (elim disjE exE conjE)
      fix s1
      assume len1: "length s1 \<le> length s"
        and col: "onepass_MCU_col_loop (inject_suspensions dec) y ?k ((s, e), ci, tr)
               = Some (Completed ((s1, e1), ci1, tr @ t1))"
      have eq: "onepass_yoffset_loop (inject_suspensions dec) y ((s, e), ci, tr) =
                onepass_yoffset_loop (inject_suspensions dec) (y + 1) ((s1, e1), ?ci1, tr @ t1)"
        by (rule onepass_yoffset_loop_row [OF True col])
      from susp [of s1 "tr @ t1"] show ?thesis
      proof (elim disjE exE conjE)
        fix s'
        assume "length s' \<le> length s1"
          and "onepass_yoffset_loop (inject_suspensions dec) (y + 1) ((s1, e1), ?ci1, tr @ t1)
               = Some (Completed ((s', e'), ci', (tr @ t1) @ t2))"
        with len1 have ?done
          by (auto simp: eq intro!: exI [of _ s'])
        then show ?thesis ..
      next
        fix s' eX X tX tR
        assume "length s' < length s1"
          and "onepass_yoffset_loop (inject_suspensions dec) (y + 1) ((s1, e1), ?ci1, tr @ t1)
               = Some (Suspended ((s', eX), X, (tr @ t1) @ tX))"
          and "t2 = tX @ tR" and "onepass_unchanged ?ci1 X"
          and "\<forall>tr0. onepass_yoffset_loop (no_suspension dec) (MCU_vert_offset (coef X)) (eX, X, tr0)
                = Some (Completed (e', set_vert_offset (MCU_vert_offset (coef X)) ci', tr0 @ tR))"
        moreover have "onepass_unchanged ?ci1 X \<Longrightarrow> onepass_unchanged ci X"
          by (rule onepass_unchanged_trans [OF u1'])
        ultimately have "length s' < length s \<and>
           onepass_yoffset_loop (inject_suspensions dec) y ((s, e), ci, tr)
             = Some (Suspended ((s', eX), X, tr @ (t1 @ tX))) \<and>
           t1 @ t2 = (t1 @ tX) @ tR \<and> onepass_unchanged ci X \<and>
           (\<forall>tr0. onepass_yoffset_loop (no_suspension dec) (MCU_vert_offset (coef X)) (eX, X, tr0)
              = Some (Completed (e', set_vert_offset (MCU_vert_offset (coef X)) ci', tr0 @ tR)))"
          using len1 by (simp add: eq)
        then have ?suspended
          by blast
        then show ?thesis ..
      qed
    next
      fix s' eX X tX tR
      assume len: "length s' < length s"
        and col: "onepass_MCU_col_loop (inject_suspensions dec) y ?k ((s, e), ci, tr)
               = Some (Suspended ((s', eX), X, tr @ tX))"
        and t1: "t1 = tX @ tR" and uX: "onepass_unchanged ci X"
        and vX: "MCU_vert_offset (coef X) = y"
        and resume: "\<forall>tr0. onepass_MCU_col_loop (no_suspension dec) y (MCU_ctr (coef X)) (eX, X, tr0)
                = Some (Completed (e1, set_position y (MCU_ctr (coef X)) ci1, tr0 @ tR))"
      have rows: "y < MCU_rows_per_iMCU_row (coef X)"
        using True by (simp add: onepass_unchanged_fields(6) [OF uX])
      have "onepass_yoffset_loop (no_suspension dec) y (eX, X, tr0)
              = Some (Completed (e', set_vert_offset y ci', tr0 @ (tR @ t2)))" for tr0
        using onepass_yoffset_loop_row [OF rows resume [rule_format, of tr0]]
        by (simp add: set_position_reset_ctr plain)
      with len col t1 uX vX have "length s' < length s \<and>
           onepass_yoffset_loop (inject_suspensions dec) y ((s, e), ci, tr)
             = Some (Suspended ((s', eX), X, tr @ tX)) \<and>
           t1 @ t2 = tX @ (tR @ t2) \<and> onepass_unchanged ci X \<and>
           (\<forall>tr0. onepass_yoffset_loop (no_suspension dec) (MCU_vert_offset (coef X)) (eX, X, tr0)
              = Some (Completed (e', set_vert_offset (MCU_vert_offset (coef X)) ci', tr0 @ (tR @ t2))))"
        by (simp add: onepass_yoffset_loop_suspended [OF True col])
      then have ?suspended
        by blast
      then show ?thesis ..
    qed
    from A V B C show ?thesis
      by blast
  qed
qed

lemma decompress_onepass_completed:
  assumes "onepass_yoffset_loop d (MCU_vert_offset (coef ci)) (w, ci, []) = Some (Completed (w', ci', t))"
  shows "decompress_onepass d fin w ci =
     Some (if input_iMCU_row ci' + 1 < total_iMCU_rows ci'
           then (JPEG_ROW_COMPLETED, w',
                 start_iMCU_row (ci'\<lparr>output_iMCU_row := output_iMCU_row ci' + 1,
                                      input_iMCU_row := input_iMCU_row ci' + 1\<rparr>), t)
           else (JPEG_SCAN_COMPLETED, fin w',
                 ci'\<lparr>output_iMCU_row := output_iMCU_row ci' + 1,
                      input_iMCU_row := input_iMCU_row ci' + 1\<rparr>, t))"
  by (simp add: decompress_onepass_def assms Let_def)

lemma decompress_onepass_suspended:
  assumes "onepass_yoffset_loop d (MCU_vert_offset (coef ci)) (w, ci, []) = Some (Suspended (w', X, t))"
  shows "decompress_onepass d fin w ci = Some (JPEG_SUSPENDED, w', X, t)"
  by (simp add: decompress_onepass_def assms)

lemma start_iMCU_row_set_vert_offset:
  "start_iMCU_row (set_vert_offset v c) = start_iMCU_row c"
  by (simp add: start_iMCU_row_def set_vert_offset_def)

lemma advance_set_vert_offset:
  "(set_vert_offset v c)\<lparr>output_iMCU_row := a, input_iMCU_row := b\<rparr> =
   set_vert_offset v (c\<lparr>output_iMCU_row := a, input_iMCU_row := b\<rparr>)"
  by (simp add: set_vert_offset_def)

lemma decompress_onepass_suspensions:
  assumes "MCUs_per_row ci \<noteq> 0"
  shows "\<exists>status e' ci' t. status \<noteq> JPEG_SUSPENDED \<and>
     decompress_onepass (no_suspension dec) fin e ci = Some (status, e', ci', t) \<and>
     (\<forall>s.
        (\<exists>s'. decompress_onepass (inject_suspensions dec) (apsnd fin) (s, e) ci
                = Some (status, (s', e'), ci', t)) \<or>
        (\<exists>s' eX X tX tR ciX. length s' < length s \<and>
           decompress_onepass (inject_suspensions dec) (apsnd fin) (s, e) ci
             = Some (JPEG_SUSPENDED, (s', eX), X, tX) \<and>
           t = tX @ tR \<and> MCUs_per_row X \<noteq> 0 \<and>
           decompress_onepass (no_suspension dec) fin eX X = Some (status, e', ciX, tR) \<and>
           ciX = set_vert_offset (MCU_vert_offset (coef ciX)) ci' \<and>
           (status = JPEG_ROW_COMPLETED \<longrightarrow> ciX = ci')))"
proof -
  let ?y = "MCU_vert_offset (coef ci)"
  obtain e1 ciL t
    where uL: "onepass_unchanged ci ciL"
      and vL: "MCU_vert_offset (coef ciL) = ?y"
      and plain: "\<And>tr v. onepass_yoffset_loop (no_suspension dec) ?y (e, set_vert_offset v ci, tr)
                      = Some (Completed (e1, set_vert_offset v ciL, tr @ t))"
      and susp: "\<And>s tr.
          (\<exists>s'. length s' \<le> length s \<and>
             onepass_yoffset_loop (inject_suspensions dec) ?y ((s, e), ci, tr)
               = Some (Completed ((s', e1), ciL, tr @ t))) \<or>
          (\<exists>s' eX X tX tR. length s' < length s \<and>
             onepass_yoffset_loop (inject_suspensions dec) ?y ((s, e), ci, tr)
               = Some (Suspended ((s', eX), X, tr @ tX)) \<and>
             t = tX @ tR \<and> onepass_unchanged ci X \<and>
             (\<forall>tr0. onepass_yoffset_loop (no_suspension dec) (MCU_vert_offset (coef X)) (eX, X, tr0)
                = Some (Completed (e1, set_vert_offset (MCU_vert_offset (coef X)) ciL, tr0 @ tR))))"
    using onepass_yoffset_loop_suspensions [OF assms, of dec ?y e] by blast
  let ?adv = "\<lambda>c. c\<lparr>output_iMCU_row := output_iMCU_row ciL + 1,
                      input_iMCU_row := input_iMCU_row ciL + 1\<rparr>"
  let ?more = "input_iMCU_row ciL + 1 < total_iMCU_rows ciL"
  let ?status = "if ?more then JPEG_ROW_COMPLETED else JPEG_SCAN_COMPLETED"
  let ?e' = "if ?more then e1 else fin e1"
  let ?ci' = "if ?more then start_iMCU_row (?adv ciL) else ?adv ciL"
  have "set_vert_offset ?y ciL = ciL"
    using set_vert_offset_same [of ciL] by (simp add: vL)
  with plain [of ?y "[]"]
  have "onepass_yoffset_loop (no_suspension dec) ?y (e, ci, []) = Some (Completed (e1, ciL, t))"
    by (simp add: set_vert_offset_same)
  from decompress_onepass_completed [OF this, of fin]
  have P: "decompress_onepass (no_suspension dec) fin e ci = Some (?status, ?e', ?ci', t)"
    by simp
  have S: "?status \<noteq> JPEG_SUSPENDED"
    by simp
  have D: "(\<exists>s'. decompress_onepass (inject_suspensions dec) (apsnd fin) (s, e) ci
                = Some (?status, (s', ?e'), ?ci', t)) \<or>
        (\<exists>s' eX X tX tR ciX. length s' < length s \<and>
           decompress_onepass (inject_suspensions dec) (apsnd fin) (s, e) ci
             = Some (JPEG_SUSPENDED, (s', eX), X, tX) \<and>
           t = tX @ tR \<and> MCUs_per_row X \<noteq> 0 \<and>
           decompress_onepass (no_suspension dec) fin eX X = Some (?status, ?e', ciX, tR) \<and>
           ciX = set_vert_offset (MCU_vert_offset (coef ciX)) ?ci' \<and>
           (?status = JPEG_ROW_COMPLETED \<longrightarrow> ciX = ?ci'))"
    (is "?done \<or> ?suspended") for s
    using susp [of s "[]"]
  proof (elim disjE exE conjE)
    fix s'
    assume "onepass_yoffset_loop (inject_suspensions dec) ?y ((s, e), ci, [])
               = Some (Completed ((s', e1), ciL, [] @ t))"
    then have "onepass_yoffset_loop (inject_suspensions dec) ?y ((s, e), ci, [])
               = Some (Completed ((s', e1), ciL, t))"
      by simp
    from decompress_onepass_completed [OF this, of "apsnd fin"]
    have "decompress_onepass (inject_suspensions dec) (apsnd fin) (s, e) ci
                = Some (?status, (s', ?e'), ?ci', t)"
      by simp
    then have ?done ..
    then show ?thesis ..
  next
    fix s' eX X tX tR
    assume len: "length s' < length s"
      and run: "onepass_yoffset_loop (inject_suspensions dec) ?y ((s, e), ci, [])
               = Some (Suspended ((s', eX), X, [] @ tX))"
      and t: "t = tX @ tR" and uX: "onepass_unchanged ci X"
      and resume: "\<forall>tr0. onepass_yoffset_loop (no_suspension dec) (MCU_vert_offset (coef X)) (eX, X, tr0)
                = Some (Completed (e1, set_vert_offset (MCU_vert_offset (coef X)) ciL, tr0 @ tR))"
    let ?v = "MCU_vert_offset (coef X)"
    let ?ciX = "if ?more then start_iMCU_row (?adv ciL) else set_vert_offset ?v (?adv ciL)"
    from run have "onepass_yoffset_loop (inject_suspensions dec) ?y ((s, e), ci, [])
               = Some (Suspended ((s', eX), X, tX))"
      by simp
    from decompress_onepass_suspended [OF this, of "apsnd fin"]
    have 1: "decompress_onepass (inject_suspensions dec) (apsnd fin) (s, e) ci
             = Some (JPEG_SUSPENDED, (s', eX), X, tX)" .
    have 2: "MCUs_per_row X \<noteq> 0"
      using assms by (simp add: onepass_unchanged_fields(4) [OF uX])
    from resume have "onepass_yoffset_loop (no_suspension dec) ?v (eX, X, [])
                = Some (Completed (e1, set_vert_offset ?v ciL, tR))"
      by simp
    from decompress_onepass_completed [OF this, of fin]
    have 3: "decompress_onepass (no_suspension dec) fin eX X = Some (?status, ?e', ?ciX, tR)"
      unfolding set_vert_offset_fields advance_set_vert_offset start_iMCU_row_set_vert_offset
      by simp
    have 4: "?ciX = set_vert_offset (MCU_vert_offset (coef ?ciX)) ?ci'"
      by (simp add: set_vert_offset_fields set_vert_offset_same)
    have 5: "?status = JPEG_ROW_COMPLETED \<longrightarrow> ?ciX = ?ci'"
      by simp
    from len 1 t 2 3 4 5 have ?suspended
      by blast
    then show ?thesis ..
  qed
  from S P D show ?thesis
    by blast
qed

lemma onepass_MCU_col_loop_fail:
  assumes "c \<le> MCUs_per_row ci - 1"
    and "d w (take (nat (blocks_in_MCU ci))
              (jzero_far (nat (blocks_in_MCU ci)) (MCU_buffer (coef ci)))) = (False, w1, blocks)"
  shows "onepass_MCU_col_loop d y c (w, ci, tr) =
         Some (Suspended (w1,
           ci\<lparr>coef := (coef ci)\<lparr>MCU_buffer := store_MCU_blocks blocks
                      (jzero_far (nat (blocks_in_MCU ci)) (MCU_buffer (coef ci))),
                    MCU_vert_offset := y, MCU_ctr := c\<rparr>\<rparr>, tr))"
  using assms by (subst onepass_MCU_col_loop.simps) (simp add: Let_def)

lemma onepass_MCU_col_loop_ok:
  assumes "c \<le> MCUs_per_row ci - 1"
    and "d w (take (nat (blocks_in_MCU ci))
              (jzero_far (nat (blocks_in_MCU ci)) (MCU_buffer (coef ci)))) = (True, w1, blocks)"
    and "ci1 = ci\<lparr>coef := (coef ci)\<lparr>MCU_buffer := store_MCU_blocks blocks
                      (jzero_far (nat (blocks_in_MCU ci)) (MCU_buffer (coef ci)))\<rparr>\<rparr>"
  shows "onepass_MCU_col_loop d y c (w, ci, tr) =
         onepass_MCU_col_loop d y (c + 1)
           (w1, ci1, tr @ onepass_ci_loop ci1 (MCU_buffer (coef ci1)) c y 0 0)"
  using assms(1,2) unfolding assms(3)
  by (subst onepass_MCU_col_loop.simps) (simp add: Let_def)

lemma resumed_exit_simps:
  "resumed_exit f calls (Suspended (w, cinfo, new)) = Suspended (w, cinfo, calls @ new)"
  "resumed_exit f calls (Completed (w, cinfo, new)) = Completed (w, f cinfo, calls @ new)"
  by (simp_all add: resumed_exit_def)

lemma onepass_MCU_col_loop_shift:
  assumes "MCUs_per_row ci \<noteq> 0"
  shows "\<exists>r. onepass_MCU_col_loop d y c (w, ci, tr) = Some r \<and>
           (\<forall>v k tr0. onepass_MCU_col_loop d y c (w, set_position v k ci, tr0 @ tr)
              = Some (resumed_exit (set_position v k) tr0 r))"
  using assms
proof (induction "unat (MCUs_per_row ci - 1) + 1 - unat c" arbitrary: c w ci tr rule: less_induct)
  case less
  show ?case
  proof (cases "c \<le> MCUs_per_row ci - 1")
    case False
    then show ?thesis
      by (simp add: onepass_MCU_col_loop_done set_position_fields resumed_exit_simps)
  next
    case True
    let ?zeroed = "jzero_far (nat (blocks_in_MCU ci)) (MCU_buffer (coef ci))"
    obtain ok w1 blocks
      where dec: "d w (take (nat (blocks_in_MCU ci)) ?zeroed) = (ok, w1, blocks)"
      by (cases "d w (take (nat (blocks_in_MCU ci)) ?zeroed)") auto
    let ?ci1 = "ci\<lparr>coef := (coef ci)\<lparr>MCU_buffer := store_MCU_blocks blocks ?zeroed\<rparr>\<rparr>"
    have True': "c \<le> MCUs_per_row (set_position v k ci) - 1" for v k
      using True by (simp add: set_position_fields)
    have dec': "d w (take (nat (blocks_in_MCU (set_position v k ci)))
              (jzero_far (nat (blocks_in_MCU (set_position v k ci)))
                 (MCU_buffer (coef (set_position v k ci))))) = (ok, w1, blocks)" for v k
      using dec by (simp add: set_position_fields)
    show ?thesis
    proof (cases ok)
      case False
      have "onepass_MCU_col_loop d y c (w, ci, tr) =
              Some (Suspended (w1, ?ci1\<lparr>coef := (coef ?ci1)\<lparr>MCU_vert_offset := y,
                                                               MCU_ctr := c\<rparr>\<rparr>, tr))"
        using onepass_MCU_col_loop_fail [OF True, of d w w1 blocks y tr] dec False by simp
      moreover have "onepass_MCU_col_loop d y c (w, set_position v k ci, tr0 @ tr) =
              Some (Suspended (w1, ?ci1\<lparr>coef := (coef ?ci1)\<lparr>MCU_vert_offset := y,
                                                               MCU_ctr := c\<rparr>\<rparr>, tr0 @ tr))"
        for v k tr0
        using onepass_MCU_col_loop_fail [OF True', of d w v k w1 blocks y "tr0 @ tr"] dec' [of v k]
          False
        by (simp add: set_position_fields) (simp add: set_position_def)
      ultimately show ?thesis
        by (simp add: resumed_exit_simps)
    next
      case ok: True
      let ?t1 = "onepass_ci_loop ?ci1 (MCU_buffer (coef ?ci1)) c y 0 0"
      have m1: "MCUs_per_row ?ci1 = MCUs_per_row ci"
        by simp
      have "unat (MCUs_per_row ?ci1 - 1) + 1 - unat (c + 1)
              < unat (MCUs_per_row ci - 1) + 1 - unat c"
        unfolding m1 by (rule col_measure [OF less.prems True])
      moreover have "MCUs_per_row ?ci1 \<noteq> 0"
        using less.prems by simp
      ultimately obtain r
        where r: "onepass_MCU_col_loop d y (c + 1) (w1, ?ci1, tr @ ?t1) = Some r"
          and shift: "\<And>v k tr0. onepass_MCU_col_loop d y (c + 1)
                        (w1, set_position v k ?ci1, tr0 @ (tr @ ?t1))
                      = Some (resumed_exit (set_position v k) tr0 r)"
        using less.hyps [of ?ci1 "c + 1" w1 "tr @ ?t1"] by blast
      have "onepass_MCU_col_loop d y c (w, ci, tr) = Some r"
        using onepass_MCU_col_loop_ok [OF True, of d w w1 blocks ?ci1 y tr] dec ok r by simp
      moreover have "onepass_MCU_col_loop d y c (w, set_position v k ci, tr0 @ tr)
              = Some (resumed_exit (set_position v k) tr0 r)" for v k tr0
      proof -
        have "set_position v k ?ci1 =
              (set_position v k ci)\<lparr>coef := (coef (set_position v k ci))\<lparr>MCU_buffer :=
                 store_MCU_blocks blocks
                   (jzero_far (nat (blocks_in_MCU (set_position v k ci)))
                      (MCU_buffer (coef (set_position v k ci))))\<rparr>\<rparr>"
          by (simp add: set_position_fields set_position_buffer)
        from onepass_MCU_col_loop_ok [OF True' _ this, of d w w1 y "tr0 @ tr"] dec' [of v k] ok
        have "onepass_MCU_col_loop d y c (w, set_position v k ci, tr0 @ tr) =
              onepass_MCU_col_loop d y (c + 1) (w1, set_position v k ?ci1, tr0 @ (tr @ ?t1))"
          by (simp add: onepass_ci_loop_set_position set_position_fields)
        with shift [of v k tr0] show ?thesis
          by simp
      qed
      ultimately show ?thesis
        by blast
    qed
  qed
qed

lemma onepass_yoffset_loop_shift:
  assumes "MCUs_per_row ci \<noteq> 0"
  shows "\<exists>r. onepass_yoffset_loop d y (w, ci, tr) = Some r \<and>
           (\<forall>v tr0. onepass_yoffset_loop d y (w, set_vert_offset v ci, tr0 @ tr)
              = Some (resumed_exit (set_vert_offset v) tr0 r))"
  using assms
proof (induction "nat (MCU_rows_per_iMCU_row (coef ci) - y)" arbitrary: y w ci tr
    rule: less_induct)
  case less
  show ?case
  proof (cases "y < MCU_rows_per_iMCU_row (coef ci)")
    case False
    then show ?thesis
      by (simp add: onepass_yoffset_loop_done set_vert_offset_fields resumed_exit_simps)
  next
    case True
    let ?k = "MCU_ctr (coef ci)"
    have True': "y < MCU_rows_per_iMCU_row (coef (set_vert_offset v ci))" for v
      using True by (simp add: set_vert_offset_fields)
    obtain rc
      where rc: "onepass_MCU_col_loop d y ?k (w, ci, tr) = Some rc"
        and shift: "\<And>v k tr0. onepass_MCU_col_loop d y ?k (w, set_position v k ci, tr0 @ tr)
                      = Some (resumed_exit (set_position v k) tr0 rc)"
      using onepass_MCU_col_loop_shift [OF less.prems, of d y ?k w tr] by blast
    have shift': "onepass_MCU_col_loop d y (MCU_ctr (coef (set_vert_offset v ci)))
                    (w, set_vert_offset v ci, tr0 @ tr)
                  = Some (resumed_exit (set_position v ?k) tr0 rc)" for v tr0
      using shift [of v ?k tr0]
      by (simp add: set_vert_offset_fields set_vert_offset_as_position [symmetric])
    show ?thesis
    proof (cases rc)
      case (Suspended x)
      obtain w' X t where x: "x = (w', X, t)"
        by (cases x) auto
      have "onepass_yoffset_loop d y (w, ci, tr) = Some rc"
        using onepass_yoffset_loop_suspended [OF True, of d w tr x] rc Suspended by simp
      moreover have "onepass_yoffset_loop d y (w, set_vert_offset v ci, tr0 @ tr)
                       = Some (resumed_exit (set_vert_offset v) tr0 rc)" for v tr0
        using onepass_yoffset_loop_suspended [OF True', of d v w "tr0 @ tr" "(w', X, tr0 @ t)"]
          shift' [of v tr0] Suspended x
        by (simp add: resumed_exit_simps)
      ultimately show ?thesis
        by blast
    next
      case (Completed x)
      obtain w' ci' t where x: "x = (w', ci', t)"
        by (cases x) auto
      let ?ci1 = "ci'\<lparr>coef := (coef ci')\<lparr>MCU_ctr := 0\<rparr>\<rparr>"
      from onepass_MCU_col_loop_unchanged [OF rc] Completed x
      have u: "onepass_unchanged ci ci'"
        by simp
      have u1: "onepass_unchanged ci ?ci1"
        by (rule onepass_unchanged_trans [OF u]) (simp add: onepass_unchanged_def)
      note f = onepass_unchanged_fields [OF u1]
      have "nat (MCU_rows_per_iMCU_row (coef ?ci1) - (y + 1))
              < nat (MCU_rows_per_iMCU_row (coef ci) - y)"
        using True unfolding f(6) by simp
      moreover have "MCUs_per_row ?ci1 \<noteq> 0"
        using less.prems unfolding f(4) .
      ultimately obtain r
        where r: "onepass_yoffset_loop d (y + 1) (w', ?ci1, t) = Some r"
          and rest: "\<And>v tr0. onepass_yoffset_loop d (y + 1) (w', set_vert_offset v ?ci1, tr0 @ t)
                      = Some (resumed_exit (set_vert_offset v) tr0 r)"
        using less.hyps [of ?ci1 "y + 1" w' t] by blast
      have "onepass_yoffset_loop d y (w, ci, tr) = Some r"
        using onepass_yoffset_loop_row [OF True, of d w tr w' ci' t] rc Completed x r by simp
      moreover have "onepass_yoffset_loop d y (w, set_vert_offset v ci, tr0 @ tr)
                       = Some (resumed_exit (set_vert_offset v) tr0 r)" for v tr0
        using onepass_yoffset_loop_row [OF True', of d v w "tr0 @ tr" w'
            "set_position v ?k ci'" "tr0 @ t"]
          shift' [of v tr0] Completed x rest [of v tr0]
        by (simp add: resumed_exit_simps set_position_reset_ctr)
      ultimately show ?thesis
        by blast
    qed
  qed
qed

lemma onepass_MCU_col_loop_saved_position:
  assumes "onepass_MCU_col_loop d y c st = Some (Suspended (w', X, t))"
  shows "MCU_vert_offset (coef X) = y \<and> MCU_ctr (coef X) \<le> MCUs_per_row X - 1"
proof -
  have "\<forall>w' X t. r0 = Suspended (w', X, t) \<longrightarrow>
          MCU_vert_offset (coef X) = y \<and> MCU_ctr (coef X) \<le> MCUs_per_row X - 1"
    if "onepass_MCU_col_loop d y c st = Some r0" for r0
  proof (rule onepass_MCU_col_loop.raw_induct
      [where P = "\<lambda>d y c st r. \<forall>w' X t. r = Suspended (w', X, t) \<longrightarrow>
                    MCU_vert_offset (coef X) = y \<and> MCU_ctr (coef X) \<le> MCUs_per_row X - 1",
       OF _ that], goal_cases)
    case (1 f d y c st r)
    obtain w cinfo calls where st: "st = (w, cinfo, calls)"
      by (cases st) auto
    show ?case
    proof (cases "c \<le> MCUs_per_row cinfo - 1")
      case False
      with 1(2) show ?thesis
        unfolding st by auto
    next
      case True
      define zeroed where "zeroed = jzero_far (nat (blocks_in_MCU cinfo)) (MCU_buffer (coef cinfo))"
      obtain ok w1 blocks
        where dec: "d w (take (nat (blocks_in_MCU cinfo)) zeroed) = (ok, w1, blocks)"
        by (cases "d w (take (nat (blocks_in_MCU cinfo)) zeroed)") auto
      define cinfo'
        where "cinfo' = cinfo\<lparr>coef := (coef cinfo)\<lparr>MCU_buffer := store_MCU_blocks blocks zeroed\<rparr>\<rparr>"
      show ?thesis
      proof (cases ok)
        case False
        with 1(2) True dec
        have "r = Suspended (w1, cinfo'\<lparr>coef := (coef cinfo')\<lparr>MCU_vert_offset := y,
                                                                MCU_ctr := c\<rparr>\<rparr>, calls)"
          unfolding st by (simp add: zeroed_def cinfo'_def Let_def)
        with True show ?thesis
          by (auto simp: cinfo'_def)
      next
        case ok: True
        with 1(2) True dec
        have "f d y (c + 1)
                (w1, cinfo', calls @ onepass_ci_loop cinfo' (MCU_buffer (coef cinfo')) c y 0 0)
              = Some r"
          unfolding st by (simp add: zeroed_def cinfo'_def Let_def)
        from 1(1) [OF this] show ?thesis .
      qed
    qed
  qed
  from this [OF assms] show ?thesis
    by blast
qed

lemma onepass_yoffset_loop_saved_position:
  assumes "onepass_yoffset_loop d y st = Some (Suspended (w', X, t))"
  shows "y \<le> MCU_vert_offset (coef X) \<and>
         MCU_vert_offset (coef X) < MCU_rows_per_iMCU_row (coef X) \<and>
         MCU_ctr (coef X) \<le> MCUs_per_row X - 1"
proof -
  have "\<forall>w' X t. r0 = Suspended (w', X, t) \<longrightarrow>
          y \<le> MCU_vert_offset (coef X) \<and>
          MCU_vert_offset (coef X) < MCU_rows_per_iMCU_row (coef X) \<and>
          MCU_ctr (coef X) \<le> MCUs_per_row X - 1"
    if "onepass_yoffset_loop d y st = Some r0" for r0
  proof (rule onepass_yoffset_loop.raw_induct
      [where P = "\<lambda>d y st r. \<forall>w' X t. r = Suspended (w', X, t) \<longrightarrow>
                    y \<le> MCU_vert_offset (coef X) \<and>
                    MCU_vert_offset (coef X) < MCU_rows_per_iMCU_row (coef X) \<and>
                    MCU_ctr (coef X) \<le> MCUs_per_row X - 1",
       OF _ that], goal_cases)
    case (1 f d y st r)
    obtain w cinfo calls where st: "st = (w, cinfo, calls)"
      by (cases st) auto
    show ?case
    proof (cases "y < MCU_rows_per_iMCU_row (coef cinfo)")
      case False
      with 1(2) show ?thesis
        unfolding st by auto
    next
      case True
      show ?thesis
      proof (cases "onepass_MCU_col_loop d y (MCU_ctr (coef cinfo)) (w, cinfo, calls)")
        case None
        with 1(2) True show ?thesis
          unfolding st by simp
      next
        case (Some e)
        from onepass_MCU_col_loop_unchanged [OF Some]
        have u: "onepass_unchanged cinfo (fst (snd (exit_state e)))"
          by simp
        show ?thesis
        proof (cases e)
          case (Suspended x)
          obtain w1 X1 t1 where x: "x = (w1, X1, t1)"
            by (cases x) auto
          from 1(2) True Some Suspended have r: "r = Suspended (w1, X1, t1)"
            unfolding st x by simp
          from onepass_MCU_col_loop_saved_position [OF Some [unfolded Suspended x]]
          have "MCU_vert_offset (coef X1) = y" "MCU_ctr (coef X1) \<le> MCUs_per_row X1 - 1"
            by simp_all
          moreover from u Suspended x have "MCU_rows_per_iMCU_row (coef X1)
                                              = MCU_rows_per_iMCU_row (coef cinfo)"
            by (simp add: onepass_unchanged_fields)
          ultimately show ?thesis
            using True r by simp
        next
          case (Completed x)
          obtain w1 cinfo1 calls1 where x: "x = (w1, cinfo1, calls1)"
            by (cases x) auto
          from 1(2) True Some Completed
          have "f d (y + 1) (w1, cinfo1\<lparr>coef := (coef cinfo1)\<lparr>MCU_ctr := 0\<rparr>\<rparr>, calls1) = Some r"
            unfolding st x by simp
          from 1(1) [OF this] show ?thesis
            by auto
        qed
      qed
    qed
  qed
  from this [OF assms] show ?thesis
    by blast
qed

lemma decompress_onepass_first_decode_fails:
  assumes "MCU_vert_offset (coef ci) < MCU_rows_per_iMCU_row (coef ci)"
    and "MCU_ctr (coef ci) \<le> MCUs_per_row ci - 1"
    and "d w (take (nat (blocks_in_MCU ci))
              (jzero_far (nat (blocks_in_MCU ci)) (MCU_buffer (coef ci)))) = (False, w1, blocks)"
  shows "decompress_onepass d fin w ci =
         Some (JPEG_SUSPENDED, w1,
               ci\<lparr>coef := (coef ci)\<lparr>MCU_buffer := store_MCU_blocks blocks
                   (jzero_far (nat (blocks_in_MCU ci)) (MCU_buffer (coef ci)))\<rparr>\<rparr>, [])"
proof -
  let ?ci1 = "ci\<lparr>coef := (coef ci)\<lparr>MCU_buffer := store_MCU_blocks blocks
                   (jzero_far (nat (blocks_in_MCU ci)) (MCU_buffer (coef ci)))\<rparr>\<rparr>"
  have "ci\<lparr>coef := (coef ci)\<lparr>MCU_buffer := store_MCU_blocks blocks
                      (jzero_far (nat (blocks_in_MCU ci)) (MCU_buffer (coef ci))),
                    MCU_vert_offset := MCU_vert_offset (coef ci),
                    MCU_ctr := MCU_ctr (coef ci)\<rparr>\<rparr> = ?ci1"
    by simp
  with onepass_MCU_col_loop_fail [where d = d and w = w and ci = ci and tr = "[]"
      and y = "MCU_vert_offset (coef ci)", OF assms(2,3)]
  have "onepass_MCU_col_loop d (MCU_vert_offset (coef ci)) (MCU_ctr (coef ci)) (w, ci, [])
          = Some (Suspended (w1, ?ci1, []))"
    by simp
  from onepass_yoffset_loop_suspended [OF assms(1) this]
  show ?thesis
    by (rule decompress_onepass_suspended)
qed

lemma decompress_onepass_resumed_exit:
  assumes "onepass_yoffset_loop d (MCU_vert_offset (coef ciA)) (w, ciA, []) = Some r"
    and "onepass_yoffset_loop d (MCU_vert_offset (coef ci)) (w0, ci, [])
           = Some (resumed_exit (set_vert_offset y) calls r)"
  shows "\<exists>status2 w2 cinfo2 calls2.
           decompress_onepass d fin w ciA = Some (status2, w2, cinfo2, calls2) \<and>
           decompress_onepass d fin w0 ci =
             Some (status2, w2,
                   if status2 = JPEG_SCAN_COMPLETED then set_vert_offset y cinfo2 else cinfo2,
                   calls @ calls2)"
proof (cases r)
  case (Suspended x)
  obtain w' X t where x: "x = (w', X, t)"
    by (cases x) auto
  from assms Suspended x show ?thesis
    by (simp add: resumed_exit_simps decompress_onepass_suspended)
next
  case (Completed x)
  obtain w' ci' t where x: "x = (w', ci', t)"
    by (cases x) auto
  from assms(1) Completed x
  have A: "onepass_yoffset_loop d (MCU_vert_offset (coef ciA)) (w, ciA, [])
             = Some (Completed (w', ci', t))"
    by simp
  from assms(2) Completed x
  have O: "onepass_yoffset_loop d (MCU_vert_offset (coef ci)) (w0, ci, [])
             = Some (Completed (w', set_vert_offset y ci', calls @ t))"
    by (simp add: resumed_exit_simps)
  show ?thesis
    unfolding decompress_onepass_completed [OF A] decompress_onepass_completed [OF O]
      set_vert_offset_fields advance_set_vert_offset start_iMCU_row_set_vert_offset
    by simp
qed

lemma decompress_onepass_first_decode_succeeds:
  assumes "MCUs_per_row ci \<noteq> 0"
    and "MCU_vert_offset (coef ci) < MCU_rows_per_iMCU_row (coef ci)"
    and "MCU_ctr (coef ci) \<le> MCUs_per_row ci - 1"
    and "d w (take (nat (blocks_in_MCU ci))
              (jzero_far (nat (blocks_in_MCU ci)) (MCU_buffer (coef ci)))) = (True, w1, blocks)"
    and "ci1 = ci\<lparr>coef := (coef ci)\<lparr>MCU_buffer := store_MCU_blocks blocks
                   (jzero_far (nat (blocks_in_MCU ci)) (MCU_buffer (coef ci)))\<rparr>\<rparr>"
  shows "\<exists>status2 w2 cinfo2 calls2.
           decompress_onepass d fin w1
             (if MCU_ctr (coef ci) < MCUs_per_row ci - 1
              then set_position (MCU_vert_offset (coef ci)) (MCU_ctr (coef ci) + 1) ci1
              else set_position (MCU_vert_offset (coef ci) + 1) 0 ci1)
             = Some (status2, w2, cinfo2, calls2) \<and>
           decompress_onepass d fin w ci =
             Some (status2, w2,
                   if status2 = JPEG_SCAN_COMPLETED
                   then set_vert_offset (MCU_vert_offset (coef ci)) cinfo2 else cinfo2,
                   onepass_ci_loop ci1 (MCU_buffer (coef ci1)) (MCU_ctr (coef ci))
                     (MCU_vert_offset (coef ci)) 0 0 @ calls2)"
proof -
  let ?y = "MCU_vert_offset (coef ci)"
  let ?c = "MCU_ctr (coef ci)"
  let ?t1 = "onepass_ci_loop ci1 (MCU_buffer (coef ci1)) ?c ?y 0 0"
  have f1: "MCUs_per_row ci1 = MCUs_per_row ci"
    "MCU_rows_per_iMCU_row (coef ci1) = MCU_rows_per_iMCU_row (coef ci)"
    "MCU_vert_offset (coef ci1) = ?y" "MCU_ctr (coef ci1) = ?c"
    by (simp_all add: assms(5))
  have m1: "MCUs_per_row ci1 \<noteq> 0"
    using assms(1) by (simp add: f1)
  have step: "onepass_MCU_col_loop d ?y ?c (w, ci, []) =
              onepass_MCU_col_loop d ?y (?c + 1) (w1, ci1, ?t1)"
    using onepass_MCU_col_loop_ok [where d = d and w = w and ci = ci and tr = "[]" and y = ?y,
        OF assms(3,4,5)]
    by simp
  have same: "set_position ?y ?c ci1 = ci1"
    using set_position_same [of ci1] by (simp add: f1)
  show ?thesis
  proof (cases "?c < MCUs_per_row ci - 1")
    case True
    let ?ciA = "set_position ?y (?c + 1) ci1"
    have mA: "MCUs_per_row ?ciA \<noteq> 0"
      using m1 by (simp add: set_position_fields)
    have rowsA: "?y < MCU_rows_per_iMCU_row (coef ?ciA)"
      using assms(2) by (simp add: set_position_fields f1)
    obtain rc
      where rc: "onepass_MCU_col_loop d ?y (?c + 1) (w1, ?ciA, []) = Some rc"
        and shift: "\<And>v k tr0. onepass_MCU_col_loop d ?y (?c + 1)
                        (w1, set_position v k ?ciA, tr0 @ [])
                      = Some (resumed_exit (set_position v k) tr0 rc)"
      using onepass_MCU_col_loop_shift [OF mA, of d ?y "?c + 1" w1 "[]"] by blast
    have restore: "set_position ?y ?c ?ciA = ci1"
      using same by (simp add: set_position_def)
    from shift [of ?y ?c ?t1]
    have col: "onepass_MCU_col_loop d ?y ?c (w, ci, [])
                 = Some (resumed_exit (set_position ?y ?c) ?t1 rc)"
      by (simp add: restore step)
    have A: "\<exists>r. onepass_yoffset_loop d (MCU_vert_offset (coef ?ciA)) (w1, ?ciA, []) = Some r \<and>
               onepass_yoffset_loop d ?y (w, ci, []) = Some (resumed_exit (set_vert_offset ?y) ?t1 r)"
    proof (cases rc)
      case (Suspended x)
      obtain w' X t where x: "x = (w', X, t)"
        by (cases x) auto
      have "onepass_yoffset_loop d ?y (w1, ?ciA, []) = Some (Suspended (w', X, t))"
        using onepass_yoffset_loop_suspended [OF rowsA, of d w1 "[]" x] rc Suspended x
        by (simp add: set_position_fields)
      moreover have "onepass_yoffset_loop d ?y (w, ci, []) = Some (Suspended (w', X, ?t1 @ t))"
        using onepass_yoffset_loop_suspended [OF assms(2), of d w "[]" "(w', X, ?t1 @ t)"]
          col Suspended x
        by (simp add: resumed_exit_simps)
      ultimately show ?thesis
        by (simp add: set_position_fields resumed_exit_simps)
    next
      case (Completed x)
      obtain w' ci' t where x: "x = (w', ci', t)"
        by (cases x) auto
      let ?ci2 = "ci'\<lparr>coef := (coef ci')\<lparr>MCU_ctr := 0\<rparr>\<rparr>"
      from onepass_MCU_col_loop_unchanged [OF rc] Completed x
      have u: "onepass_unchanged ?ciA ci'"
        by simp
      have "MCUs_per_row ?ci2 \<noteq> 0"
        using mA onepass_unchanged_fields(4) [OF u] by simp
      from onepass_yoffset_loop_shift [OF this, of d "?y + 1" w' t]
      obtain r
        where r: "onepass_yoffset_loop d (?y + 1) (w', ?ci2, t) = Some r"
          and rest: "\<And>v tr0. onepass_yoffset_loop d (?y + 1) (w', set_vert_offset v ?ci2, tr0 @ t)
                      = Some (resumed_exit (set_vert_offset v) tr0 r)"
        by blast
      have "onepass_yoffset_loop d ?y (w1, ?ciA, []) = Some r"
        using onepass_yoffset_loop_row [OF rowsA, of d w1 "[]" w' ci' t] rc Completed x r
        by (simp add: set_position_fields)
      moreover have "onepass_yoffset_loop d ?y (w, ci, [])
                       = Some (resumed_exit (set_vert_offset ?y) ?t1 r)"
        using onepass_yoffset_loop_row [OF assms(2), of d w "[]" w' "set_position ?y ?c ci'"
            "?t1 @ t"]
          col Completed x rest [of ?y ?t1]
        by (simp add: resumed_exit_simps set_position_reset_ctr)
      ultimately show ?thesis
        by (simp add: set_position_fields)
    qed
    then obtain r
      where "onepass_yoffset_loop d (MCU_vert_offset (coef ?ciA)) (w1, ?ciA, []) = Some r"
        and "onepass_yoffset_loop d ?y (w, ci, []) = Some (resumed_exit (set_vert_offset ?y) ?t1 r)"
      by blast
    from decompress_onepass_resumed_exit [OF this, of fin] True show ?thesis
      by simp
  next
    case False
    let ?ciA = "set_position (?y + 1) 0 ci1"
    have mA: "MCUs_per_row ?ciA \<noteq> 0"
      using m1 by (simp add: set_position_fields)
    have last: "\<not> ?c + 1 \<le> MCUs_per_row ci1 - 1"
      using False assms(1,3) unfolding f1 by unat_arith
    have col: "onepass_MCU_col_loop d ?y ?c (w, ci, []) = Some (Completed (w1, ci1, ?t1))"
      unfolding step by (rule onepass_MCU_col_loop_done [OF last])
    obtain r
      where r: "onepass_yoffset_loop d (?y + 1) (w1, ?ciA, []) = Some r"
        and rest: "\<And>v tr0. onepass_yoffset_loop d (?y + 1) (w1, set_vert_offset v ?ciA, tr0 @ [])
                      = Some (resumed_exit (set_vert_offset v) tr0 r)"
      using onepass_yoffset_loop_shift [OF mA, of d "?y + 1" w1 "[]"] by blast
    have restore: "set_vert_offset ?y ?ciA = ci1\<lparr>coef := (coef ci1)\<lparr>MCU_ctr := 0\<rparr>\<rparr>"
      by (simp add: assms(5) set_position_def set_vert_offset_def)
    have "onepass_yoffset_loop d ?y (w, ci, [])
            = Some (resumed_exit (set_vert_offset ?y) ?t1 r)"
      using onepass_yoffset_loop_row [OF assms(2) col] rest [of ?y ?t1]
      by (simp add: restore)
    moreover have "onepass_yoffset_loop d (MCU_vert_offset (coef ?ciA)) (w1, ?ciA, []) = Some r"
      using r by (simp add: set_position_fields)
    ultimately show ?thesis
      using decompress_onepass_resumed_exit [of d ?ciA w1 r ci w ?y ?t1 fin] False
      by simp
  qed
qed

lemma decompress_onepass_saved_position:
  assumes "decompress_onepass d fin w ci = Some (JPEG_SUSPENDED, w', ci', t)"
  shows "MCU_vert_offset (coef ci) \<le> MCU_vert_offset (coef ci') \<and>
         MCU_vert_offset (coef ci') < MCU_rows_per_iMCU_row (coef ci') \<and>
         MCU_ctr (coef ci') \<le> MCUs_per_row ci' - 1 \<and> onepass_unchanged ci ci'"
proof (cases "onepass_yoffset_loop d (MCU_vert_offset (coef ci)) (w, ci, [])")
  case None
  with assms show ?thesis
    by (simp add: decompress_onepass_def)
next
  case (Some e)
  show ?thesis
  proof (cases e)
    case (Suspended x)
    with Some assms have x: "x = (w', ci', t)"
      by (cases x) (simp add: decompress_onepass_def)
    from onepass_yoffset_loop_saved_position [OF Some [unfolded Suspended x]]
      onepass_yoffset_loop_unchanged [OF Some] Suspended x
    show ?thesis
      by simp
  next
    case (Completed x)
    with Some assms show ?thesis
      by (cases x) (auto simp: decompress_onepass_def Let_def split: if_splits)
  qed
qed

lemma onepass_with_retries_transparent:
  assumes "MCUs_per_row cinfo \<noteq> 0"
  shows "\<exists>status e' cinfo' calls.
     decompress_onepass (no_suspension dec) finish_input_pass e cinfo
       = Some (status, e', cinfo', calls) \<and>
     status \<noteq> JPEG_SUSPENDED \<and>
     (\<exists>rest cinfo2.
        onepass_with_retries (inject_suspensions dec) (apsnd finish_input_pass) (schedule, e) cinfo
          = Some (status, (rest, e'), cinfo2, calls) \<and>
        cinfo2 = set_vert_offset (MCU_vert_offset (coef cinfo2)) cinfo' \<and>
        (status = JPEG_ROW_COMPLETED \<longrightarrow> cinfo2 = cinfo'))"
  using assms
proof (induction "length schedule" arbitrary: schedule e cinfo rule: less_induct)
  case less
  let ?fin = "apsnd finish_input_pass"
  obtain status e' cinfo' calls
    where status: "status \<noteq> JPEG_SUSPENDED"
      and plain: "decompress_onepass (no_suspension dec) finish_input_pass e cinfo
                    = Some (status, e', cinfo', calls)"
      and susp: "\<And>s.
        (\<exists>s'. decompress_onepass (inject_suspensions dec) ?fin (s, e) cinfo
                = Some (status, (s', e'), cinfo', calls)) \<or>
        (\<exists>s' eX X tX tR ciX. length s' < length s \<and>
           decompress_onepass (inject_suspensions dec) ?fin (s, e) cinfo
             = Some (JPEG_SUSPENDED, (s', eX), X, tX) \<and>
           calls = tX @ tR \<and> MCUs_per_row X \<noteq> 0 \<and>
           decompress_onepass (no_suspension dec) finish_input_pass eX X
             = Some (status, e', ciX, tR) \<and>
           ciX = set_vert_offset (MCU_vert_offset (coef ciX)) cinfo' \<and>
           (status = JPEG_ROW_COMPLETED \<longrightarrow> ciX = cinfo'))"
    using decompress_onepass_suspensions [OF less.prems, of dec finish_input_pass e] by blast
  have "\<exists>rest cinfo2.
        onepass_with_retries (inject_suspensions dec) ?fin (schedule, e) cinfo
          = Some (status, (rest, e'), cinfo2, calls) \<and>
        cinfo2 = set_vert_offset (MCU_vert_offset (coef cinfo2)) cinfo' \<and>
        (status = JPEG_ROW_COMPLETED \<longrightarrow> cinfo2 = cinfo')"
    using susp [of schedule]
  proof (elim disjE exE conjE)
    fix s'
    assume "decompress_onepass (inject_suspensions dec) ?fin (schedule, e) cinfo
                = Some (status, (s', e'), cinfo', calls)"
    with status
    have "onepass_with_retries (inject_suspensions dec) ?fin (schedule, e) cinfo
            = Some (status, (s', e'), cinfo', calls)"
      by (subst onepass_with_retries.simps) simp
    then show ?thesis
      by (simp add: set_vert_offset_same)
  next
    fix s' eX X tX tR ciX
    assume len: "length s' < length schedule"
      and first: "decompress_onepass (inject_suspensions dec) ?fin (schedule, e) cinfo
             = Some (JPEG_SUSPENDED, (s', eX), X, tX)"
      and calls: "calls = tX @ tR" and X: "MCUs_per_row X \<noteq> 0"
      and resumed: "decompress_onepass (no_suspension dec) finish_input_pass eX X
             = Some (status, e', ciX, tR)"
      and ciX: "ciX = set_vert_offset (MCU_vert_offset (coef ciX)) cinfo'"
      and row: "status = JPEG_ROW_COMPLETED \<longrightarrow> ciX = cinfo'"
    from less.hyps [OF len X, of eX] resumed
    obtain rest cinfo2
      where retries: "onepass_with_retries (inject_suspensions dec) ?fin (s', eX) X
                        = Some (status, (rest, e'), cinfo2, tR)"
        and cinfo2: "cinfo2 = set_vert_offset (MCU_vert_offset (coef cinfo2)) ciX"
        and row2: "status = JPEG_ROW_COMPLETED \<longrightarrow> cinfo2 = ciX"
      by auto
    have "onepass_with_retries (inject_suspensions dec) ?fin (schedule, e) cinfo
            = Some (status, (rest, e'), cinfo2, calls)"
      by (subst onepass_with_retries.simps) (simp add: first retries calls)
    moreover have "cinfo2 = set_vert_offset (MCU_vert_offset (coef cinfo2)) cinfo'"
      by (subst cinfo2, subst ciX) (simp add: set_vert_offset_twice set_vert_offset_fields)
    moreover have "status = JPEG_ROW_COMPLETED \<longrightarrow> cinfo2 = cinfo'"
      using row row2 by simp
    ultimately show ?thesis
      by blast
  qed
  with plain status show ?case
    by blast
qed

subsection \<open>The claims\<close>

lemma uint_mod_samp_factor:
  assumes "0 < v" and "v < 2 ^ 32"
  shows "uint ((h :: 32 word) mod word_of_int v) = uint h mod v"
proof -
  have "uint (word_of_int v :: 32 word) = v"
    using assms by (simp add: uint_word_of_int take_bit_int_eq_self)
  then show ?thesis
    by (simp add: uint_mod_distrib)
qed

text \<open>
  C3: \<open>start_iMCU_row\<close> sets the row-group height to 1 MCU row when the scan has more
  than one component. For a scan of a single component it sets it to the component's
  vertical sampling factor on every row-group before the last, and on the last
  row-group to the component's \<open>last_row_height\<close>, which is
  \<open>height_in_blocks mod v_samp_factor\<close> (or the full factor when that remainder is 0)
  when the per-scan setup has filled it in as \<open>noninterleaved_last_row_height\<close> says.
  The output side (\<open>decompress_data\<close>) computes the same count of block rows from
  \<open>height_in_blocks\<close> and \<open>v_samp_factor\<close> itself.
\<close>

theorem start_iMCU_row_group_height:
  "(comps_in_scan cinfo > 1 \<longrightarrow> MCU_rows_per_iMCU_row (coef (start_iMCU_row cinfo)) = 1) \<and>
   (comps_in_scan cinfo \<le> 1 \<and> uint (input_iMCU_row cinfo) + 1 < uint (total_iMCU_rows cinfo) \<longrightarrow>
      MCU_rows_per_iMCU_row (coef (start_iMCU_row cinfo)) =
        v_samp_factor (cur_comp_info cinfo ! 0)) \<and>
   (comps_in_scan cinfo \<le> 1 \<and> uint (input_iMCU_row cinfo) + 1 = uint (total_iMCU_rows cinfo) \<and>
    last_row_height (cur_comp_info cinfo ! 0) =
      noninterleaved_last_row_height (cur_comp_info cinfo ! 0) \<and>
    0 < v_samp_factor (cur_comp_info cinfo ! 0) \<and>
    v_samp_factor (cur_comp_info cinfo ! 0) < 2 ^ 32 \<longrightarrow>
      MCU_rows_per_iMCU_row (coef (start_iMCU_row cinfo)) =
        (if uint (height_in_blocks (cur_comp_info cinfo ! 0))
              mod v_samp_factor (cur_comp_info cinfo ! 0) = 0
         then v_samp_factor (cur_comp_info cinfo ! 0)
         else uint (height_in_blocks (cur_comp_info cinfo ! 0))
                mod v_samp_factor (cur_comp_info cinfo ! 0))) \<and>
   (uint (output_iMCU_row cinfo) + 1 < uint (total_iMCU_rows cinfo) \<longrightarrow>
      output_block_rows cinfo compptr = v_samp_factor compptr) \<and>
   (uint (output_iMCU_row cinfo) + 1 = uint (total_iMCU_rows cinfo) \<and>
    0 < v_samp_factor compptr \<and> v_samp_factor compptr < 2 ^ 32 \<longrightarrow>
      output_block_rows cinfo compptr =
        (if uint (height_in_blocks compptr) mod v_samp_factor compptr = 0
         then v_samp_factor compptr
         else uint (height_in_blocks compptr) mod v_samp_factor compptr))"
proof -
  have lt: "\<And>a b :: 32 word. uint a + 1 < uint b \<Longrightarrow> a < b - 1"
    by uint_arith
  have nlt: "\<And>a b :: 32 word. uint a + 1 = uint b \<Longrightarrow> \<not> a < b - 1"
    by uint_arith
  show ?thesis
    by (auto simp: start_iMCU_row_def output_block_rows_def noninterleaved_last_row_height_def
          uint_mod_samp_factor Let_def dest: lt nlt)
qed

text \<open>
  Witness: a scan of two components; a component of 3 block rows with vertical
  sampling factor 2, on the first and on the second (last) of its two row-groups;
  and the same component with 4 block rows on its last row-group.
\<close>

theorem start_iMCU_row_group_height_witness:
  "MCU_rows_per_iMCU_row (coef (start_iMCU_row
      (scan_cinfo [gray_compptr 2 3 2 1, gray_compptr 2 3 2 1] 2 2 2))) = 1 \<and>
   MCU_rows_per_iMCU_row (coef (start_iMCU_row (scan_cinfo [gray_compptr 2 3 2 1] 2 1 2))) = 2 \<and>
   MCU_rows_per_iMCU_row (coef (start_iMCU_row
      ((scan_cinfo [gray_compptr 2 3 2 1] 2 1 2)\<lparr>input_iMCU_row := 1\<rparr>))) = 1 \<and>
   MCU_rows_per_iMCU_row (coef (start_iMCU_row
      ((scan_cinfo [gray_compptr 2 4 2 2] 2 1 2)\<lparr>input_iMCU_row := 1\<rparr>))) = 2 \<and>
   output_block_rows (scan_cinfo [gray_compptr 2 3 2 1] 2 1 2) (gray_compptr 2 3 2 1) = 2 \<and>
   output_block_rows ((scan_cinfo [gray_compptr 2 3 2 1] 2 1 2)\<lparr>output_iMCU_row := 1\<rparr>)
     (gray_compptr 2 3 2 1) = 1"
  using start_iMCU_row_group_height
          [of "scan_cinfo [gray_compptr 2 3 2 1, gray_compptr 2 3 2 1] 2 2 2" "gray_compptr 2 3 2 1"]
        start_iMCU_row_group_height
          [of "scan_cinfo [gray_compptr 2 3 2 1] 2 1 2" "gray_compptr 2 3 2 1"]
        start_iMCU_row_group_height
          [of "(scan_cinfo [gray_compptr 2 3 2 1] 2 1 2)\<lparr>input_iMCU_row := 1\<rparr>" "gray_compptr 2 3 2 1"]
        start_iMCU_row_group_height
          [of "(scan_cinfo [gray_compptr 2 4 2 2] 2 1 2)\<lparr>input_iMCU_row := 1\<rparr>" "gray_compptr 2 4 2 2"]
        start_iMCU_row_group_height
          [of "(scan_cinfo [gray_compptr 2 3 2 1] 2 1 2)\<lparr>output_iMCU_row := 1\<rparr>" "gray_compptr 2 3 2 1"]
  by (simp add: scan_cinfo_def gray_compptr_def noninterleaved_last_row_height_def)

lemmas onepass_run_simps =
  decompress_onepass_def onepass_yoffset_loop.simps onepass_MCU_col_loop.simps
  onepass_ci_loop.simps onepass_yindex_loop.simps onepass_xindex_loop.simps
  start_input_pass_def start_iMCU_row_def jinit_d_coef_controller_def
  jzero_far_def store_MCU_blocks_def D_MAX_BLOCKS_IN_MCU_def Let_def
  word_le_nat_alt word_less_nat_alt

lemmas example_simps =
  gray16_def scan_cinfo_def gray_compptr_def blank_coef_def no_suspension_def count_dec_def

text \<open>
  C9: when \<open>decompress_onepass\<close> finishes a complete row-group (its loops run to their
  end, so that it does not return \<open>JPEG_SUSPENDED\<close>), the input and the output row-group
  cursors are both advanced by one. If further row-groups remain, the row sequencer is
  reinitialized by \<open>start_iMCU_row\<close>: the MCU column and the MCU row offset are reset to 0
  and the number of MCU rows of the next row-group is computed (1 for an interleaved
  scan, else the vertical sampling factor, or \<open>last_row_height\<close> for the last
  row-group); nothing else changes, \<open>finish_input_pass\<close> is not called, and the result is
  \<open>JPEG_ROW_COMPLETED\<close>. Otherwise \<open>finish_input_pass\<close> is called, the row sequencer is
  left as it is, and the result is \<open>JPEG_SCAN_COMPLETED\<close>.
\<close>

theorem decompress_onepass_row_group_done:
  assumes "decompress_onepass decode_mcu finish_input_pass w cinfo = Some (status, w', cinfo', calls)"
    and "status \<noteq> JPEG_SUSPENDED"
  shows "\<exists>w1 c1.
           onepass_yoffset_loop decode_mcu (MCU_vert_offset (coef cinfo)) (w, cinfo, [])
             = Some (Completed (w1, c1, calls)) \<and>
           onepass_unchanged cinfo c1 \<and>
           input_iMCU_row cinfo' = input_iMCU_row cinfo + 1 \<and>
           output_iMCU_row cinfo' = output_iMCU_row cinfo + 1 \<and>
           (if input_iMCU_row cinfo + 1 < total_iMCU_rows cinfo
            then status = JPEG_ROW_COMPLETED \<and> w' = w1 \<and>
                 cinfo' = start_iMCU_row (c1\<lparr>output_iMCU_row := output_iMCU_row cinfo + 1,
                                               input_iMCU_row := input_iMCU_row cinfo + 1\<rparr>) \<and>
                 cinfo' = c1\<lparr>output_iMCU_row := output_iMCU_row cinfo + 1,
                              input_iMCU_row := input_iMCU_row cinfo + 1,
                              coef := (coef c1)\<lparr>
                                MCU_ctr := 0,
                                MCU_vert_offset := 0,
                                MCU_rows_per_iMCU_row :=
                                  (if comps_in_scan cinfo > 1 then 1
                                   else if input_iMCU_row cinfo + 1 < total_iMCU_rows cinfo - 1
                                        then v_samp_factor (cur_comp_info cinfo ! 0)
                                        else last_row_height (cur_comp_info cinfo ! 0))\<rparr>\<rparr>
            else status = JPEG_SCAN_COMPLETED \<and> w' = finish_input_pass w1 \<and>
                 cinfo' = c1\<lparr>output_iMCU_row := output_iMCU_row cinfo + 1,
                              input_iMCU_row := input_iMCU_row cinfo + 1\<rparr>)"
proof (cases "onepass_yoffset_loop decode_mcu (MCU_vert_offset (coef cinfo)) (w, cinfo, [])")
  case None
  with assms(1) show ?thesis
    by (simp add: decompress_onepass_def)
next
  case (Some e)
  show ?thesis
  proof (cases e)
    case (Suspended x)
    with Some assms show ?thesis
      by (cases x) (auto simp: decompress_onepass_def)
  next
    case (Completed x)
    obtain w1 c1 calls1 where x: "x = (w1, c1, calls1)"
      by (cases x) auto
    from onepass_yoffset_loop_unchanged [OF Some] Completed x
    have u: "onepass_unchanged cinfo c1"
      by simp
    note f = onepass_unchanged_fields [OF u]
    from assms(1) Some Completed x u f(1,2,3,8,9) show ?thesis
      by (auto simp: decompress_onepass_def Let_def start_iMCU_row_def split: if_splits)
  qed
qed

text \<open>
  Witness: the two calls that decode the two row-groups of the 16 by 24 image, counting
  the calls of the entropy decoder and of \<open>finish_input_pass\<close> in the decoder state. The
  first call decodes four MCUs, and resets the row sequencer for a row-group of one MCU
  row instead of two; the second decodes two MCUs and calls \<open>finish_input_pass\<close>.
\<close>

theorem decompress_onepass_row_group_done_witness:
  "\<exists>cinfo' calls cinfo2 calls2.
      MCU_rows_per_iMCU_row (coef (start_input_pass (jinit_d_coef_controller gray24 False))) = 2 \<and>
      decompress_onepass (no_suspension count_dec) Suc 0
        (start_input_pass (jinit_d_coef_controller gray24 False))
        = Some (JPEG_ROW_COMPLETED, 4, cinfo', calls) \<and>
      length calls = 4 \<and>
      input_iMCU_row cinfo' = 1 \<and> output_iMCU_row cinfo' = 1 \<and>
      MCU_ctr (coef cinfo') = 0 \<and> MCU_vert_offset (coef cinfo') = 0 \<and>
      MCU_rows_per_iMCU_row (coef cinfo') = 1 \<and>
      decompress_onepass (no_suspension count_dec) Suc 4 cinfo'
        = Some (JPEG_SCAN_COMPLETED, 7, cinfo2, calls2) \<and>
      length calls2 = 2 \<and>
      input_iMCU_row cinfo2 = 2 \<and> output_iMCU_row cinfo2 = 2 \<and>
      MCU_rows_per_iMCU_row (coef cinfo2) = 1"
proof -
  let ?c = "start_input_pass (jinit_d_coef_controller gray24 False)"
  have i: "input_iMCU_row ?c = 0" "output_iMCU_row ?c = 0" "total_iMCU_rows ?c = 2"
    "comps_in_scan ?c = 1" "last_row_height (cur_comp_info ?c ! 0) = 1"
    "MCU_rows_per_iMCU_row (coef ?c) = 2"
    by (simp_all add: onepass_run_simps example_simps gray24_def)
  have "\<exists>cinfo' calls cinfo2 calls2.
      decompress_onepass (no_suspension count_dec) Suc 0 ?c
        = Some (JPEG_ROW_COMPLETED, 4, cinfo', calls) \<and>
      length calls = 4 \<and>
      decompress_onepass (no_suspension count_dec) Suc 4 cinfo'
        = Some (JPEG_SCAN_COMPLETED, 7, cinfo2, calls2) \<and>
      length calls2 = 2"
    by (simp add: onepass_run_simps example_simps gray24_def)
  then obtain cinfo' calls cinfo2 calls2
    where r1: "decompress_onepass (no_suspension count_dec) Suc 0 ?c
                 = Some (JPEG_ROW_COMPLETED, 4, cinfo', calls)"
      and l1: "length calls = 4"
      and r2: "decompress_onepass (no_suspension count_dec) Suc 4 cinfo'
                 = Some (JPEG_SCAN_COMPLETED, 7, cinfo2, calls2)"
      and l2: "length calls2 = 2"
    by blast
  from decompress_onepass_row_group_done [OF r1]
  obtain c1 where u1: "onepass_unchanged ?c c1"
    and c1: "cinfo' = c1\<lparr>output_iMCU_row := 1, input_iMCU_row := 1,
                coef := (coef c1)\<lparr>MCU_ctr := 0, MCU_vert_offset := 0,
                                   MCU_rows_per_iMCU_row := 1\<rparr>\<rparr>"
    unfolding i by (auto simp: word_less_nat_alt)
  have s1: "input_iMCU_row cinfo' = 1" "output_iMCU_row cinfo' = 1"
    "MCU_ctr (coef cinfo') = 0" "MCU_vert_offset (coef cinfo') = 0"
    "MCU_rows_per_iMCU_row (coef cinfo') = 1" "total_iMCU_rows cinfo' = 2"
    using onepass_unchanged_fields(3) [OF u1] i(3) by (simp_all add: c1)
  from decompress_onepass_row_group_done [OF r2]
  obtain c2 where u2: "onepass_unchanged cinfo' c2"
    and c2: "cinfo2 = c2\<lparr>output_iMCU_row := 2, input_iMCU_row := 2\<rparr>"
    unfolding s1 by (auto simp: word_less_nat_alt)
  have s2: "input_iMCU_row cinfo2 = 2" "output_iMCU_row cinfo2 = 2"
    "MCU_rows_per_iMCU_row (coef cinfo2) = 1"
    using onepass_unchanged_fields(6) [OF u2] s1(5) by (simp_all add: c2)
  with i(6) r1 l1 r2 l2 s1 s2 show ?thesis
    by blast
qed
lemma start_iMCU_row_pub: "pub (coef (start_iMCU_row cinfo)) = pub (coef cinfo)"
  by (simp add: start_iMCU_row_def)

lemma start_output_pass_consume_data_method:
  "consume_data_method (pub (coef (start_output_pass cinfo))) =
     consume_data_method (pub (coef cinfo))"
  by (simp add: start_output_pass_def smoothing_ok_def set_decompress_data_def Let_def)

lemma decompress_onepass_pub:
  assumes "decompress_onepass decode_mcu finish_input_pass w cinfo = Some r"
  shows "pub (coef (fst (snd (snd r)))) = pub (coef cinfo)"
proof (cases "onepass_yoffset_loop decode_mcu (MCU_vert_offset (coef cinfo)) (w, cinfo, [])")
  case None
  with assms show ?thesis
    by (simp add: decompress_onepass_def)
next
  case (Some e)
  obtain w1 c1 calls1 where x: "exit_state e = (w1, c1, calls1)"
    by (cases "exit_state e") auto
  from onepass_yoffset_loop_unchanged [OF Some] x have "onepass_unchanged cinfo c1"
    by simp
  then have "pub (coef c1) = pub (coef cinfo)"
    by (rule onepass_unchanged_fields)
  with assms Some x show ?thesis
    by (cases e) (auto simp: decompress_onepass_def Let_def start_iMCU_row_pub split: if_splits)
qed

text \<open>
  C10: without a full buffer \<open>jinit_d_coef_controller\<close> installs \<open>dummy_consume_data\<close>
  as the \<open>consume_data\<close> method; \<open>dummy_consume_data\<close> returns \<open>JPEG_SUSPENDED\<close> in every
  state and leaves the outside state and the decoder state as they are; and the
  method stays installed across \<open>start_input_pass\<close>, \<open>start_output_pass\<close> and
  \<open>decompress_onepass\<close>, so that every call through the method pointer in single-pass
  mode does the same.
\<close>

theorem dummy_consume_data_always_suspends:
  "consume_data_method (pub (coef (jinit_d_coef_controller cinfo0 False))) = Dummy_consume_data \<and>
   dummy_consume_data w cinfo = (JPEG_SUSPENDED, w, cinfo) \<and>
   (consume_data_method (pub (coef cinfo)) = Dummy_consume_data \<longrightarrow>
      call_consume_data decode_mcu finish_input_pass w cinfo = Some (JPEG_SUSPENDED, w, cinfo) \<and>
      consume_data_method (pub (coef (start_input_pass cinfo))) = Dummy_consume_data \<and>
      consume_data_method (pub (coef (start_output_pass cinfo))) = Dummy_consume_data \<and>
      (\<forall>r. decompress_onepass decode_mcu finish_input_pass w cinfo = Some r \<longrightarrow>
           consume_data_method (pub (coef (fst (snd (snd r))))) = Dummy_consume_data))"
  by (auto simp: jinit_d_coef_controller_def Let_def dummy_consume_data_def call_consume_data_def
        start_input_pass_def start_iMCU_row_pub start_output_pass_consume_data_method
        decompress_onepass_pub)

text \<open>
  Witness: the controller of the 16 by 16 image, initialized without a full buffer,
  before and after its first row-group is decoded.
\<close>

theorem dummy_consume_data_always_suspends_witness:
  "call_consume_data (no_suspension count_dec) Suc 0 (jinit_d_coef_controller gray16 False)
     = Some (JPEG_SUSPENDED, 0, jinit_d_coef_controller gray16 False) \<and>
   (\<exists>r. decompress_onepass (no_suspension count_dec) Suc 0
          (start_input_pass (jinit_d_coef_controller gray16 False)) = Some r \<and>
        call_consume_data (no_suspension count_dec) Suc 7 (fst (snd (snd r)))
          = Some (JPEG_SUSPENDED, 7, fst (snd (snd r))))"
proof -
  let ?c = "jinit_d_coef_controller gray16 False"
  have a: "consume_data_method (pub (coef ?c)) = Dummy_consume_data"
    using dummy_consume_data_always_suspends [of gray16 "0::nat" ?c "no_suspension count_dec" Suc]
    by simp
  have b: "call_consume_data (no_suspension count_dec) Suc 0 ?c = Some (JPEG_SUSPENDED, 0, ?c)"
    using dummy_consume_data_always_suspends [of gray16 0 ?c "no_suspension count_dec" Suc] a
    by simp
  have c: "consume_data_method (pub (coef (start_input_pass ?c))) = Dummy_consume_data"
    using dummy_consume_data_always_suspends [of gray16 0 ?c "no_suspension count_dec" Suc] a
    by simp
  obtain r where r: "decompress_onepass (no_suspension count_dec) Suc 0 (start_input_pass ?c) = Some r"
    by (simp add: onepass_run_simps example_simps)
  have "consume_data_method (pub (coef (fst (snd (snd r))))) = Dummy_consume_data"
    using dummy_consume_data_always_suspends
            [of gray16 0 "start_input_pass ?c" "no_suspension count_dec" Suc] c r
    by simp
  then have "call_consume_data (no_suspension count_dec) Suc 7 (fst (snd (snd r)))
               = Some (JPEG_SUSPENDED, 7, fst (snd (snd r)))"
    using dummy_consume_data_always_suspends
            [of gray16 7 "fst (snd (snd r))" "no_suspension count_dec" Suc]
    by simp
  with b r show ?thesis
    by blast
qed

lemma smoothing_ok_ci_loop_zero_quantizer:
  assumes "ci \<le> k" and "k < num_components cinfo"
    and "quant_table (comp_info cinfo ! nat k) = Some qtable" and "has_zero_quantizer qtable"
    and "0 \<le> ci"
  shows "\<not> fst (smoothing_ok_ci_loop cinfo all_coef_bits ci st)"
  using assms
proof (induction cinfo all_coef_bits ci st rule: smoothing_ok_ci_loop.induct)
  case (1 cinfo all_coef_bits ci st)
  show ?case
  proof (cases "ci = k")
    case True
    with "1.prems" show ?thesis
      by (subst smoothing_ok_ci_loop.simps) (simp add: has_zero_quantizer_def)
  next
    case False
    with "1.prems" have lt: "ci < num_components cinfo" and le: "ci + 1 \<le> k"
      by simp_all
    show ?thesis
    proof (cases "quant_table (comp_info cinfo ! nat ci)")
      case None
      with lt show ?thesis
        by (subst smoothing_ok_ci_loop.simps) simp
    next
      case (Some q)
      show ?thesis
      proof (cases "(quantval q ! 0 = 0 \<or> quantval q ! Q01_POS = 0 \<or> quantval q ! Q10_POS = 0 \<or>
                     quantval q ! Q20_POS = 0 \<or> quantval q ! Q11_POS = 0 \<or>
                     quantval q ! Q02_POS = 0) \<or> (all_coef_bits ! nat ci) ! 0 < 0")
        case True
        with lt Some show ?thesis
          by (subst smoothing_ok_ci_loop.simps) auto
      next
        case nz: False
        from nz have a: "\<not> (quantval q ! 0 = 0 \<or> quantval q ! Q01_POS = 0 \<or>
                             quantval q ! Q10_POS = 0 \<or> quantval q ! Q20_POS = 0 \<or>
                             quantval q ! Q11_POS = 0 \<or> quantval q ! Q02_POS = 0)"
          and b: "\<not> (all_coef_bits ! nat ci) ! 0 < 0"
          by blast+
        have "\<not> fst (smoothing_ok_ci_loop cinfo all_coef_bits (ci + 1)
                       (smoothing_ok_coefi_loop (all_coef_bits ! nat ci) (ci * SAVED_COEFS) 1 st))"
          using "1.IH" [OF lt Some a b le] "1.prems" by simp
        with lt Some nz show ?thesis
          by (subst smoothing_ok_ci_loop.simps) simp
      qed
    qed
  qed
qed

text \<open>
  C4: \<open>smoothing_ok\<close> returns false whenever the quantization table of some component
  has the value 0 at the DC position or at one of the first 5 AC zigzag positions,
  whatever the rest of the state is; \<open>start_output_pass\<close> then installs the plain
  \<open>decompress_data\<close>, so that the divisions of \<open>decompress_smooth_data\<close> are not reached
  in that pass.
\<close>

theorem smoothing_ok_zero_quantizer:
  assumes "0 \<le> k" and "k < num_components cinfo"
    and "quant_table (comp_info cinfo ! nat k) = Some qtable" and "has_zero_quantizer qtable"
  shows "\<not> fst (smoothing_ok cinfo) \<and>
         (coef_arrays (pub (coef cinfo)) \<longrightarrow>
            decompress_data_method (pub (coef (start_output_pass cinfo))) = Decompress_data)"
proof -
  have a: "\<not> fst (smoothing_ok cinfo)"
    using smoothing_ok_ci_loop_zero_quantizer [OF assms(1,2,3,4)]
    by (simp add: smoothing_ok_def Let_def)
  then show ?thesis
    by (simp add: start_output_pass_def set_decompress_data_def Let_def)
qed

text \<open>
  Witness: the progressive image with all other conditions of smoothing met. With the
  quantizer 16 everywhere smoothing is selected; with a 0 at the position of AC11 it
  is not.
\<close>

theorem smoothing_ok_zero_quantizer_witness:
  "fst (smoothing_ok (progressive16 (replicate 64 16))) \<and>
   decompress_data_method (pub (coef (start_output_pass (progressive16 (replicate 64 16)))))
     = Decompress_smooth_data \<and>
   has_zero_quantizer \<lparr>quantval = (replicate 64 16)[9 := 0]\<rparr> \<and>
   \<not> fst (smoothing_ok (progressive16 ((replicate 64 16)[9 := 0]))) \<and>
   decompress_data_method (pub (coef (start_output_pass (progressive16 ((replicate 64 16)[9 := 0])))))
     = Decompress_data"
proof -
  have z: "has_zero_quantizer \<lparr>quantval = (replicate 64 16)[9 := 0]\<rparr>"
    by (simp add: has_zero_quantizer_def Q11_POS_def)
  have s: "fst (smoothing_ok (progressive16 (replicate 64 16)))"
    by (simp add: smoothing_ok_def progressive16_def jinit_d_coef_controller_def scan_cinfo_def
          gray_compptr_def blank_coef_def Let_def smoothing_ok_ci_loop.simps
          smoothing_ok_coefi_loop.simps SAVED_COEFS_def
          Q01_POS_def Q10_POS_def Q20_POS_def Q11_POS_def Q02_POS_def)
  then have t: "decompress_data_method
                  (pub (coef (start_output_pass (progressive16 (replicate 64 16)))))
                  = Decompress_smooth_data"
    by (simp add: start_output_pass_def set_decompress_data_def Let_def)
       (simp add: progressive16_def jinit_d_coef_controller_def scan_cinfo_def blank_coef_def Let_def)
  have h: "(0::int) \<le> 0" "0 < num_components (progressive16 ((replicate 64 16)[9 := 0]))"
    "quant_table (comp_info (progressive16 ((replicate 64 16)[9 := 0])) ! nat 0)
       = Some \<lparr>quantval = (replicate 64 16)[9 := 0]\<rparr>"
    "coef_arrays (pub (coef (progressive16 ((replicate 64 16)[9 := 0]))))"
    by (simp_all add: progressive16_def jinit_d_coef_controller_def scan_cinfo_def
          gray_compptr_def blank_coef_def Let_def)
  from smoothing_ok_zero_quantizer [OF h(1,2,3) z] h(4) s t z show ?thesis
    by simp
qed

lemma decompress_smooth_data_cases:
  assumes "decompress_smooth_data consume_input w cinfo = Some (status, w', cinfo', calls)"
  obtains (suspended)
    "smooth_force_input consume_input (w, cinfo) = Some (Suspended (w', cinfo'))"
    "status = JPEG_SUSPENDED" "calls = []"
  | (produced) c1 c2 where
    "smooth_force_input consume_input (w, cinfo) = Some (Completed (w', c1))"
    "smooth_ci_loop 0 (c1, []) = Some (c2, calls)"
    "cinfo' = c2\<lparr>output_iMCU_row := output_iMCU_row c2 + 1\<rparr>"
    "status \<noteq> JPEG_SUSPENDED"
proof (cases "smooth_force_input consume_input (w, cinfo)")
  case None
  with assms show ?thesis
    by (simp add: decompress_smooth_data_def)
next
  case (Some e)
  show ?thesis
  proof (cases e)
    case (Suspended x)
    with Some assms show ?thesis
      by (cases x) (auto simp: decompress_smooth_data_def intro: suspended)
  next
    case (Completed x)
    obtain w1 c1 where x: "x = (w1, c1)"
      by (cases x) auto
    show ?thesis
    proof (cases "smooth_ci_loop 0 (c1, [])")
      case None
      with Some Completed x assms show ?thesis
        by (simp add: decompress_smooth_data_def)
    next
      case ci: (Some y)
      obtain c2 calls2 where y: "y = (c2, calls2)"
        by (cases y) auto
      from Some Completed x ci y assms
      have "w' = w1" "calls2 = calls" "cinfo' = c2\<lparr>output_iMCU_row := output_iMCU_row c2 + 1\<rparr>"
        "status \<noteq> JPEG_SUSPENDED"
        by (auto simp: decompress_smooth_data_def Let_def split: if_splits)
      with Some Completed x ci y show ?thesis
        by (intro produced [of c1 c2]) simp_all
    qed
  qed
qed

lemmas smooth_run_simps =
  decompress_smooth_data_def smooth_force_input.simps smooth_ci_loop.simps
  smooth_block_row_loop.simps smooth_block_num_loop.simps smooth_block_def smooth_coef_def
  smooth_pred_def fetch_quant_def block_DC_def output_block_rows_def iMCU_start_row_def
  start_output_pass_def set_decompress_data_def smoothing_ok_def smoothing_ok_ci_loop.simps
  smoothing_ok_coefi_loop.simps SAVED_COEFS_def
  Q01_POS_def Q10_POS_def Q20_POS_def Q11_POS_def Q02_POS_def
  progressive16_def smoothing16_def jinit_d_coef_controller_def scan_cinfo_def gray_compptr_def
  blank_coef_def zero_barray_def JBLOCK_zero_def DCTSIZE2_def dc_block_def
  Let_def word_le_nat_alt word_less_nat_alt

lemmas smoothing_example_simps =
  smoothing_pass_def example_table_def example_store_def example_bits_def consume_input_starved_def

lemma decompress_smooth_data_calls:
  assumes "decompress_smooth_data consume_input w cinfo = Some (status, w', cinfo', calls)"
  shows "\<forall>x \<in> set calls. \<exists>latch block_row block_num.
           coef_bits_latch (coef cinfo') = Some latch \<and>
           smoothed_from_store (cinfo'\<lparr>output_iMCU_row := output_iMCU_row cinfo' - 1\<rparr>) latch x
             block_row block_num"
  using assms
proof (cases rule: decompress_smooth_data_cases)
  case suspended
  then show ?thesis
    by simp
next
  case (produced c1 c2)
  from smooth_ci_loop_effect [OF produced(2)]
  have u: "smooth_unchanged c1 c2"
    by simp
  note f = smooth_unchanged_fields [OF u]
  note p = smooth_unchanged_places [OF u]
  have c2: "cinfo'\<lparr>output_iMCU_row := output_iMCU_row cinfo' - 1\<rparr> = c2"
    by (simp add: produced(3))
  have l: "coef_bits_latch (coef cinfo') = coef_bits_latch (coef c1)"
    by (simp add: produced(3) f)
  from smooth_ci_loop_calls [OF produced(2)] show ?thesis
    unfolding c2 l p by simp
qed

lemma smoothed_from_storeE:
  assumes "smoothed_from_store cinfo latch x block_row block_num"
  obtains quanttbl where "processes_block cinfo x block_row block_num"
    and "quant_table (idct_compptr x) = Some quanttbl"
    and "smooth_block latch (idct_method x * SAVED_COEFS) (fetch_quant quanttbl)
           (DC_neighbourhood cinfo (idct_method x)
              (neighbour_rows cinfo (idct_compptr x) block_row)
              (uint block_num) (uint (width_in_blocks (idct_compptr x) - 1)))
           (whole_image (coef cinfo) (idct_method x)
              (output_store_row cinfo (idct_compptr x) block_row) (uint block_num))
         = Some (idct_coef_block x)"
proof -
  from assms obtain quanttbl
    where q: "quant_table (idct_compptr x) = Some quanttbl"
      and b: "block_smoothed cinfo (idct_method x) (idct_compptr x) latch (fetch_quant quanttbl)
                (neighbour_rows cinfo (idct_compptr x) block_row)
                (block_row * DCT_scaled_size (idct_compptr x)) block_num x"
    unfolding smoothed_from_store_def by blast
  have "fst (snd (neighbour_rows cinfo (idct_compptr x) block_row)) =
        output_store_row cinfo (idct_compptr x) block_row"
    by (simp add: neighbour_rows_def Let_def)
  with b have "smooth_block latch (idct_method x * SAVED_COEFS) (fetch_quant quanttbl)
           (DC_neighbourhood cinfo (idct_method x)
              (neighbour_rows cinfo (idct_compptr x) block_row)
              (uint block_num) (uint (width_in_blocks (idct_compptr x) - 1)))
           (whole_image (coef cinfo) (idct_method x)
              (output_store_row cinfo (idct_compptr x) block_row) (uint block_num))
         = Some (idct_coef_block x)"
    by (simp add: block_smoothed_def)
  moreover have "processes_block cinfo x block_row block_num"
    using assms b unfolding smoothed_from_store_def processes_block_def block_smoothed_def
    by blast
  ultimately show ?thesis
    using q by (rule that [rotated 2])
qed

text \<open>
  C5: every invocation of the inverse DCT that \<open>decompress_smooth_data\<close> makes is the
  one for a block of the current iMCU row of the output pass (it writes at the sample
  position of that block), and the coefficient block passed differs from the block
  stored at that block row and block column at most at the five smoothable AC
  positions, and at such a position only if the stored coefficient is exactly zero and
  the latched \<open>coef_bits\<close> entry of the position is nonzero. The output pass state of the
  call is the state returned with the row-group counter not yet advanced.
\<close>

theorem decompress_smooth_data_modifies_only_unknown_zero:
  assumes "decompress_smooth_data consume_input w cinfo = Some (status, w', cinfo', calls)"
  shows "\<forall>x \<in> set calls. \<exists>latch block_row block_num.
           coef_bits_latch (coef cinfo') = Some latch \<and>
           processes_block (cinfo'\<lparr>output_iMCU_row := output_iMCU_row cinfo' - 1\<rparr>) x
             block_row block_num \<and>
           differs_only_where_smoothable latch (idct_method x * SAVED_COEFS)
             (whole_image (coef cinfo') (idct_method x)
                (output_store_row (cinfo'\<lparr>output_iMCU_row := output_iMCU_row cinfo' - 1\<rparr>)
                   (idct_compptr x) block_row)
                (uint block_num))
             (idct_coef_block x)"
proof
  let ?c = "cinfo'\<lparr>output_iMCU_row := output_iMCU_row cinfo' - 1\<rparr>"
  fix x
  assume "x \<in> set calls"
  with decompress_smooth_data_calls [OF assms] obtain latch block_row block_num
    where l: "coef_bits_latch (coef cinfo') = Some latch"
      and s: "smoothed_from_store ?c latch x block_row block_num"
    by blast
  from s obtain quanttbl where p: "processes_block ?c x block_row block_num"
    and b: "smooth_block latch (idct_method x * SAVED_COEFS) (fetch_quant quanttbl)
           (DC_neighbourhood ?c (idct_method x) (neighbour_rows ?c (idct_compptr x) block_row)
              (uint block_num) (uint (width_in_blocks (idct_compptr x) - 1)))
           (whole_image (coef ?c) (idct_method x)
              (output_store_row ?c (idct_compptr x) block_row) (uint block_num))
         = Some (idct_coef_block x)"
    by (rule smoothed_from_storeE)
  have "differs_only_where_smoothable latch (idct_method x * SAVED_COEFS)
          (whole_image (coef ?c) (idct_method x)
             (output_store_row ?c (idct_compptr x) block_row) (uint block_num))
          (idct_coef_block x)"
    unfolding differs_only_where_smoothable_def
    using smooth_block_changes [OF b] by blast
  then have "differs_only_where_smoothable latch (idct_method x * SAVED_COEFS)
          (whole_image (coef cinfo') (idct_method x)
             (output_store_row ?c (idct_compptr x) block_row) (uint block_num))
          (idct_coef_block x)"
    by simp
  with l p show "\<exists>latch block_row block_num.
           coef_bits_latch (coef cinfo') = Some latch \<and>
           processes_block ?c x block_row block_num \<and>
           differs_only_where_smoothable latch (idct_method x * SAVED_COEFS)
             (whole_image (coef cinfo') (idct_method x)
                (output_store_row ?c (idct_compptr x) block_row) (uint block_num))
             (idct_coef_block x)"
    by blast
qed

text \<open>
  Witness: the second row-group of a smoothing pass over the example store. The block
  at block row 1 and block column 0 reaches the inverse DCT with estimates at the
  positions of AC01, AC10, AC20 and AC11, where its coefficients are zero and the
  latched entries are nonzero, and unchanged at the position of AC02, where the latched
  entry is zero. The block at block column 1 has the nonzero coefficient 5 at the
  position of AC01, which reaches the inverse DCT as it is.
\<close>

theorem decompress_smooth_data_modifies_only_unknown_zero_witness:
  "\<exists>w' cinfo' x y latch.
     decompress_smooth_data consume_input_starved (0 :: nat)
         (smoothing_pass example_table example_bits example_store 1)
       = Some (JPEG_SCAN_COMPLETED, w', cinfo', [x, y]) \<and>
     coef_bits_latch (coef cinfo') = Some latch \<and>
     latch ! 1 = 2 \<and> latch ! 2 = - 1 \<and> latch ! 3 = 3 \<and> latch ! 4 = - 1 \<and> latch ! 5 = 0 \<and>
     idct_output_row x = 0 \<and> idct_output_col x = 0 \<and>
     idct_output_row y = 0 \<and> idct_output_col y = 8 \<and>
     whole_image (coef cinfo') 0 1 0 = dc_block 40 \<and>
     idct_coef_block x ! 0 = 40 \<and> idct_coef_block x ! 1 = - 3 \<and>
     idct_coef_block x ! 8 = - 34 \<and> idct_coef_block x ! 16 = - 6 \<and>
     idct_coef_block x ! 9 = 2 \<and> idct_coef_block x ! 2 = 0 \<and>
     whole_image (coef cinfo') 0 1 1 = (dc_block 80)[1 := 5] \<and>
     idct_coef_block y ! 0 = 80 \<and> idct_coef_block y ! 1 = 5 \<and>
     idct_coef_block y ! 8 = - 68 \<and> idct_coef_block y ! 16 = - 7 \<and>
     idct_coef_block y ! 9 = 2 \<and> idct_coef_block y ! 2 = 0 \<and>
     (\<forall>x \<in> set [x, y]. \<exists>latch block_row block_num.
        coef_bits_latch (coef cinfo') = Some latch \<and>
        processes_block (cinfo'\<lparr>output_iMCU_row := output_iMCU_row cinfo' - 1\<rparr>) x
          block_row block_num \<and>
        differs_only_where_smoothable latch (idct_method x * SAVED_COEFS)
          (whole_image (coef cinfo') (idct_method x)
             (output_store_row (cinfo'\<lparr>output_iMCU_row := output_iMCU_row cinfo' - 1\<rparr>)
                (idct_compptr x) block_row)
             (uint block_num))
          (idct_coef_block x))"
proof -
  obtain w' cinfo' x y latch
    where r: "decompress_smooth_data consume_input_starved (0 :: nat)
                  (smoothing_pass example_table example_bits example_store 1)
                = Some (JPEG_SCAN_COMPLETED, w', cinfo', [x, y])"
      and v: "coef_bits_latch (coef cinfo') = Some latch"
        "latch ! 1 = 2" "latch ! 2 = - 1" "latch ! 3 = 3" "latch ! 4 = - 1" "latch ! 5 = 0"
        "idct_output_row x = 0" "idct_output_col x = 0"
        "idct_output_row y = 0" "idct_output_col y = 8"
        "whole_image (coef cinfo') 0 1 0 = dc_block 40"
        "idct_coef_block x ! 0 = 40" "idct_coef_block x ! 1 = - 3"
        "idct_coef_block x ! 8 = - 34" "idct_coef_block x ! 16 = - 6"
        "idct_coef_block x ! 9 = 2" "idct_coef_block x ! 2 = 0"
        "whole_image (coef cinfo') 0 1 1 = (dc_block 80)[1 := 5]"
        "idct_coef_block y ! 0 = 80" "idct_coef_block y ! 1 = 5"
        "idct_coef_block y ! 8 = - 68" "idct_coef_block y ! 16 = - 7"
        "idct_coef_block y ! 9 = 2" "idct_coef_block y ! 2 = 0"
    by (simp add: smooth_run_simps smoothing_example_simps)
  from decompress_smooth_data_modifies_only_unknown_zero [OF r] r v show ?thesis
    by blast
qed

lemmas consume_run_simps =
  consume_input_in_scan_def call_consume_data_def consume_data_def consume_yoffset_loop.simps
  consume_MCU_col_loop.simps consume_ci_loop.simps consume_yindex_loop.simps
  consume_xindex_loop.simps read_block_def write_block_def start_input_pass_def start_iMCU_row_def
  no_suspension_def count_dec_def

lemma smooth_force_input_not_needed:
  assumes "\<not> (input_scan_number cinfo \<le> output_scan_number cinfo \<and> \<not> eoi_reached cinfo)"
  shows "smooth_force_input consume_input (w, cinfo) = Some (Completed (w, cinfo))"
  using assms by (subst smooth_force_input.simps) auto

lemma decompress_smooth_data_store_after_input:
  assumes "decompress_smooth_data consume_input w cinfo = Some (status, w', cinfo', calls)"
  shows "\<exists>e. smooth_force_input consume_input (w, cinfo) = Some e \<and> w' = fst (exit_state e) \<and>
             whole_image (coef cinfo') = whole_image (coef (snd (exit_state e)))"
  using assms
proof (cases rule: decompress_smooth_data_cases)
  case suspended
  then show ?thesis
    by simp
next
  case (produced c1 c2)
  from smooth_ci_loop_effect [OF produced(2)] have "smooth_unchanged c1 c2"
    by simp
  then have "whole_image (coef c2) = whole_image (coef c1)"
    by (rule smooth_unchanged_fields)
  with produced(1,3) show ?thesis
    by simp
qed

lemma decompress_smooth_data_no_input:
  assumes "decompress_smooth_data consume_input w cinfo = Some (status, w', cinfo', calls)"
    and "\<not> (input_scan_number cinfo \<le> output_scan_number cinfo \<and> \<not> eoi_reached cinfo)"
  shows "whole_image (coef cinfo') = whole_image (coef cinfo) \<and> w' = w \<and>
         \<not> (input_scan_number cinfo' \<le> output_scan_number cinfo' \<and> \<not> eoi_reached cinfo')"
  using assms(1)
proof (cases rule: decompress_smooth_data_cases)
  case suspended
  with smooth_force_input_not_needed [OF assms(2), of consume_input w] show ?thesis
    by simp
next
  case (produced c1 c2)
  with smooth_force_input_not_needed [OF assms(2), of consume_input w]
  have c1: "c1 = cinfo" and w: "w' = w"
    by simp_all
  from smooth_ci_loop_effect [OF produced(2)] have "smooth_unchanged c1 c2"
    by simp
  note f = smooth_unchanged_fields [OF this]
  from f(1,8,9,10) produced(3) c1 w assms(2) show ?thesis
    by simp
qed

lemma smooth_output_calls_no_input:
  assumes "smooth_output_calls consume_input n w cinfo = Some (w', cinfo')"
    and "\<not> (input_scan_number cinfo \<le> output_scan_number cinfo \<and> \<not> eoi_reached cinfo)"
  shows "whole_image (coef cinfo') = whole_image (coef cinfo) \<and> w' = w"
  using assms
proof (induction n arbitrary: w cinfo)
  case 0
  then show ?case
    by simp
next
  case (Suc n)
  from Suc.prems(1) obtain status w1 c1 calls
    where d: "decompress_smooth_data consume_input w cinfo = Some (status, w1, c1, calls)"
      and r: "smooth_output_calls consume_input n w1 c1 = Some (w', cinfo')"
    by (auto split: option.splits)
  from decompress_smooth_data_no_input [OF d Suc.prems(2)]
  have s: "whole_image (coef c1) = whole_image (coef cinfo)" "w1 = w"
    and i: "\<not> (input_scan_number c1 \<le> output_scan_number c1 \<and> \<not> eoi_reached c1)"
    by simp_all
  from Suc.IH [OF r i] s show ?case
    by simp
qed

text \<open>
  C7, as stated, fails: a call of \<open>decompress_smooth_data\<close> whose output is ahead of the
  input forces consumer calls, and the consumer writes the coefficients it decodes into
  the store. At the start of a smoothing pass over the progressive 16 by 16 image the
  stored block at row 0, column 0 is zero; after the first call it holds the block that
  the forced consumer call decoded.
\<close>

theorem decompress_smooth_data_store_counterexample:
  "whole_image (coef (start_output_pass (start_input_pass (progressive16 (replicate 64 16))))) 0 0 0
     = JBLOCK_zero \<and>
   map_option (\<lambda>r. whole_image (coef (fst (snd (snd r)))) 0 0 0)
     (decompress_smooth_data (consume_input_in_scan (no_suspension count_dec) Suc) 0
        (start_output_pass (start_input_pass (progressive16 (replicate 64 16)))))
     = Some (dc_block 1) \<and>
   dc_block 1 \<noteq> JBLOCK_zero"
proof -
  have "replicate 64 (0 :: JCOEF) = 0 # replicate 63 0"
    by (simp add: numeral_eq_Suc)
  then have "dc_block 1 \<noteq> JBLOCK_zero"
    by (simp add: dc_block_def JBLOCK_zero_def DCTSIZE2_def)
  then show ?thesis
    by (simp add: smooth_run_simps consume_run_simps)
qed

text \<open>
  C7, amended: the block-processing part of \<open>decompress_smooth_data\<close> never mutates the
  coefficient store. The store after a call is the store that the consumer calls forced
  at the start of the call have left (and the outside state likewise); and any number
  of calls in a row that force no input, because the input is complete or in a later
  scan than the output, leave every stored coefficient block unchanged.
\<close>

theorem decompress_smooth_data_store:
  "(decompress_smooth_data consume_input w cinfo = Some (status, w', cinfo', calls) \<longrightarrow>
      (\<exists>e. smooth_force_input consume_input (w, cinfo) = Some e \<and> w' = fst (exit_state e) \<and>
            whole_image (coef cinfo') = whole_image (coef (snd (exit_state e))))) \<and>
   (smooth_output_calls consume_input n w cinfo = Some (w2, cinfo2) \<and>
    \<not> (input_scan_number cinfo \<le> output_scan_number cinfo \<and> \<not> eoi_reached cinfo) \<longrightarrow>
      whole_image (coef cinfo2) = whole_image (coef cinfo) \<and> w2 = w)"
proof (intro conjI impI)
  assume "decompress_smooth_data consume_input w cinfo = Some (status, w', cinfo', calls)"
  then show "\<exists>e. smooth_force_input consume_input (w, cinfo) = Some e \<and> w' = fst (exit_state e) \<and>
            whole_image (coef cinfo') = whole_image (coef (snd (exit_state e)))"
    by (rule decompress_smooth_data_store_after_input)
next
  assume a: "smooth_output_calls consume_input n w cinfo = Some (w2, cinfo2) \<and>
    \<not> (input_scan_number cinfo \<le> output_scan_number cinfo \<and> \<not> eoi_reached cinfo)"
  from smooth_output_calls_no_input [OF conjunct1 [OF a] conjunct2 [OF a]]
  show "whole_image (coef cinfo2) = whole_image (coef cinfo)" and "w2 = w"
    by simp_all
qed

text \<open>
  Witness: the two calls of the smoothing pass over the example store, with all input
  read.
\<close>

theorem decompress_smooth_data_store_witness:
  "\<exists>cinfo2.
     smooth_output_calls consume_input_starved (Suc (Suc 0)) (0 :: nat) smoothing16 = Some (0, cinfo2) \<and>
     output_iMCU_row cinfo2 = 2 \<and>
     whole_image (coef cinfo2) = whole_image (coef smoothing16) \<and>
     whole_image (coef cinfo2) 0 0 0 = (dc_block 100)[1 := 5]"
proof -
  obtain cinfo2
    where r: "smooth_output_calls consume_input_starved (Suc (Suc 0)) (0 :: nat) smoothing16 = Some (0, cinfo2)"
      and o: "output_iMCU_row cinfo2 = 2"
    by (simp add: smooth_run_simps)
  have i: "\<not> (input_scan_number smoothing16 \<le> output_scan_number smoothing16 \<and>
               \<not> eoi_reached smoothing16)"
    by (simp add: smooth_run_simps)
  have s: "whole_image (coef smoothing16) 0 0 0 = (dc_block 100)[1 := 5]"
    by (simp add: smooth_run_simps)
  from conjunct2 [OF decompress_smooth_data_store
         [of consume_input_starved 0 smoothing16 JPEG_SUSPENDED 0 smoothing16 "[]" "Suc (Suc 0)" 0 cinfo2]]
       r i
  have "whole_image (coef cinfo2) = whole_image (coef smoothing16)"
    by blast
  with r o s show ?thesis
    by auto
qed

lemma force_input_result:
  assumes "force_input consume_input st = Some e"
  shows "case e of
           Completed (w', c') \<Rightarrow> input_ahead c'
         | Suspended (w', c') \<Rightarrow> \<exists>w0 c0. consume_input w0 c0 = (JPEG_SUSPENDED, w', c')"
proof (rule force_input.raw_induct
    [where P = "\<lambda>consume_input st e. case e of
           Completed (w', c') \<Rightarrow> input_ahead c'
         | Suspended (w', c') \<Rightarrow> \<exists>w0 c0. consume_input w0 c0 = (JPEG_SUSPENDED, w', c')",
     OF _ assms], goal_cases)
  case (1 f consume_input st e)
  obtain w cinfo where st: "st = (w, cinfo)"
    by (cases st) auto
  show ?case
  proof (cases "input_scan_number cinfo < output_scan_number cinfo \<or>
         (input_scan_number cinfo = output_scan_number cinfo \<and>
          input_iMCU_row cinfo \<le> output_iMCU_row cinfo)")
    case False
    with 1(2) have "e = Completed (w, cinfo)"
      unfolding st by auto
    moreover from False have "input_ahead cinfo"
      unfolding input_ahead_def by auto
    ultimately show ?thesis
      by simp
  next
    case True
    obtain status w1 c1 where c: "consume_input w cinfo = (status, w1, c1)"
      by (cases "consume_input w cinfo") auto
    show ?thesis
    proof (cases "status = JPEG_SUSPENDED")
      case s: True
      with 1(2) True c have "e = Suspended (w1, c1)"
        unfolding st by auto
      with c s show ?thesis
        by auto
    next
      case False
      with 1(2) True c have "f consume_input (w1, c1) = Some e"
        unfolding st by auto
      from 1(1) [OF this] show ?thesis .
    qed
  qed
qed

lemmas data_run_simps =
  decompress_data_def force_input.simps data_ci_loop.simps data_block_row_loop.simps
  data_block_num_loop.simps output_block_rows_def iMCU_start_row_def start_output_pass_def
  set_decompress_data_def smoothing_ok_def start_input_pass_def start_iMCU_row_def
  jinit_d_coef_controller_def gray16_def scan_cinfo_def gray_compptr_def blank_coef_def
  zero_barray_def input_ahead_def consume_input_starved_def
  Let_def word_le_nat_alt word_less_nat_alt

text \<open>
  C2: \<open>decompress_data\<close> first forces consumer calls while the input progress is not
  strictly past the output progress. When it goes on to read the store, the state it
  reads in has the input ahead (\<open>input_scan_number > output_scan_number\<close>, or equal
  scan numbers with \<open>input_iMCU_row > output_iMCU_row\<close>); when a forced consumer call
  suspends, \<open>decompress_data\<close> returns \<open>JPEG_SUSPENDED\<close> with no inverse-DCT invocation
  and with the state exactly as that consumer call left it, the output cursor
  included.
\<close>

theorem decompress_data_waits_for_input:
  assumes "decompress_data consume_input w cinfo = Some (status, w', cinfo', calls)"
  shows "(status = JPEG_SUSPENDED \<longrightarrow>
            force_input consume_input (w, cinfo) = Some (Suspended (w', cinfo')) \<and>
            (\<exists>w0 c0. consume_input w0 c0 = (JPEG_SUSPENDED, w', cinfo')) \<and> calls = []) \<and>
         (status \<noteq> JPEG_SUSPENDED \<longrightarrow>
            (\<exists>c1. force_input consume_input (w, cinfo) = Some (Completed (w', c1)) \<and>
                  input_ahead c1 \<and> calls = data_ci_loop c1 0 \<and>
                  cinfo' = c1\<lparr>output_iMCU_row := output_iMCU_row c1 + 1\<rparr>))"
proof (cases "force_input consume_input (w, cinfo)")
  case None
  with assms show ?thesis
    by (simp add: decompress_data_def)
next
  case (Some e)
  show ?thesis
  proof (cases e)
    case (Suspended x)
    obtain w1 c1 where x: "x = (w1, c1)"
      by (cases x) auto
    from force_input_result [OF Some] Suspended x
    have "\<exists>w0 c0. consume_input w0 c0 = (JPEG_SUSPENDED, w1, c1)"
      by simp
    with assms Some Suspended x show ?thesis
      by (auto simp: decompress_data_def)
  next
    case (Completed x)
    obtain w1 c1 where x: "x = (w1, c1)"
      by (cases x) auto
    from force_input_result [OF Some] Completed x have "input_ahead c1"
      by simp
    with assms Some Completed x show ?thesis
      by (auto simp: decompress_data_def Let_def split: if_splits)
  qed
qed

text \<open>
  Witness: the first output call on the 16 by 16 image with an empty store, once with
  a consumer that decodes the missing row-group and once with a consumer that
  suspends.
\<close>

theorem decompress_data_waits_for_input_witness:
  "(\<exists>w' cinfo' x y.
      decompress_data (consume_input_in_scan (no_suspension count_dec) Suc) 0
        (start_output_pass (start_input_pass (jinit_d_coef_controller gray16 True)))
        = Some (JPEG_ROW_COMPLETED, w', cinfo', [x, y]) \<and>
      input_iMCU_row cinfo' = 1 \<and> output_iMCU_row cinfo' = 1 \<and>
      idct_coef_block x = dc_block 1 \<and> idct_coef_block y = dc_block 2) \<and>
   decompress_data consume_input_starved (0 :: nat)
     (start_output_pass (start_input_pass (jinit_d_coef_controller gray16 True)))
     = Some (JPEG_SUSPENDED, 0,
             start_output_pass (start_input_pass (jinit_d_coef_controller gray16 True)), [])"
proof -
  let ?c = "start_output_pass (start_input_pass (jinit_d_coef_controller gray16 True))"
  obtain w' cinfo' x y
    where r: "decompress_data (consume_input_in_scan (no_suspension count_dec) Suc) 0 ?c
                = Some (JPEG_ROW_COMPLETED, w', cinfo', [x, y])"
      and v: "idct_coef_block x = dc_block 1" "idct_coef_block y = dc_block 2"
    by (simp add: data_run_simps consume_run_simps)
  from decompress_data_waits_for_input [OF r] obtain c1
    where c1: "input_ahead c1" "cinfo' = c1\<lparr>output_iMCU_row := output_iMCU_row c1 + 1\<rparr>"
      "force_input (consume_input_in_scan (no_suspension count_dec) Suc) (0, ?c)
         = Some (Completed (w', c1))"
    by auto
  from c1(3) have "input_iMCU_row c1 = 1 \<and> output_iMCU_row c1 = 0"
    by (auto simp: data_run_simps consume_run_simps)
  with c1(2) have p: "input_iMCU_row cinfo' = 1 \<and> output_iMCU_row cinfo' = 1"
    by simp
  obtain st w2 c2 calls2
    where s: "decompress_data consume_input_starved (0 :: nat) ?c = Some (st, w2, c2, calls2)"
      and st: "st = JPEG_SUSPENDED"
    by (simp add: data_run_simps)
  from decompress_data_waits_for_input [OF s] st
  have "calls2 = []" "force_input consume_input_starved (0 :: nat, ?c) = Some (Suspended (w2, c2))"
    by simp_all
  then have "calls2 = []" "w2 = 0" "c2 = ?c"
    by (auto simp: data_run_simps)
  with s st r v p show ?thesis
    by blast
qed

lemma smooth_coef_written:
  assumes "smooth_coef Al pos Q num ws = Some ws'"
    and "Al \<noteq> 0" and "ws ! pos = 0" and "pos < length ws"
  shows "Q \<noteq> 0 \<and> ws' ! pos = word_of_int (K8_estimate Q Al num)"
  using assms(1)
proof (cases rule: smooth_coef_cases)
  case same
  with assms(2,3) show ?thesis
    by simp
next
  case (written pred)
  from written(3) have q: "Q \<noteq> 0"
    using smooth_pred_None [of Q Al num] by auto
  with written(3) have "pred = K8_estimate Q Al num"
    by (simp add: smooth_pred_K8_estimate)
  with written(4) assms(4) q show ?thesis
    by simp
qed

lemma smooth_block_K8_estimates:
  assumes "smooth_block latch cb (fetch_quant quanttbl) dc block = Some ws"
    and "length block = DCTSIZE2"
  shows "K8_estimates latch cb quanttbl dc block ws"
proof -
  let ?q = "fetch_quant quanttbl"
  from assms(1) obtain ws1 ws2 ws3 ws4 where
    s1: "smooth_coef (latch ! nat (cb + 1)) 1 (Q01 ?q) (36 * Q00 ?q * (DC4 dc - DC6 dc)) block = Some ws1" and
    s2: "smooth_coef (latch ! nat (cb + 2)) 8 (Q10 ?q) (36 * Q00 ?q * (DC2 dc - DC8 dc)) ws1 = Some ws2" and
    s3: "smooth_coef (latch ! nat (cb + 3)) 16 (Q20 ?q) (9 * Q00 ?q * (DC2 dc + DC8 dc - 2 * DC5 dc)) ws2 = Some ws3" and
    s4: "smooth_coef (latch ! nat (cb + 4)) 9 (Q11 ?q) (5 * Q00 ?q * (DC1 dc - DC3 dc - DC7 dc + DC9 dc)) ws3 = Some ws4" and
    s5: "smooth_coef (latch ! nat (cb + 5)) 2 (Q02 ?q) (9 * Q00 ?q * (DC4 dc + DC6 dc - 2 * DC5 dc)) ws4 = Some ws"
    by (rule smooth_blockE)
  have len: "length block = 64" "length ws1 = 64" "length ws2 = 64" "length ws3 = 64"
    "length ws4 = 64"
    using assms(2) smooth_coef_length [OF s1] smooth_coef_length [OF s2]
      smooth_coef_length [OF s3] smooth_coef_length [OF s4]
    by (simp_all add: DCTSIZE2_def)
  have a1: "Q01 ?q \<noteq> 0 \<and> ws ! 1 = word_of_int (K8_estimate (Q01 ?q) (latch ! nat (cb + 1))
                                    (36 * Q00 ?q * (DC4 dc - DC6 dc)))"
    if "latch ! nat (cb + 1) \<noteq> 0 \<and> block ! 1 = 0"
    using that smooth_coef_written [OF s1] len smooth_coef_other [OF s2, of 1]
      smooth_coef_other [OF s3, of 1] smooth_coef_other [OF s4, of 1] smooth_coef_other [OF s5, of 1]
    by simp
  have a2: "Q10 ?q \<noteq> 0 \<and> ws ! 8 = word_of_int (K8_estimate (Q10 ?q) (latch ! nat (cb + 2))
                                    (36 * Q00 ?q * (DC2 dc - DC8 dc)))"
    if "latch ! nat (cb + 2) \<noteq> 0 \<and> block ! 8 = 0"
    using that smooth_coef_written [OF s2] len smooth_coef_other [OF s1, of 8]
      smooth_coef_other [OF s3, of 8] smooth_coef_other [OF s4, of 8] smooth_coef_other [OF s5, of 8]
    by simp
  have a3: "Q20 ?q \<noteq> 0 \<and> ws ! 16 = word_of_int (K8_estimate (Q20 ?q) (latch ! nat (cb + 3))
                                     (9 * Q00 ?q * (DC2 dc + DC8 dc - 2 * DC5 dc)))"
    if "latch ! nat (cb + 3) \<noteq> 0 \<and> block ! 16 = 0"
    using that smooth_coef_written [OF s3] len smooth_coef_other [OF s1, of 16]
      smooth_coef_other [OF s2, of 16] smooth_coef_other [OF s4, of 16]
      smooth_coef_other [OF s5, of 16]
    by simp
  have a4: "Q11 ?q \<noteq> 0 \<and> ws ! 9 = word_of_int (K8_estimate (Q11 ?q) (latch ! nat (cb + 4))
                                    (5 * Q00 ?q * (DC1 dc - DC3 dc - DC7 dc + DC9 dc)))"
    if "latch ! nat (cb + 4) \<noteq> 0 \<and> block ! 9 = 0"
    using that smooth_coef_written [OF s4] len smooth_coef_other [OF s1, of 9]
      smooth_coef_other [OF s2, of 9] smooth_coef_other [OF s3, of 9] smooth_coef_other [OF s5, of 9]
    by simp
  have a5: "Q02 ?q \<noteq> 0 \<and> ws ! 2 = word_of_int (K8_estimate (Q02 ?q) (latch ! nat (cb + 5))
                                    (9 * Q00 ?q * (DC4 dc + DC6 dc - 2 * DC5 dc)))"
    if "latch ! nat (cb + 5) \<noteq> 0 \<and> block ! 2 = 0"
    using that smooth_coef_written [OF s5] len smooth_coef_other [OF s1, of 2]
      smooth_coef_other [OF s2, of 2] smooth_coef_other [OF s3, of 2] smooth_coef_other [OF s4, of 2]
    by simp
  have q: "Q00 ?q = uint (quantval quanttbl ! 0)" "Q01 ?q = uint (quantval quanttbl ! 1)"
    "Q10 ?q = uint (quantval quanttbl ! 8)" "Q20 ?q = uint (quantval quanttbl ! 16)"
    "Q11 ?q = uint (quantval quanttbl ! 9)" "Q02 ?q = uint (quantval quanttbl ! 2)"
    by (simp_all add: fetch_quant_def Q01_POS_def Q10_POS_def Q20_POS_def Q11_POS_def
          Q02_POS_def)
  from a1 a2 a3 a4 a5 show ?thesis
    unfolding K8_estimates_def Let_def q by blast
qed

text \<open>
  C6, amended: every invocation of the inverse DCT that \<open>decompress_smooth_data\<close> makes
  is the one for a block of the current iMCU row of the output pass, and at every
  smoothed AC position of that block (latched \<open>Al\<close> nonzero, stored coefficient zero) the
  value passed is the \<^verbatim>\<open>JCOEF\<close> conversion of the estimate given by the exact integer
  formula: \<open>num\<close> is the weighted difference of the DC values of the 3 by 3 neighbourhood
  of the block in the store, with the weights 36, 36, 9, 5, 9 (for AC01, AC10, AC20,
  AC11, AC02), times the DC quantizer \<open>Q00\<close> of the component's quantization table; the
  magnitude is \<open>(Q<<7 + |num|) / (Q<<8)\<close> in truncating integer division with the
  quantizer \<open>Q\<close> of the position, which is nonzero; it is clamped to at most
  \<open>2^Al - 1\<close> when \<open>Al\<close> is positive and is not clamped when \<open>Al\<close> is negative; and the
  estimate is negated when \<open>num\<close> is negative. For \<open>0 < Al \<le> 15\<close> the conversion to
  \<^verbatim>\<open>JCOEF\<close> keeps the value. The blocks of the store have \<open>DCTSIZE2\<close> coefficients.
\<close>

theorem decompress_smooth_data_estimates:
  assumes "decompress_smooth_data consume_input w cinfo = Some (status, w', cinfo', calls)"
    and "\<forall>ci row col. length (whole_image (coef cinfo') ci row col) = DCTSIZE2"
  shows "(\<forall>x \<in> set calls. \<exists>latch quanttbl block_row block_num.
            coef_bits_latch (coef cinfo') = Some latch \<and>
            quant_table (idct_compptr x) = Some quanttbl \<and>
            processes_block (cinfo'\<lparr>output_iMCU_row := output_iMCU_row cinfo' - 1\<rparr>) x
              block_row block_num \<and>
            K8_estimates latch (idct_method x * SAVED_COEFS) quanttbl
              (DC_neighbourhood (cinfo'\<lparr>output_iMCU_row := output_iMCU_row cinfo' - 1\<rparr>)
                 (idct_method x)
                 (neighbour_rows (cinfo'\<lparr>output_iMCU_row := output_iMCU_row cinfo' - 1\<rparr>)
                    (idct_compptr x) block_row)
                 (uint block_num) (uint (width_in_blocks (idct_compptr x) - 1)))
              (whole_image (coef cinfo') (idct_method x)
                 (output_store_row (cinfo'\<lparr>output_iMCU_row := output_iMCU_row cinfo' - 1\<rparr>)
                    (idct_compptr x) block_row)
                 (uint block_num))
              (idct_coef_block x)) \<and>
         (\<forall>Q Al num. 0 < Q \<and> 0 < Al \<longrightarrow> \<bar>K8_estimate Q Al num\<bar> \<le> 2 ^ nat Al - 1) \<and>
         (\<forall>Q Al num. 0 < Q \<and> Al < 0 \<longrightarrow>
            \<bar>K8_estimate Q Al num\<bar> = (Q * 2 ^ 7 + \<bar>num\<bar>) div (Q * 2 ^ 8)) \<and>
         (\<forall>Q Al num. 0 < Q \<and> 0 < Al \<and> Al \<le> 15 \<longrightarrow>
            sint (word_of_int (K8_estimate Q Al num) :: JCOEF) = K8_estimate Q Al num)"
proof -
  let ?c = "cinfo'\<lparr>output_iMCU_row := output_iMCU_row cinfo' - 1\<rparr>"
  have a: "\<exists>latch quanttbl block_row block_num.
            coef_bits_latch (coef cinfo') = Some latch \<and>
            quant_table (idct_compptr x) = Some quanttbl \<and>
            processes_block ?c x block_row block_num \<and>
            K8_estimates latch (idct_method x * SAVED_COEFS) quanttbl
              (DC_neighbourhood ?c (idct_method x)
                 (neighbour_rows ?c (idct_compptr x) block_row)
                 (uint block_num) (uint (width_in_blocks (idct_compptr x) - 1)))
              (whole_image (coef cinfo') (idct_method x)
                 (output_store_row ?c (idct_compptr x) block_row) (uint block_num))
              (idct_coef_block x)"
    if "x \<in> set calls" for x
  proof -
    from that decompress_smooth_data_calls [OF assms(1)] obtain latch block_row block_num
      where l: "coef_bits_latch (coef cinfo') = Some latch"
        and s: "smoothed_from_store ?c latch x block_row block_num"
      by blast
    from s obtain quanttbl where p: "processes_block ?c x block_row block_num"
      and q: "quant_table (idct_compptr x) = Some quanttbl"
      and b: "smooth_block latch (idct_method x * SAVED_COEFS) (fetch_quant quanttbl)
             (DC_neighbourhood ?c (idct_method x) (neighbour_rows ?c (idct_compptr x) block_row)
                (uint block_num) (uint (width_in_blocks (idct_compptr x) - 1)))
             (whole_image (coef ?c) (idct_method x)
                (output_store_row ?c (idct_compptr x) block_row) (uint block_num))
           = Some (idct_coef_block x)"
      by (rule smoothed_from_storeE)
    have "length (whole_image (coef ?c) (idct_method x)
                (output_store_row ?c (idct_compptr x) block_row) (uint block_num)) = DCTSIZE2"
      using assms(2) by simp
    from smooth_block_K8_estimates [OF b this]
    have "K8_estimates latch (idct_method x * SAVED_COEFS) quanttbl
              (DC_neighbourhood ?c (idct_method x)
                 (neighbour_rows ?c (idct_compptr x) block_row)
                 (uint block_num) (uint (width_in_blocks (idct_compptr x) - 1)))
              (whole_image (coef cinfo') (idct_method x)
                 (output_store_row ?c (idct_compptr x) block_row) (uint block_num))
              (idct_coef_block x)"
      by simp
    with l q p show ?thesis
      by blast
  qed
  have b: "\<bar>K8_estimate Q Al num\<bar> \<le> 2 ^ nat Al - 1" if "0 < Q \<and> 0 < Al" for Q Al num
    using that K8_estimate_clamped by simp
  have c: "\<bar>K8_estimate Q Al num\<bar> = (Q * 2 ^ 7 + \<bar>num\<bar>) div (Q * 2 ^ 8)"
    if "0 < Q \<and> Al < 0" for Q Al num
  proof -
    define m where "m = (Q * 2 ^ 7 + \<bar>num\<bar>) div (Q * 2 ^ 8)"
    have "0 \<le> m"
      unfolding m_def using that by (intro pos_imp_zdiv_nonneg_iff [THEN iffD2]) simp_all
    moreover have "K8_estimate Q Al num = (if num < 0 then - m else m)"
      unfolding m_def K8_estimate_def Let_def using that by simp
    ultimately show ?thesis
      unfolding m_def [symmetric] by simp
  qed
  have d: "sint (word_of_int (K8_estimate Q Al num) :: JCOEF) = K8_estimate Q Al num"
    if "0 < Q \<and> 0 < Al \<and> Al \<le> 15" for Q Al num
    using that K8_estimate_fits_JCOEF by simp
  from a b c d show ?thesis
    by blast
qed

text \<open>
  C6, as stated, fails: the code clamps the magnitude only when the latched \<open>Al\<close> is
  positive (\<^verbatim>\<open>if (Al > 0 && pred >= (1<<Al))\<close>). The latched entry is \<open>-1\<close> for a
  coefficient that no scan has supplied yet; the position is then smoothed (\<open>Al \<noteq> 0\<close>)
  and the estimate is not clamped. In the second row-group of the smoothing pass over
  the example store the block at block row 1 and block column 0 has a zero coefficient
  at the position of AC10, for which \<open>Al = -1\<close> is latched; with \<open>Q00 = 16\<close>, \<open>Q10 = 2\<close> and
  the DC difference \<open>DC2 - DC8 = 10 - 40\<close> the value passed to the inverse DCT is
  \<open>-((256 + 17280) / 512) = -34\<close>, whose magnitude is not at most \<open>2^Al - 1\<close>, whether the
  power is taken in the reals or with the exponent cut off at 0.
\<close>

theorem decompress_smooth_data_estimates_counterexample:
  "\<exists>w' cinfo' x y latch.
     decompress_smooth_data consume_input_starved (0 :: nat)
         (smoothing_pass example_table example_bits example_store 1)
       = Some (JPEG_SCAN_COMPLETED, w', cinfo', [x, y]) \<and>
     coef_bits_latch (coef cinfo') = Some latch \<and> latch ! 2 = - 1 \<and>
     whole_image (coef cinfo') 0 1 0 ! 8 = 0 \<and>
     sint (idct_coef_block x ! 8) = - 34 \<and>
     \<not> clamped_to_Al (latch ! 2) (sint (idct_coef_block x ! 8)) \<and>
     \<not> \<bar>sint (idct_coef_block x ! 8)\<bar> \<le> 2 ^ nat (latch ! 2) - 1"
  by (simp add: smooth_run_simps smoothing_example_simps clamped_to_Al_def powr_neg_one)

text \<open>
  Witness: the second row-group of the smoothing pass over the example store, with the
  quantizers \<open>Q00 = 16\<close>, \<open>Q01 = 1\<close>, \<open>Q10 = 2\<close>, \<open>Q20 = 3\<close>. The block at block row 1 and
  block column 0 has the DC values 10, 10, 20 above it, 40, 40, 80 in its row and, in
  the last block row of the image, the same below. Its estimate for AC01
  (\<open>Al = 2\<close>) is clamped from 90 to 3 and negated, and its estimate for AC10
  (\<open>Al = -1\<close>) is negated and not clamped. The block at block column 1, the last, has the
  DC values 10, 20, 20 above it and 40, 80, 80 in its row; its estimate for AC20
  (\<open>Al = 3\<close>) is clamped from 11 to 7 and negated.
\<close>

theorem decompress_smooth_data_estimates_witness:
  "\<exists>w' cinfo' x y latch quanttbl.
     decompress_smooth_data consume_input_starved (0 :: nat)
         (smoothing_pass example_table example_bits example_store 1)
       = Some (JPEG_SCAN_COMPLETED, w', cinfo', [x, y]) \<and>
     (\<forall>ci row col. length (whole_image (coef cinfo') ci row col) = DCTSIZE2) \<and>
     coef_bits_latch (coef cinfo') = Some latch \<and>
     latch ! 1 = 2 \<and> latch ! 2 = - 1 \<and> latch ! 3 = 3 \<and>
     quant_table (idct_compptr x) = Some quanttbl \<and> idct_compptr y = idct_compptr x \<and>
     uint (quantval quanttbl ! 0) = 16 \<and> uint (quantval quanttbl ! 1) = 1 \<and>
     uint (quantval quanttbl ! 8) = 2 \<and> uint (quantval quanttbl ! 16) = 3 \<and>
     idct_output_col x = 0 \<and> idct_output_col y = 8 \<and>
     DC_neighbourhood (cinfo'\<lparr>output_iMCU_row := output_iMCU_row cinfo' - 1\<rparr>) 0
       (neighbour_rows (cinfo'\<lparr>output_iMCU_row := output_iMCU_row cinfo' - 1\<rparr>)
          (idct_compptr x) 0) 0 1
       = \<lparr>DC1 = 10, DC2 = 10, DC3 = 20, DC4 = 40, DC5 = 40, DC6 = 80,
          DC7 = 40, DC8 = 40, DC9 = 80\<rparr> \<and>
     DC_neighbourhood (cinfo'\<lparr>output_iMCU_row := output_iMCU_row cinfo' - 1\<rparr>) 0
       (neighbour_rows (cinfo'\<lparr>output_iMCU_row := output_iMCU_row cinfo' - 1\<rparr>)
          (idct_compptr x) 0) 1 1
       = \<lparr>DC1 = 10, DC2 = 20, DC3 = 20, DC4 = 40, DC5 = 80, DC6 = 80,
          DC7 = 40, DC8 = 80, DC9 = 80\<rparr> \<and>
     idct_coef_block x ! 1 = word_of_int (K8_estimate 1 2 (36 * 16 * (40 - 80))) \<and>
     K8_estimate 1 2 (36 * 16 * (40 - 80)) = - 3 \<and>
     idct_coef_block x ! 8 = word_of_int (K8_estimate 2 (- 1) (36 * 16 * (10 - 40))) \<and>
     K8_estimate 2 (- 1) (36 * 16 * (10 - 40)) = - 34 \<and>
     idct_coef_block y ! 16 = word_of_int (K8_estimate 3 3 (9 * 16 * (20 + 80 - 2 * 80))) \<and>
     K8_estimate 3 3 (9 * 16 * (20 + 80 - 2 * 80)) = - 7 \<and>
     (\<forall>x \<in> set [x, y]. \<exists>latch quanttbl block_row block_num.
        coef_bits_latch (coef cinfo') = Some latch \<and>
        quant_table (idct_compptr x) = Some quanttbl \<and>
        processes_block (cinfo'\<lparr>output_iMCU_row := output_iMCU_row cinfo' - 1\<rparr>) x
          block_row block_num \<and>
        K8_estimates latch (idct_method x * SAVED_COEFS) quanttbl
          (DC_neighbourhood (cinfo'\<lparr>output_iMCU_row := output_iMCU_row cinfo' - 1\<rparr>)
             (idct_method x)
             (neighbour_rows (cinfo'\<lparr>output_iMCU_row := output_iMCU_row cinfo' - 1\<rparr>)
                (idct_compptr x) block_row)
             (uint block_num) (uint (width_in_blocks (idct_compptr x) - 1)))
          (whole_image (coef cinfo') (idct_method x)
             (output_store_row (cinfo'\<lparr>output_iMCU_row := output_iMCU_row cinfo' - 1\<rparr>)
                (idct_compptr x) block_row)
             (uint block_num))
          (idct_coef_block x))"
proof -
  have k: "K8_estimate 1 2 (36 * 16 * (40 - 80)) = - 3"
    "K8_estimate 2 (- 1) (36 * 16 * (10 - 40)) = - 34"
    "K8_estimate 3 3 (9 * 16 * (20 + 80 - 2 * 80)) = - 7"
    by (simp_all add: K8_estimate_def)
  have "\<exists>w' cinfo' x y latch quanttbl.
     decompress_smooth_data consume_input_starved (0 :: nat)
         (smoothing_pass example_table example_bits example_store 1)
       = Some (JPEG_SCAN_COMPLETED, w', cinfo', [x, y]) \<and>
     whole_image (coef cinfo') = (\<lambda>ci. example_store) \<and>
     coef_bits_latch (coef cinfo') = Some latch \<and>
     latch ! 1 = 2 \<and> latch ! 2 = - 1 \<and> latch ! 3 = 3 \<and>
     quant_table (idct_compptr x) = Some quanttbl \<and> idct_compptr y = idct_compptr x \<and>
     uint (quantval quanttbl ! 0) = 16 \<and> uint (quantval quanttbl ! 1) = 1 \<and>
     uint (quantval quanttbl ! 8) = 2 \<and> uint (quantval quanttbl ! 16) = 3 \<and>
     idct_output_col x = 0 \<and> idct_output_col y = 8 \<and>
     DC_neighbourhood (cinfo'\<lparr>output_iMCU_row := output_iMCU_row cinfo' - 1\<rparr>) 0
       (neighbour_rows (cinfo'\<lparr>output_iMCU_row := output_iMCU_row cinfo' - 1\<rparr>)
          (idct_compptr x) 0) 0 1
       = \<lparr>DC1 = 10, DC2 = 10, DC3 = 20, DC4 = 40, DC5 = 40, DC6 = 80,
          DC7 = 40, DC8 = 40, DC9 = 80\<rparr> \<and>
     DC_neighbourhood (cinfo'\<lparr>output_iMCU_row := output_iMCU_row cinfo' - 1\<rparr>) 0
       (neighbour_rows (cinfo'\<lparr>output_iMCU_row := output_iMCU_row cinfo' - 1\<rparr>)
          (idct_compptr x) 0) 1 1
       = \<lparr>DC1 = 10, DC2 = 20, DC3 = 20, DC4 = 40, DC5 = 80, DC6 = 80,
          DC7 = 40, DC8 = 80, DC9 = 80\<rparr> \<and>
     idct_coef_block x ! 1 = - 3 \<and> idct_coef_block x ! 8 = - 34 \<and>
     idct_coef_block y ! 16 = - 7"
    by (simp add: smooth_run_simps smoothing_example_simps DC_neighbourhood_def
          neighbour_rows_def output_store_row_def)
  then obtain w' cinfo' x y latch quanttbl
    where r: "decompress_smooth_data consume_input_starved (0 :: nat)
                  (smoothing_pass example_table example_bits example_store 1)
                = Some (JPEG_SCAN_COMPLETED, w', cinfo', [x, y])"
      and s: "whole_image (coef cinfo') = (\<lambda>ci. example_store)"
      and v: "coef_bits_latch (coef cinfo') = Some latch"
        "latch ! 1 = 2" "latch ! 2 = - 1" "latch ! 3 = 3"
        "quant_table (idct_compptr x) = Some quanttbl" "idct_compptr y = idct_compptr x"
        "uint (quantval quanttbl ! 0) = 16" "uint (quantval quanttbl ! 1) = 1"
        "uint (quantval quanttbl ! 8) = 2" "uint (quantval quanttbl ! 16) = 3"
        "idct_output_col x = 0" "idct_output_col y = 8"
        "DC_neighbourhood (cinfo'\<lparr>output_iMCU_row := output_iMCU_row cinfo' - 1\<rparr>) 0
           (neighbour_rows (cinfo'\<lparr>output_iMCU_row := output_iMCU_row cinfo' - 1\<rparr>)
              (idct_compptr x) 0) 0 1
           = \<lparr>DC1 = 10, DC2 = 10, DC3 = 20, DC4 = 40, DC5 = 40, DC6 = 80,
              DC7 = 40, DC8 = 40, DC9 = 80\<rparr>"
        "DC_neighbourhood (cinfo'\<lparr>output_iMCU_row := output_iMCU_row cinfo' - 1\<rparr>) 0
           (neighbour_rows (cinfo'\<lparr>output_iMCU_row := output_iMCU_row cinfo' - 1\<rparr>)
              (idct_compptr x) 0) 1 1
           = \<lparr>DC1 = 10, DC2 = 20, DC3 = 20, DC4 = 40, DC5 = 80, DC6 = 80,
              DC7 = 40, DC8 = 80, DC9 = 80\<rparr>"
      and e: "idct_coef_block x ! 1 = - 3" "idct_coef_block x ! 8 = - 34"
        "idct_coef_block y ! 16 = - 7"
    by blast
  have len: "\<forall>ci row col. length (whole_image (coef cinfo') ci row col) = DCTSIZE2"
    by (simp add: s example_store_def dc_block_def JBLOCK_zero_def DCTSIZE2_def)
  have e': "idct_coef_block x ! 1 = word_of_int (K8_estimate 1 2 (36 * 16 * (40 - 80)))"
    "idct_coef_block x ! 8 = word_of_int (K8_estimate 2 (- 1) (36 * 16 * (10 - 40)))"
    "idct_coef_block y ! 16 = word_of_int (K8_estimate 3 3 (9 * 16 * (20 + 80 - 2 * 80)))"
    unfolding k e by simp_all
  from decompress_smooth_data_estimates [OF r len] r len v k e' show ?thesis
    by blast
qed

lemmas gray16_simps =
  onepass_run_simps consume_run_simps data_run_simps
  gray16_single_pass_def gray16_buffered_def

lemma gray16_paths:
  fixes dec :: "'e \<Rightarrow> JBLOCK list \<Rightarrow> 'e \<times> JBLOCK list"
  shows "gray16_single_pass dec fin e = gray16_buffered dec fin consume_input e \<and>
         gray16_single_pass dec fin e \<noteq> None"
proof -
  obtain e1 bs1 where d1: "dec e [JBLOCK_zero] = (e1, bs1)"
    by (cases "dec e [JBLOCK_zero]") auto
  obtain e2 bs2 where d2: "dec e1 [JBLOCK_zero] = (e2, bs2)"
    by (cases "dec e1 [JBLOCK_zero]") auto
  obtain e3 bs3 where d3: "dec e2 [JBLOCK_zero] = (e3, bs3)"
    by (cases "dec e2 [JBLOCK_zero]") auto
  obtain e4 bs4 where d4: "dec e3 [JBLOCK_zero] = (e4, bs4)"
    by (cases "dec e3 [JBLOCK_zero]") auto
  show ?thesis
    by (cases bs1; cases bs2; cases bs3; cases bs4)
      (simp_all add: gray16_simps d1 d2 d3 d4)
qed

text \<open>
  C8: for the single-scan, non-progressive, single-component image of 16 by 16 pixels
  (a 2 by 2 grid of MCUs of one block each) and every entropy decoder that does not
  suspend, decoding with \<open>decompress_onepass\<close> and decoding by buffering all
  coefficients with \<open>consume_data\<close> and then producing with \<open>decompress_data\<close> both
  return, give the same return codes and make the same inverse-DCT invocations (the
  same coefficient blocks at the same places, in the same order) for each row-group;
  so the pixel output is the same for every inverse-DCT method.
\<close>

theorem gray16_single_pass_equals_buffered:
  "gray16_single_pass dec finish_input_pass e =
     gray16_buffered dec finish_input_pass consume_input e \<and>
   gray16_single_pass dec finish_input_pass e \<noteq> None \<and>
   map_option (map (\<lambda>r. output_of_calls idct (snd r))) (gray16_single_pass dec finish_input_pass e) =
     map_option (map (\<lambda>r. output_of_calls idct (snd r)))
       (gray16_buffered dec finish_input_pass consume_input e)"
proof (intro conjI)
  show p: "gray16_single_pass dec finish_input_pass e =
             gray16_buffered dec finish_input_pass consume_input e"
    by (rule conjunct1 [OF gray16_paths])
  show "gray16_single_pass dec finish_input_pass e \<noteq> None"
    by (rule conjunct2 [OF gray16_paths [of dec finish_input_pass e consume_input]])
  show "map_option (map (\<lambda>r. output_of_calls idct (snd r)))
          (gray16_single_pass dec finish_input_pass e) =
        map_option (map (\<lambda>r. output_of_calls idct (snd r)))
          (gray16_buffered dec finish_input_pass consume_input e)"
    by (simp only: p)
qed

text \<open>
  Witness: the decoder that delivers the blocks of DC values 1, 2, 3, 4.
\<close>

theorem gray16_single_pass_equals_buffered_witness:
  "gray16_buffered count_dec Suc consume_input_starved 0 = gray16_single_pass count_dec Suc 0 \<and>
   map_option (map (\<lambda>r. (fst r, map idct_coef_block (snd r)))) (gray16_single_pass count_dec Suc 0)
     = Some [(JPEG_ROW_COMPLETED, [dc_block 1, dc_block 2]),
             (JPEG_SCAN_COMPLETED, [dc_block 3, dc_block 4])]"
proof -
  have "map_option (map (\<lambda>r. (fst r, map idct_coef_block (snd r))))
          (gray16_single_pass count_dec Suc 0)
          = Some [(JPEG_ROW_COMPLETED, [dc_block 1, dc_block 2]),
                  (JPEG_SCAN_COMPLETED, [dc_block 3, dc_block 4])]"
    by (simp add: gray16_simps example_simps)
  with conjunct1 [OF gray16_single_pass_equals_buffered [of count_dec Suc 0 consume_input_starved]]
  show ?thesis
    by (simp only: simp_thms)
qed

subsection \<open>Suspension of the single-pass path\<close>

text \<open>
  C1: suspension is transparent. Take a state of the controller with at least one MCU
  per row, whose saved position is the MCU row offset \<open>MCU_vert_offset\<close> and the MCU
  column \<open>MCU_ctr\<close>.

  \<^item> For any entropy decoder \<open>dec\<close> that always delivers the MCU and any schedule of
  suspensions injected at the calls of \<^verbatim>\<open>decode_mcu\<close> (at an entry \<open>True\<close> the call
  reports insufficient input): the call of \<open>decompress_onepass\<close> without suspensions
  returns, with a status other than \<open>JPEG_SUSPENDED\<close>; and with the suspensions, repeating
  the call on the state that the suspended call left, until it does not suspend,
  returns as well, with the same status, the same state of the entropy decoder (no MCU
  is decoded twice or skipped), the same inverse-DCT calls in the same order (no block
  is written twice), and the same state of the controller except possibly for the saved
  row offset, which the code resets only when a further row-group follows (status
  \<open>JPEG_ROW_COMPLETED\<close>, and then the two states are equal).

  \<^item> For any \<^verbatim>\<open>decode_mcu\<close>, when the saved position is inside the row-group: the call
  gives \<^verbatim>\<open>decode_mcu\<close> the zeroed blocks of the MCU at the saved position. If
  \<^verbatim>\<open>decode_mcu\<close> reports insufficient input, the call returns \<open>JPEG_SUSPENDED\<close> at once,
  with no inverse-DCT call, the decoder state that \<^verbatim>\<open>decode_mcu\<close> left, and the saved
  position unchanged. If it delivers the MCU, the call makes the inverse-DCT calls of
  the MCU at the saved column and row offset, and goes on exactly as a call from the
  next position does (the next column, or column 0 of the next MCU row after the last
  column): same status, same decoder state, same further inverse-DCT calls, and the same
  controller state except for the saved row offset when the scan completes.

  \<^item> A call that returns \<open>JPEG_SUSPENDED\<close> leaves a saved position inside the row-group,
  not before the row offset it started from, and changes nothing else but the block
  pool; so the two cases above describe the call that resumes from it.
\<close>

theorem decompress_onepass_suspension_transparent:
  assumes "MCUs_per_row cinfo \<noteq> 0"
  shows "(\<exists>status e' cinfo' calls.
            decompress_onepass (no_suspension dec) finish_input_pass e cinfo
              = Some (status, e', cinfo', calls) \<and>
            status \<noteq> JPEG_SUSPENDED \<and>
            (\<exists>rest cinfo2.
               onepass_with_retries (inject_suspensions dec) (apsnd finish_input_pass)
                   (schedule, e) cinfo
                 = Some (status, (rest, e'), cinfo2, calls) \<and>
               cinfo2 = set_vert_offset (MCU_vert_offset (coef cinfo2)) cinfo' \<and>
               (status = JPEG_ROW_COMPLETED \<longrightarrow> cinfo2 = cinfo'))) \<and>
         (\<forall>decode_mcu w ok w1 blocks cinfo1.
            MCU_vert_offset (coef cinfo) < MCU_rows_per_iMCU_row (coef cinfo) \<and>
            MCU_ctr (coef cinfo) \<le> MCUs_per_row cinfo - 1 \<and>
            decode_mcu w (take (nat (blocks_in_MCU cinfo))
                            (jzero_far (nat (blocks_in_MCU cinfo)) (MCU_buffer (coef cinfo))))
              = (ok, w1, blocks) \<and>
            cinfo1 = cinfo\<lparr>coef := (coef cinfo)\<lparr>MCU_buffer := store_MCU_blocks blocks
                        (jzero_far (nat (blocks_in_MCU cinfo)) (MCU_buffer (coef cinfo)))\<rparr>\<rparr> \<longrightarrow>
            (if ok
             then \<exists>status2 w2 cinfo2 calls2.
                    decompress_onepass decode_mcu finish_input_pass w1
                      (if MCU_ctr (coef cinfo) < MCUs_per_row cinfo - 1
                       then set_position (MCU_vert_offset (coef cinfo))
                              (MCU_ctr (coef cinfo) + 1) cinfo1
                       else set_position (MCU_vert_offset (coef cinfo) + 1) 0 cinfo1)
                      = Some (status2, w2, cinfo2, calls2) \<and>
                    decompress_onepass decode_mcu finish_input_pass w cinfo
                      = Some (status2, w2,
                              if status2 = JPEG_SCAN_COMPLETED
                              then set_vert_offset (MCU_vert_offset (coef cinfo)) cinfo2
                              else cinfo2,
                              onepass_ci_loop cinfo1 (MCU_buffer (coef cinfo1))
                                (MCU_ctr (coef cinfo)) (MCU_vert_offset (coef cinfo)) 0 0
                              @ calls2)
             else decompress_onepass decode_mcu finish_input_pass w cinfo
                    = Some (JPEG_SUSPENDED, w1, cinfo1, []) \<and>
                  MCU_vert_offset (coef cinfo1) = MCU_vert_offset (coef cinfo) \<and>
                  MCU_ctr (coef cinfo1) = MCU_ctr (coef cinfo))) \<and>
         (\<forall>decode_mcu w w' cinfo' calls.
            decompress_onepass decode_mcu finish_input_pass w cinfo
              = Some (JPEG_SUSPENDED, w', cinfo', calls) \<longrightarrow>
            MCU_vert_offset (coef cinfo) \<le> MCU_vert_offset (coef cinfo') \<and>
            MCU_vert_offset (coef cinfo') < MCU_rows_per_iMCU_row (coef cinfo') \<and>
            MCU_ctr (coef cinfo') \<le> MCUs_per_row cinfo' - 1 \<and>
            onepass_unchanged cinfo cinfo')"
proof (intro conjI allI impI)
  show "\<exists>status e' cinfo' calls.
            decompress_onepass (no_suspension dec) finish_input_pass e cinfo
              = Some (status, e', cinfo', calls) \<and>
            status \<noteq> JPEG_SUSPENDED \<and>
            (\<exists>rest cinfo2.
               onepass_with_retries (inject_suspensions dec) (apsnd finish_input_pass)
                   (schedule, e) cinfo
                 = Some (status, (rest, e'), cinfo2, calls) \<and>
               cinfo2 = set_vert_offset (MCU_vert_offset (coef cinfo2)) cinfo' \<and>
               (status = JPEG_ROW_COMPLETED \<longrightarrow> cinfo2 = cinfo'))"
    by (rule onepass_with_retries_transparent [OF assms])
next
  fix decode_mcu :: "'a decode_mcu_method" and w ok w1 blocks cinfo1
  let ?zeroed = "jzero_far (nat (blocks_in_MCU cinfo)) (MCU_buffer (coef cinfo))"
  assume a: "MCU_vert_offset (coef cinfo) < MCU_rows_per_iMCU_row (coef cinfo) \<and>
            MCU_ctr (coef cinfo) \<le> MCUs_per_row cinfo - 1 \<and>
            decode_mcu w (take (nat (blocks_in_MCU cinfo)) ?zeroed) = (ok, w1, blocks) \<and>
            cinfo1 = cinfo\<lparr>coef := (coef cinfo)\<lparr>MCU_buffer :=
                       store_MCU_blocks blocks ?zeroed\<rparr>\<rparr>"
  show "if ok
        then \<exists>status2 w2 cinfo2 calls2.
               decompress_onepass decode_mcu finish_input_pass w1
                 (if MCU_ctr (coef cinfo) < MCUs_per_row cinfo - 1
                  then set_position (MCU_vert_offset (coef cinfo))
                         (MCU_ctr (coef cinfo) + 1) cinfo1
                  else set_position (MCU_vert_offset (coef cinfo) + 1) 0 cinfo1)
                 = Some (status2, w2, cinfo2, calls2) \<and>
               decompress_onepass decode_mcu finish_input_pass w cinfo
                 = Some (status2, w2,
                         if status2 = JPEG_SCAN_COMPLETED
                         then set_vert_offset (MCU_vert_offset (coef cinfo)) cinfo2
                         else cinfo2,
                         onepass_ci_loop cinfo1 (MCU_buffer (coef cinfo1))
                           (MCU_ctr (coef cinfo)) (MCU_vert_offset (coef cinfo)) 0 0
                         @ calls2)
        else decompress_onepass decode_mcu finish_input_pass w cinfo
               = Some (JPEG_SUSPENDED, w1, cinfo1, []) \<and>
             MCU_vert_offset (coef cinfo1) = MCU_vert_offset (coef cinfo) \<and>
             MCU_ctr (coef cinfo1) = MCU_ctr (coef cinfo)"
  proof (cases ok)
    case True
    with a have d: "decode_mcu w (take (nat (blocks_in_MCU cinfo)) ?zeroed) = (True, w1, blocks)"
      by simp
    from a have c1: "cinfo1 = cinfo\<lparr>coef := (coef cinfo)\<lparr>MCU_buffer :=
                       store_MCU_blocks blocks ?zeroed\<rparr>\<rparr>"
      by simp
    from decompress_onepass_first_decode_succeeds
           [where d = decode_mcu and w = w and ci = cinfo and fin = finish_input_pass,
            OF assms a [THEN conjunct1] a [THEN conjunct2, THEN conjunct1] d c1]
      True
    show ?thesis
      by simp
  next
    case False
    with a have d: "decode_mcu w (take (nat (blocks_in_MCU cinfo)) ?zeroed) = (False, w1, blocks)"
      by simp
    from decompress_onepass_first_decode_fails
           [where d = decode_mcu and w = w and ci = cinfo and fin = finish_input_pass,
            OF a [THEN conjunct1] a [THEN conjunct2, THEN conjunct1] d]
      a False
    show ?thesis
      by simp
  qed
next
  fix decode_mcu :: "'a decode_mcu_method" and w w' cinfo' calls
  assume "decompress_onepass decode_mcu finish_input_pass w cinfo
            = Some (JPEG_SUSPENDED, w', cinfo', calls)"
  from decompress_onepass_saved_position [OF this]
  show "MCU_vert_offset (coef cinfo) \<le> MCU_vert_offset (coef cinfo')"
    and "MCU_vert_offset (coef cinfo') < MCU_rows_per_iMCU_row (coef cinfo')"
    and "MCU_ctr (coef cinfo') \<le> MCUs_per_row cinfo' - 1"
    and "onepass_unchanged cinfo cinfo'"
    by simp_all
qed

text \<open>
  Witness: the first row-group of the 16 by 24 image, two MCU rows of two MCUs, with
  an entropy decoder that numbers the MCUs. Without suspensions the call decodes the
  four MCUs and makes their four inverse-DCT calls. With suspensions injected at the
  fourth and the fifth call of the entropy decoder, the first call decodes three MCUs,
  makes their three inverse-DCT calls and returns \<open>JPEG_SUSPENDED\<close> with MCU row offset 1
  and MCU column 1 saved; the second call returns \<open>JPEG_SUSPENDED\<close> at once and leaves
  the state as it is; the third call decodes the fourth MCU only, makes its
  inverse-DCT call at sample row 8 and sample column 8, and completes the row-group in
  the state of the run without suspensions.
\<close>

theorem decompress_onepass_suspension_transparent_witness:
  "\<exists>cinfo' a b c d X rest.
     MCUs_per_row (start_input_pass (jinit_d_coef_controller gray24 False)) \<noteq> 0 \<and>
     decompress_onepass (no_suspension count_dec) Suc 0
         (start_input_pass (jinit_d_coef_controller gray24 False))
       = Some (JPEG_ROW_COMPLETED, 4, cinfo', [a, b, c, d]) \<and>
     idct_output_row a = 0 \<and> idct_output_col a = 0 \<and> idct_coef_block a = dc_block 1 \<and>
     idct_output_row b = 0 \<and> idct_output_col b = 8 \<and> idct_coef_block b = dc_block 2 \<and>
     idct_output_row c = 8 \<and> idct_output_col c = 0 \<and> idct_coef_block c = dc_block 3 \<and>
     idct_output_row d = 8 \<and> idct_output_col d = 8 \<and> idct_coef_block d = dc_block 4 \<and>
     decompress_onepass (inject_suspensions count_dec) (apsnd Suc)
         ([False, False, False, True, True], 0)
         (start_input_pass (jinit_d_coef_controller gray24 False))
       = Some (JPEG_SUSPENDED, ([True], 3), X, [a, b, c]) \<and>
     MCU_vert_offset (coef X) = 1 \<and> MCU_ctr (coef X) = 1 \<and>
     decompress_onepass (inject_suspensions count_dec) (apsnd Suc) ([True], 3) X
       = Some (JPEG_SUSPENDED, ([], 3), X, []) \<and>
     decompress_onepass (inject_suspensions count_dec) (apsnd Suc) ([], 3) X
       = Some (JPEG_ROW_COMPLETED, ([], 4), cinfo', [d]) \<and>
     onepass_with_retries (inject_suspensions count_dec) (apsnd Suc)
         ([False, False, False, True, True], 0)
         (start_input_pass (jinit_d_coef_controller gray24 False))
       = Some (JPEG_ROW_COMPLETED, (rest, 4), cinfo', [a, b, c, d])"
proof -
  let ?c = "start_input_pass (jinit_d_coef_controller gray24 False)"
  have h: "MCUs_per_row ?c \<noteq> 0"
    by (simp add: onepass_run_simps example_simps gray24_def)
  have "\<exists>cinfo' a b c d X.
     decompress_onepass (no_suspension count_dec) Suc 0 ?c
       = Some (JPEG_ROW_COMPLETED, 4, cinfo', [a, b, c, d]) \<and>
     idct_output_row a = 0 \<and> idct_output_col a = 0 \<and> idct_coef_block a = dc_block 1 \<and>
     idct_output_row b = 0 \<and> idct_output_col b = 8 \<and> idct_coef_block b = dc_block 2 \<and>
     idct_output_row c = 8 \<and> idct_output_col c = 0 \<and> idct_coef_block c = dc_block 3 \<and>
     idct_output_row d = 8 \<and> idct_output_col d = 8 \<and> idct_coef_block d = dc_block 4 \<and>
     decompress_onepass (inject_suspensions count_dec) (apsnd Suc)
         ([False, False, False, True, True], 0) ?c
       = Some (JPEG_SUSPENDED, ([True], 3), X, [a, b, c]) \<and>
     MCU_vert_offset (coef X) = 1 \<and> MCU_ctr (coef X) = 1 \<and>
     decompress_onepass (inject_suspensions count_dec) (apsnd Suc) ([True], 3) X
       = Some (JPEG_SUSPENDED, ([], 3), X, []) \<and>
     decompress_onepass (inject_suspensions count_dec) (apsnd Suc) ([], 3) X
       = Some (JPEG_ROW_COMPLETED, ([], 4), cinfo', [d])"
    by (simp add: onepass_run_simps example_simps gray24_def inject_suspensions_def)
  then obtain cinfo' a b c d X
    where r: "decompress_onepass (no_suspension count_dec) Suc 0 ?c
                = Some (JPEG_ROW_COMPLETED, 4, cinfo', [a, b, c, d])"
      and v: "idct_output_row a = 0" "idct_output_col a = 0" "idct_coef_block a = dc_block 1"
        "idct_output_row b = 0" "idct_output_col b = 8" "idct_coef_block b = dc_block 2"
        "idct_output_row c = 8" "idct_output_col c = 0" "idct_coef_block c = dc_block 3"
        "idct_output_row d = 8" "idct_output_col d = 8" "idct_coef_block d = dc_block 4"
      and s: "decompress_onepass (inject_suspensions count_dec) (apsnd Suc)
                  ([False, False, False, True, True], 0) ?c
                = Some (JPEG_SUSPENDED, ([True], 3), X, [a, b, c])"
        "MCU_vert_offset (coef X) = 1" "MCU_ctr (coef X) = 1"
        "decompress_onepass (inject_suspensions count_dec) (apsnd Suc) ([True], 3) X
           = Some (JPEG_SUSPENDED, ([], 3), X, [])"
        "decompress_onepass (inject_suspensions count_dec) (apsnd Suc) ([], 3) X
           = Some (JPEG_ROW_COMPLETED, ([], 4), cinfo', [d])"
    by blast
  from decompress_onepass_suspension_transparent
         [OF h, of count_dec Suc 0 "[False, False, False, True, True]", THEN conjunct1]
  have "\<exists>rest. onepass_with_retries (inject_suspensions count_dec) (apsnd Suc)
        ([False, False, False, True, True], 0) ?c
        = Some (JPEG_ROW_COMPLETED, (rest, 4), cinfo', [a, b, c, d])"
    unfolding r by auto
  with h r v s show ?thesis
    by blast
qed

end
